theory Spec2Isabelle
  imports Main "HOL-Library.Word" "HOL-Library.Signed_Division"
begin

section \<open>Machine integers\<close>

text \<open>
  The C \<open>int\<close> and \<open>unsigned int\<close> of the source are 32 bits wide. They are modelled as
  \<open>int\<close> with the conversions written out: \<open>to_unsigned\<close> is the cast
  \<open>(unsigned int)\<close> and unsigned arithmetic, \<open>to_signed\<close> is two's complement \<open>int\<close>
  arithmetic. C division truncates towards zero: \<open>sdiv\<close>.

  A loop \<open>for (i = 0; i < n; i++)\<close> runs \<open>i\<close> over the naturals below its bound (the
  \<open>int\<close> counter of the source does so for every bound an \<open>int\<close> can hold).
\<close>

definition to_unsigned :: "int \<Rightarrow> int" where
  "to_unsigned x = x mod 2 ^ 32"

definition to_signed :: "int \<Rightarrow> int" where
  "to_signed x = (x + 2 ^ 31) mod 2 ^ 32 - 2 ^ 31"

definition sizeof_float :: nat where
  "sizeof_float = 4"

section \<open>Data model\<close>

text \<open>
  The header \<open>deeplearn_dnc.h\<close> is not part of the sources at hand. The fields of
  \<open>deeplearn_dnc\<close> are the ones \<open>deeplearn_dnc.c\<close> reads and writes; the build-time
  constants \<open>DEEPLEARNDNC_READ_HEADS\<close>, \<open>DEEPLEARNDNC_WRITE_HEADS\<close> and
  \<open>DEEPLEARNDNC_USAGE_BLOCK_SIZE\<close> are parameters (fields of \<open>env\<close>).
\<close>

datatype ptr = Null | Ptr nat

text \<open>
  A heap block is what one \<open>malloc\<close> call returned: the bytes of a \<open>float\<close> buffer, the
  slots of the \<open>float**\<close> array, or the controller object (\<open>deeplearn\<close>, opaque).
\<close>

datatype 'c block = Bytes "8 word list" | Ptrs "ptr list" | Net 'c

datatype fault = NullPointer | WildPointer | OutOfBounds | InvalidFree

text \<open>The calls to the two release procedures, \<open>free\<close> and \<open>deeplearn_free\<close>, in call order.\<close>

datatype event = Free ptr | NetFree ptr

record dnc_memory =
  mem_size :: int
  mem_width :: int
  mem_address :: ptr
  mem_usage :: ptr
  mem_usage_temporal :: "ptr list"

record dnc_read_head =
  rh_key :: ptr

record dnc_write_head =
  wh_write :: ptr
  wh_erase :: ptr
  wh_key :: ptr

record deeplearn_dnc =
  controller :: ptr
  memory :: dnc_memory
  read_head :: "dnc_read_head list"
  write_head :: "dnc_write_head list"
  no_of_inputs :: int
  no_of_outputs :: int

text \<open>
  The program state: the \<open>deeplearn_dnc\<close> object the caller passes as \<open>learner\<close>, the
  heap (address \<open>a\<close> is index \<open>a\<close>; a released block is \<open>None\<close>), the number of
  \<open>malloc\<close> calls made so far, and the release calls made so far.
\<close>

record 'c state =
  learner :: deeplearn_dnc
  heap :: "'c block option list"
  mallocs :: nat
  trace :: "event list"

text \<open>
  The environment of the module: the build-time constants, the size of a pointer, the
  allocator (whether the \<open>k\<close>-th \<open>malloc\<close> call returns \<open>NULL\<close>, and what the block it
  returns holds: \<open>malloc\<close> does not initialise), and the controller library
  (\<open>deeplearn.c\<close>, an external collaborator) as functions on the controller object.
  \<open>deeplearn_init\<close> returns its \<open>int\<close> status and the initialised object.
\<close>

record ('c, 't, 'r) env =
  DEEPLEARNDNC_READ_HEADS :: nat
  DEEPLEARNDNC_WRITE_HEADS :: nat
  DEEPLEARNDNC_USAGE_BLOCK_SIZE :: int
  sizeof_float_ptr :: nat
  malloc_fails :: "nat \<Rightarrow> bool"
  fresh_bytes :: "nat \<Rightarrow> nat \<Rightarrow> 8 word"
  fresh_ptrs :: "nat \<Rightarrow> nat \<Rightarrow> ptr"
  fresh_net :: "nat \<Rightarrow> 'c"
  deeplearn_init :: "int \<Rightarrow> int \<Rightarrow> int \<Rightarrow> int \<Rightarrow> 't \<Rightarrow> 'r \<Rightarrow> 'c \<Rightarrow> int \<times> 'c"
  deeplearn_feed_forward :: "'c \<Rightarrow> 'c"
  deeplearn_update :: "'c \<Rightarrow> 'c"
  deeplearn_free :: "'c \<Rightarrow> 'c"

text \<open>The arrays of the struct have their declared lengths.\<close>

definition dnc_shape :: "('c, 't, 'r) env \<Rightarrow> deeplearn_dnc \<Rightarrow> bool" where
  "dnc_shape env l =
     (length (mem_usage_temporal (memory l)) =
        DEEPLEARNDNC_READ_HEADS env + DEEPLEARNDNC_WRITE_HEADS env \<and>
      length (read_head l) = DEEPLEARNDNC_READ_HEADS env \<and>
      length (write_head l) = DEEPLEARNDNC_WRITE_HEADS env)"

section \<open>The C library: malloc, free, memset, pointer access\<close>

definition malloc :: "('c, 't, 'r) env \<Rightarrow> (nat \<Rightarrow> 'c block) \<Rightarrow> 'c state \<Rightarrow> ptr \<times> 'c state" where
  "malloc env fresh s =
     (if malloc_fails env (mallocs s) then (Null, s\<lparr>mallocs := Suc (mallocs s)\<rparr>)
      else (Ptr (length (heap s)),
            s\<lparr>heap := heap s @ [Some (fresh (mallocs s))], mallocs := Suc (mallocs s)\<rparr>))"

text \<open>
  The byte count \<open>n * sizeof(T)\<close> handed to \<open>malloc\<close> and \<open>memset\<close> is computed in
  \<open>size_t\<close>, which is as wide as a pointer: the count \<open>n\<close> is converted (a negative
  \<open>int\<close> wraps around) and the product is reduced modulo \<open>2 ^ (8 * sizeof(float*))\<close>.
\<close>

definition byte_count :: "('c, 't, 'r) env \<Rightarrow> int \<Rightarrow> nat \<Rightarrow> nat" where
  "byte_count env n sz = nat ((n * int sz) mod 2 ^ (8 * sizeof_float_ptr env))"

text \<open>
  \<open>malloc(n * sizeof(float))\<close> returns a buffer of that many bytes, and
  \<open>malloc(n * sizeof(float*))\<close> an array of as many pointer slots as fit in its bytes.
\<close>

definition malloc_floats :: "('c, 't, 'r) env \<Rightarrow> int \<Rightarrow> 'c state \<Rightarrow> ptr \<times> 'c state" where
  "malloc_floats env n =
     malloc env (\<lambda>k. Bytes (map (fresh_bytes env k) [0..<byte_count env n sizeof_float]))"

definition malloc_ptrs :: "('c, 't, 'r) env \<Rightarrow> int \<Rightarrow> 'c state \<Rightarrow> ptr \<times> 'c state" where
  "malloc_ptrs env n =
     malloc env (\<lambda>k. Ptrs (map (fresh_ptrs env k)
       [0..<byte_count env n (sizeof_float_ptr env) div sizeof_float_ptr env]))"

definition malloc_net :: "('c, 't, 'r) env \<Rightarrow> 'c state \<Rightarrow> ptr \<times> 'c state" where
  "malloc_net env = malloc env (\<lambda>k. Net (fresh_net env k))"

definition lookup :: "'c state \<Rightarrow> ptr \<Rightarrow> fault + nat \<times> 'c block" where
  "lookup s p =
     (case p of
        Null \<Rightarrow> Inl NullPointer
      | Ptr a \<Rightarrow>
          (if a < length (heap s) then
             (case heap s ! a of None \<Rightarrow> Inl WildPointer | Some b \<Rightarrow> Inr (a, b))
           else Inl WildPointer))"

text \<open>\<open>free(NULL)\<close> does nothing; freeing anything but a live block is a fault.\<close>

definition free :: "ptr \<Rightarrow> 'c state \<Rightarrow> fault + 'c state" where
  "free p s =
     (case p of
        Null \<Rightarrow> Inr (s\<lparr>trace := trace s @ [Free Null]\<rparr>)
      | Ptr a \<Rightarrow>
          (case lookup s p of
             Inl e \<Rightarrow> Inl InvalidFree
           | Inr b \<Rightarrow> Inr (s\<lparr>heap := (heap s)[a := None], trace := trace s @ [Free p]\<rparr>)))"

definition load_ptr :: "'c state \<Rightarrow> ptr \<Rightarrow> nat \<Rightarrow> fault + ptr" where
  "load_ptr s p i =
     (case lookup s p of
        Inl e \<Rightarrow> Inl e
      | Inr ab \<Rightarrow>
          (case snd ab of
             Ptrs ps \<Rightarrow> if i < length ps then Inr (ps ! i) else Inl OutOfBounds
           | _ \<Rightarrow> Inl WildPointer))"

definition store_ptr :: "ptr \<Rightarrow> nat \<Rightarrow> ptr \<Rightarrow> 'c state \<Rightarrow> fault + 'c state" where
  "store_ptr p i v s =
     (case lookup s p of
        Inl e \<Rightarrow> Inl e
      | Inr ab \<Rightarrow>
          (case snd ab of
             Ptrs ps \<Rightarrow>
               if i < length ps then Inr (s\<lparr>heap := (heap s)[fst ab := Some (Ptrs (ps[i := v]))]\<rparr>)
               else Inl OutOfBounds
           | _ \<Rightarrow> Inl WildPointer))"

text \<open>\<open>memset(p, '\0', n)\<close> on a \<open>float\<close> buffer: the first \<open>n\<close> bytes become zero.\<close>

definition memset_zero :: "ptr \<Rightarrow> nat \<Rightarrow> 'c state \<Rightarrow> fault + 'c state" where
  "memset_zero p n s =
     (case lookup s p of
        Inl e \<Rightarrow> Inl e
      | Inr ab \<Rightarrow>
          (case snd ab of
             Bytes bs \<Rightarrow>
               if n \<le> length bs
               then Inr (s\<lparr>heap := (heap s)[fst ab := Some (Bytes (replicate n 0 @ drop n bs))]\<rparr>)
               else Inl OutOfBounds
           | _ \<Rightarrow> Inl WildPointer))"

text \<open>
  \<open>memset\<close> on an array of pointers that is a member of the struct, over \<open>k\<close> pointer
  sizes: the first \<open>k\<close> slots become the null pointer. The fields that follow the array
  are declared in the missing header, so writing past its end is a fault here.
\<close>

definition memset_slots :: "nat \<Rightarrow> ptr list \<Rightarrow> fault + ptr list" where
  "memset_slots k ps =
     (if k \<le> length ps then Inr (replicate k Null @ drop k ps) else Inl OutOfBounds)"

text \<open>A library routine applied to the object \<open>learner->controller\<close> points to.\<close>

definition on_controller :: "('c \<Rightarrow> 'c) \<Rightarrow> 'c state \<Rightarrow> fault + 'c state" where
  "on_controller f s =
     (case lookup s (controller (learner s)) of
        Inl e \<Rightarrow> Inl e
      | Inr ab \<Rightarrow>
          (case snd ab of
             Net c \<Rightarrow> Inr (s\<lparr>heap := (heap s)[fst ab := Some (Net (f c))]\<rparr>)
           | _ \<Rightarrow> Inl WildPointer))"

section \<open>Allocation of the memory bank, the usage tracker and the heads\<close>

text \<open>
  The loop of \<open>deeplearn_dnc_init_memory\<close> (lines 60 to 64), from index \<open>i\<close>. Its bound
  \<open>n\<close> is \<open>learner->memory.size\<close>, which the body does not write. The result is the
  value the function returns: \<open>2\<close> from inside the loop, \<open>0\<close> after it.
\<close>

function alloc_vectors ::
  "('c, 't, 'r) env \<Rightarrow> nat \<Rightarrow> nat \<Rightarrow> 'c state \<Rightarrow> fault + int \<times> 'c state" where
  "alloc_vectors env n i s =
     (if i < n then
        (case malloc_floats env (mem_width (memory (learner s))) s of
           (p, s1) \<Rightarrow>
             (case store_ptr (mem_address (memory (learner s1))) i p s1 of
                Inl e \<Rightarrow> Inl e
              | Inr s2 \<Rightarrow> if p = Null then Inr (2, s2) else alloc_vectors env n (Suc i) s2))
      else Inr (0, s))"
  by pat_completeness auto
termination
  by (relation "measure (\<lambda>(env, n, i, s). n - i)") auto

definition deeplearn_dnc_init_memory ::
  "('c, 't, 'r) env \<Rightarrow> int \<Rightarrow> int \<Rightarrow> 'c state \<Rightarrow> fault + int \<times> 'c state" where
  "deeplearn_dnc_init_memory env memory_size memory_width s =
     (let s1 = learner_update (memory_update (\<lambda>m. m
                 \<lparr>mem_size := to_unsigned
                    ((memory_size sdiv DEEPLEARNDNC_USAGE_BLOCK_SIZE env) *
                     DEEPLEARNDNC_USAGE_BLOCK_SIZE env),
                  mem_width := to_unsigned memory_width\<rparr>)) s
      in case malloc_ptrs env (mem_size (memory (learner s1))) s1 of
           (p, s2) \<Rightarrow>
             (let s3 = learner_update (memory_update (\<lambda>m. m\<lparr>mem_address := p\<rparr>)) s2
              in if p = Null then Inr (1, s3)
                 else alloc_vectors env (nat (mem_size (memory (learner s3)))) 0 s3))"

text \<open>
  The local \<open>memory_usage_size\<close> of \<open>deeplearn_dnc_init_memory_usage\<close> and of
  \<open>deeplearn_dnc_clear_memory\<close>: an unsigned division, stored in an \<open>int\<close>.
\<close>

definition memory_usage_size :: "('c, 't, 'r) env \<Rightarrow> 'c state \<Rightarrow> int" where
  "memory_usage_size env s =
     to_signed (mem_size (memory (learner s)) div
                to_unsigned (DEEPLEARNDNC_USAGE_BLOCK_SIZE env))"

text \<open>
  The loop of \<open>deeplearn_dnc_init_memory_usage\<close> (lines 99 to 103). Each matrix has
  \<open>cells\<close> floats, the \<open>int\<close> product
  \<open>memory_usage_size * memory_usage_size\<close>.
\<close>

function alloc_usage_temporal ::
  "('c, 't, 'r) env \<Rightarrow> int \<Rightarrow> nat \<Rightarrow> 'c state \<Rightarrow> int \<times> 'c state" where
  "alloc_usage_temporal env cells i s =
     (if i < DEEPLEARNDNC_READ_HEADS env + DEEPLEARNDNC_WRITE_HEADS env then
        (case malloc_floats env cells s of
           (p, s1) \<Rightarrow>
             (let s2 = learner_update (memory_update
                         (mem_usage_temporal_update (\<lambda>ps. ps[i := p]))) s1
              in if p = Null then (2, s2) else alloc_usage_temporal env cells (Suc i) s2))
      else (0, s))"
  by pat_completeness auto
termination
  by (relation "measure (\<lambda>(env, cells, i, s).
        DEEPLEARNDNC_READ_HEADS env + DEEPLEARNDNC_WRITE_HEADS env - i)") auto

definition deeplearn_dnc_init_memory_usage ::
  "('c, 't, 'r) env \<Rightarrow> 'c state \<Rightarrow> int \<times> 'c state" where
  "deeplearn_dnc_init_memory_usage env s =
     (let n = memory_usage_size env s
      in case malloc_floats env n s of
           (p, s1) \<Rightarrow>
             (let s2 = learner_update (memory_update (\<lambda>m. m\<lparr>mem_usage := p\<rparr>)) s1
              in if p = Null then (1, s2)
                 else alloc_usage_temporal env (to_signed (n * n)) 0 s2))"

text \<open>The two loops of \<open>deeplearn_dnc_init_heads\<close> (lines 130 to 133 and 135 to 142).\<close>

function alloc_read_heads ::
  "('c, 't, 'r) env \<Rightarrow> nat \<Rightarrow> 'c state \<Rightarrow> int \<times> 'c state" where
  "alloc_read_heads env i s =
     (if i < DEEPLEARNDNC_READ_HEADS env then
        (case malloc_floats env (mem_width (memory (learner s))) s of
           (p, s1) \<Rightarrow>
             (let s2 = learner_update (read_head_update
                         (\<lambda>hs. hs[i := (hs ! i)\<lparr>rh_key := p\<rparr>])) s1
              in if p = Null then (1, s2) else alloc_read_heads env (Suc i) s2))
      else (0, s))"
  by pat_completeness auto
termination
  by (relation "measure (\<lambda>(env, i, s). DEEPLEARNDNC_READ_HEADS env - i)") auto

function alloc_write_heads ::
  "('c, 't, 'r) env \<Rightarrow> nat \<Rightarrow> 'c state \<Rightarrow> int \<times> 'c state" where
  "alloc_write_heads env i s =
     (if i < DEEPLEARNDNC_WRITE_HEADS env then
        (case malloc_floats env (mem_width (memory (learner s))) s of
           (p, s1) \<Rightarrow>
             (let s2 = learner_update (write_head_update
                         (\<lambda>hs. hs[i := (hs ! i)\<lparr>wh_write := p\<rparr>])) s1
              in if p = Null then (2, s2)
                 else
                   (case malloc_floats env (mem_width (memory (learner s2))) s2 of
                      (q, s3) \<Rightarrow>
                        (let s4 = learner_update (write_head_update
                                    (\<lambda>hs. hs[i := (hs ! i)\<lparr>wh_erase := q\<rparr>])) s3
                         in if q = Null then (3, s4)
                            else
                              (case malloc_floats env
                                      (mem_width (memory (learner s4))) s4 of
                                 (r, s5) \<Rightarrow>
                                   (let s6 = learner_update (write_head_update
                                               (\<lambda>hs. hs[i := (hs ! i)\<lparr>wh_key := r\<rparr>])) s5
                                    in if r = Null then (4, s6)
                                       else alloc_write_heads env (Suc i) s6))))))
      else (0, s))"
  by pat_completeness auto
termination
  by (relation "measure (\<lambda>(env, i, s). DEEPLEARNDNC_WRITE_HEADS env - i)") auto

definition deeplearn_dnc_init_heads ::
  "('c, 't, 'r) env \<Rightarrow> 'c state \<Rightarrow> int \<times> 'c state" where
  "deeplearn_dnc_init_heads env s =
     (case alloc_read_heads env 0 s of
        (r, s1) \<Rightarrow> if r \<noteq> 0 then (r, s1) else alloc_write_heads env 0 s1)"

section \<open>Initialisation\<close>

text \<open>
  The call \<open>deeplearn_init(learner->controller, ...)\<close>: the library routine runs on the
  object the pointer leads to.
\<close>

definition deeplearn_init_call ::
  "('c, 't, 'r) env \<Rightarrow> int \<Rightarrow> int \<Rightarrow> int \<Rightarrow> int \<Rightarrow> 't \<Rightarrow> 'r \<Rightarrow> 'c state \<Rightarrow>
     fault + int \<times> 'c state" where
  "deeplearn_init_call env inputs hiddens layers outputs error_threshold random_seed s =
     (case lookup s (controller (learner s)) of
        Inl e \<Rightarrow> Inl e
      | Inr ab \<Rightarrow>
          (case snd ab of
             Net c \<Rightarrow>
               (case deeplearn_init env inputs hiddens layers outputs
                       error_threshold random_seed c of
                  (status, c') \<Rightarrow>
                    Inr (status, s\<lparr>heap := (heap s)[fst ab := Some (Net c')]\<rparr>))
           | _ \<Rightarrow> Inl WildPointer))"

definition controller_inputs :: "('c, 't, 'r) env \<Rightarrow> int \<Rightarrow> int \<Rightarrow> int" where
  "controller_inputs env no_of_inputs' memory_width =
     to_signed (no_of_inputs' +
       to_signed (memory_width * int (DEEPLEARNDNC_READ_HEADS env)))"

definition controller_outputs :: "('c, 't, 'r) env \<Rightarrow> int \<Rightarrow> int \<Rightarrow> int" where
  "controller_outputs env no_of_outputs' memory_width =
     to_signed
       (to_signed (no_of_outputs' +
          to_signed (memory_width * int (DEEPLEARNDNC_WRITE_HEADS env))) +
        to_signed (to_signed (memory_width + 3) * int (DEEPLEARNDNC_READ_HEADS env)))"

text \<open>
  \<open>retval\<close> is an \<open>unsigned int\<close>: each status is converted on assignment, the sum
  \<open>2000 + retval\<close> is unsigned, and the \<open>int\<close> result converts it back.
\<close>

definition deeplearn_dnc_init ::
  "('c, 't, 'r) env \<Rightarrow> int \<Rightarrow> int \<Rightarrow> int \<Rightarrow> int \<Rightarrow> int \<Rightarrow> int \<Rightarrow> 't \<Rightarrow> 'r \<Rightarrow> 'c state \<Rightarrow>
     fault + int \<times> 'c state" where
  "deeplearn_dnc_init env memory_size memory_width no_of_inputs' no_of_hiddens
       hidden_layers no_of_outputs' error_threshold random_seed s =
     (let s0 = learner_update (\<lambda>l. l\<lparr>no_of_inputs := no_of_inputs',
                                     no_of_outputs := no_of_outputs'\<rparr>) s
      in case malloc_net env s0 of
           (p, s1) \<Rightarrow>
             (let s2 = learner_update (\<lambda>l. l\<lparr>controller := p\<rparr>) s1
              in if p = Null then Inr (1000, s2)
                 else
                   (case deeplearn_dnc_init_memory env memory_size memory_width s2 of
                      Inl e \<Rightarrow> Inl e
                    | Inr (r1, s3) \<Rightarrow>
                        if to_unsigned r1 \<noteq> 0
                        then Inr (to_signed (to_unsigned (2000 + to_unsigned r1)), s3)
                        else
                          (case deeplearn_dnc_init_memory_usage env s3 of
                             (r2, s4) \<Rightarrow>
                               if to_unsigned r2 \<noteq> 0
                               then Inr (to_signed (to_unsigned (3000 + to_unsigned r2)), s4)
                               else
                                 (case deeplearn_dnc_init_heads env s4 of
                                    (r3, s5) \<Rightarrow>
                                      if to_unsigned r3 \<noteq> 0
                                      then Inr (to_signed (to_unsigned
                                                  (4000 + to_unsigned r3)), s5)
                                      else
                                        (case deeplearn_init_call env
                                                (controller_inputs env no_of_inputs'
                                                   memory_width)
                                                no_of_hiddens hidden_layers
                                                (controller_outputs env no_of_outputs'
                                                   memory_width)
                                                error_threshold random_seed s5 of
                                           Inl e \<Rightarrow> Inl e
                                         | Inr (r4, s6) \<Rightarrow>
                                             if to_unsigned r4 \<noteq> 0
                                             then Inr (to_signed (to_unsigned
                                                         (5000 + to_unsigned r4)), s6)
                                             else Inr (0, s6)))))))"

section \<open>Release\<close>

text \<open>The loop of \<open>deeplearn_dnc_free_memory\<close> (lines 76 to 78).\<close>

function free_vectors :: "nat \<Rightarrow> nat \<Rightarrow> 'c state \<Rightarrow> fault + 'c state" where
  "free_vectors n i s =
     (if i < n then
        (case load_ptr s (mem_address (memory (learner s))) i of
           Inl e \<Rightarrow> Inl e
         | Inr p \<Rightarrow>
             (case free p s of
                Inl e \<Rightarrow> Inl e
              | Inr s1 \<Rightarrow> free_vectors n (Suc i) s1))
      else Inr s)"
  by pat_completeness auto
termination
  by (relation "measure (\<lambda>(n, i, s). n - i)") auto

definition deeplearn_dnc_free_memory :: "'c state \<Rightarrow> fault + 'c state" where
  "deeplearn_dnc_free_memory s =
     (case free_vectors (nat (mem_size (memory (learner s)))) 0 s of
        Inl e \<Rightarrow> Inl e
      | Inr s1 \<Rightarrow> free (mem_address (memory (learner s1))) s1)"

text \<open>The loop of \<open>deeplearn_dnc_free_memory_usage\<close> (lines 117 and 118).\<close>

function free_usage_temporal ::
  "('c, 't, 'r) env \<Rightarrow> nat \<Rightarrow> 'c state \<Rightarrow> fault + 'c state" where
  "free_usage_temporal env i s =
     (if i < DEEPLEARNDNC_READ_HEADS env + DEEPLEARNDNC_WRITE_HEADS env then
        (case free (mem_usage_temporal (memory (learner s)) ! i) s of
           Inl e \<Rightarrow> Inl e
         | Inr s1 \<Rightarrow> free_usage_temporal env (Suc i) s1)
      else Inr s)"
  by pat_completeness auto
termination
  by (relation "measure (\<lambda>(env, i, s).
        DEEPLEARNDNC_READ_HEADS env + DEEPLEARNDNC_WRITE_HEADS env - i)") auto

definition deeplearn_dnc_free_memory_usage ::
  "('c, 't, 'r) env \<Rightarrow> 'c state \<Rightarrow> fault + 'c state" where
  "deeplearn_dnc_free_memory_usage env s =
     (case free (mem_usage (memory (learner s))) s of
        Inl e \<Rightarrow> Inl e
      | Inr s1 \<Rightarrow> free_usage_temporal env 0 s1)"

text \<open>The two loops of \<open>deeplearn_dnc_free_heads\<close> (lines 155 to 157 and 159 to 163).\<close>

function free_read_heads ::
  "('c, 't, 'r) env \<Rightarrow> nat \<Rightarrow> 'c state \<Rightarrow> fault + 'c state" where
  "free_read_heads env i s =
     (if i < DEEPLEARNDNC_READ_HEADS env then
        (case free (rh_key (read_head (learner s) ! i)) s of
           Inl e \<Rightarrow> Inl e
         | Inr s1 \<Rightarrow> free_read_heads env (Suc i) s1)
      else Inr s)"
  by pat_completeness auto
termination
  by (relation "measure (\<lambda>(env, i, s). DEEPLEARNDNC_READ_HEADS env - i)") auto

function free_write_heads ::
  "('c, 't, 'r) env \<Rightarrow> nat \<Rightarrow> 'c state \<Rightarrow> fault + 'c state" where
  "free_write_heads env i s =
     (if i < DEEPLEARNDNC_WRITE_HEADS env then
        (case free (wh_write (write_head (learner s) ! i)) s of
           Inl e \<Rightarrow> Inl e
         | Inr s1 \<Rightarrow>
             (case free (wh_erase (write_head (learner s1) ! i)) s1 of
                Inl e \<Rightarrow> Inl e
              | Inr s2 \<Rightarrow>
                  (case free (wh_key (write_head (learner s2) ! i)) s2 of
                     Inl e \<Rightarrow> Inl e
                   | Inr s3 \<Rightarrow> free_write_heads env (Suc i) s3)))
      else Inr s)"
  by pat_completeness auto
termination
  by (relation "measure (\<lambda>(env, i, s). DEEPLEARNDNC_WRITE_HEADS env - i)") auto

definition deeplearn_dnc_free_heads ::
  "('c, 't, 'r) env \<Rightarrow> 'c state \<Rightarrow> fault + 'c state" where
  "deeplearn_dnc_free_heads env s =
     (case free_read_heads env 0 s of
        Inl e \<Rightarrow> Inl e
      | Inr s1 \<Rightarrow> free_write_heads env 0 s1)"

text \<open>
  The call \<open>deeplearn_free(learner->controller)\<close>: the library releases what the
  controller object owns; the call is recorded in the trace.
\<close>

definition deeplearn_free_call :: "('c, 't, 'r) env \<Rightarrow> 'c state \<Rightarrow> fault + 'c state" where
  "deeplearn_free_call env s =
     (case on_controller (deeplearn_free env) s of
        Inl e \<Rightarrow> Inl e
      | Inr s1 \<Rightarrow> Inr (s1\<lparr>trace := trace s1 @ [NetFree (controller (learner s1))]\<rparr>))"

definition deeplearn_dnc_free :: "('c, 't, 'r) env \<Rightarrow> 'c state \<Rightarrow> fault + 'c state" where
  "deeplearn_dnc_free env s =
     (case deeplearn_dnc_free_memory s of
        Inl e \<Rightarrow> Inl e
      | Inr s1 \<Rightarrow>
          (case deeplearn_dnc_free_memory_usage env s1 of
             Inl e \<Rightarrow> Inl e
           | Inr s2 \<Rightarrow>
               (case deeplearn_dnc_free_heads env s2 of
                  Inl e \<Rightarrow> Inl e
                | Inr s3 \<Rightarrow> deeplearn_free_call env s3)))"

section \<open>The steps of a running instance\<close>

definition deeplearn_dnc_update_read_heads :: "'c state \<Rightarrow> 'c state" where
  "deeplearn_dnc_update_read_heads s = s"

definition deeplearn_dnc_update_write_heads :: "'c state \<Rightarrow> 'c state" where
  "deeplearn_dnc_update_write_heads s = s"

definition deeplearn_dnc_feed_forward ::
  "('c, 't, 'r) env \<Rightarrow> 'c state \<Rightarrow> fault + 'c state" where
  "deeplearn_dnc_feed_forward env s =
     on_controller (deeplearn_feed_forward env) (deeplearn_dnc_update_read_heads s)"

definition deeplearn_dnc_update :: "('c, 't, 'r) env \<Rightarrow> 'c state \<Rightarrow> fault + 'c state" where
  "deeplearn_dnc_update env s = on_controller (deeplearn_update env) s"

text \<open>
  Every other public function of the file (lines 264 to 541: the accessors of inputs
  and outputs, save, load, compare, plot, export, learning rate, dropouts, error
  thresholds, \<open>update_continuous\<close>, \<open>training_last_layer\<close>) is one call
  \<open>deeplearn_xxx(learner->controller, ...)\<close>: the library routine \<open>f\<close>, with the other
  arguments of the call, runs on the controller object. What it returns, and what it
  writes to buffers and files of the caller, is no part of this state.
\<close>

definition deeplearn_dnc_pass_through :: "('c \<Rightarrow> 'c) \<Rightarrow> 'c state \<Rightarrow> fault + 'c state" where
  "deeplearn_dnc_pass_through f s = on_controller f s"

text \<open>The loop of \<open>deeplearn_dnc_clear_memory\<close> (lines 552 to 554).\<close>

function clear_vectors ::
  "('c, 't, 'r) env \<Rightarrow> nat \<Rightarrow> nat \<Rightarrow> 'c state \<Rightarrow> fault + 'c state" where
  "clear_vectors env n i s =
     (if i < n then
        (case load_ptr s (mem_address (memory (learner s))) i of
           Inl e \<Rightarrow> Inl e
         | Inr p \<Rightarrow>
             (case memset_zero p
                     (byte_count env (mem_width (memory (learner s))) sizeof_float) s of
                Inl e \<Rightarrow> Inl e
              | Inr s1 \<Rightarrow> clear_vectors env n (Suc i) s1))
      else Inr s)"
  by pat_completeness auto
termination
  by (relation "measure (\<lambda>(env, n, i, s). n - i)") auto

text \<open>
  The second \<open>memset\<close> runs over \<open>memory_usage_size * sizeof(float*)\<close> bytes of the
  usage buffer. The third is given \<open>learner->memory.usage_temporal\<close>, the array of
  pointers in the struct, and \<open>memory_usage_size * memory_usage_size * sizeof(float*)\<close>
  bytes: as many pointer slots of the array as these bytes make up.
\<close>

definition deeplearn_dnc_clear_memory ::
  "('c, 't, 'r) env \<Rightarrow> 'c state \<Rightarrow> fault + 'c state" where
  "deeplearn_dnc_clear_memory env s =
     (let n = memory_usage_size env s
      in case clear_vectors env (nat (mem_size (memory (learner s)))) 0 s of
           Inl e \<Rightarrow> Inl e
         | Inr s1 \<Rightarrow>
             (case memset_zero (mem_usage (memory (learner s1)))
                     (byte_count env n (sizeof_float_ptr env)) s1 of
                Inl e \<Rightarrow> Inl e
              | Inr s2 \<Rightarrow>
                  (case memset_slots
                          (byte_count env (to_signed (n * n)) (sizeof_float_ptr env)
                             div sizeof_float_ptr env)
                          (mem_usage_temporal (memory (learner s2))) of
                     Inl e \<Rightarrow> Inl e
                   | Inr ps \<Rightarrow>
                       Inr (learner_update (memory_update
                              (\<lambda>m. m\<lparr>mem_usage_temporal := ps\<rparr>)) s2))))"

text \<open>The public operations on an initialised instance, and runs of them.\<close>

datatype 'c call =
  Feed_forward | Update | Clear_memory | Update_read_heads | Update_write_heads
  | Release | Pass_through "'c \<Rightarrow> 'c"

fun exec :: "('c, 't, 'r) env \<Rightarrow> 'c call \<Rightarrow> 'c state \<Rightarrow> fault + 'c state" where
  "exec env Feed_forward s = deeplearn_dnc_feed_forward env s"
| "exec env Update s = deeplearn_dnc_update env s"
| "exec env Clear_memory s = deeplearn_dnc_clear_memory env s"
| "exec env Update_read_heads s = Inr (deeplearn_dnc_update_read_heads s)"
| "exec env Update_write_heads s = Inr (deeplearn_dnc_update_write_heads s)"
| "exec env Release s = deeplearn_dnc_free env s"
| "exec env (Pass_through f) s = deeplearn_dnc_pass_through f s"

fun run :: "('c, 't, 'r) env \<Rightarrow> 'c call list \<Rightarrow> 'c state \<Rightarrow> fault + 'c state" where
  "run env [] s = Inr s"
| "run env (c # cs) s = (case exec env c s of Inl e \<Rightarrow> Inl e | Inr s1 \<Rightarrow> run env cs s1)"

text \<open>Reading the \<open>i\<close>-th \<open>float\<close> of a buffer: its four bytes.\<close>

definition float_bytes :: "'c state \<Rightarrow> ptr \<Rightarrow> nat \<Rightarrow> fault + 8 word list" where
  "float_bytes s p i =
     (case lookup s p of
        Inl e \<Rightarrow> Inl e
      | Inr ab \<Rightarrow>
          (case snd ab of
             Bytes bs \<Rightarrow>
               if (i + 1) * sizeof_float \<le> length bs
               then Inr (take sizeof_float (drop (i * sizeof_float) bs))
               else Inl OutOfBounds
           | _ \<Rightarrow> Inl WildPointer))"

definition float_is_zero :: "'c state \<Rightarrow> ptr \<Rightarrow> nat \<Rightarrow> bool" where
  "float_is_zero s p i = (float_bytes s p i = Inr (replicate sizeof_float 0))"

section \<open>Quantities of an initialisation\<close>

text \<open>
  The value \<open>deeplearn_dnc_init_memory\<close> stores in \<open>memory.size\<close>; the number of
  \<open>malloc\<close> calls of an initialisation that is granted all of them (the controller
  object, the array of addresses, one vector per address, the usage vector, one linkage
  matrix per head, one key per read head, three vectors per write head); the value
  \<open>deeplearn_dnc_init\<close> returns when exactly \<open>c\<close> calls are granted before the first
  one is refused and the controller library answers \<open>status\<close>; and what the library makes
  of the fresh controller object, with the arguments \<open>deeplearn_dnc_init\<close> passes.
\<close>

definition bank_size :: "('c, 't, 'r) env \<Rightarrow> int \<Rightarrow> int" where
  "bank_size env memory_size =
     to_unsigned ((memory_size sdiv DEEPLEARNDNC_USAGE_BLOCK_SIZE env) *
                  DEEPLEARNDNC_USAGE_BLOCK_SIZE env)"

definition init_mallocs :: "('c, 't, 'r) env \<Rightarrow> int \<Rightarrow> nat" where
  "init_mallocs env memory_size =
     3 + nat (bank_size env memory_size) +
     (DEEPLEARNDNC_READ_HEADS env + DEEPLEARNDNC_WRITE_HEADS env) +
     DEEPLEARNDNC_READ_HEADS env + 3 * DEEPLEARNDNC_WRITE_HEADS env"

definition init_code :: "('c, 't, 'r) env \<Rightarrow> int \<Rightarrow> int \<Rightarrow> nat \<Rightarrow> int" where
  "init_code env memory_size status c =
     (if c = 0 then 1000 else if c = 1 then 2001
      else if c < 2 + nat (bank_size env memory_size) then 2002
      else if c = 2 + nat (bank_size env memory_size) then 3001
      else if c < 3 + nat (bank_size env memory_size) +
                  (DEEPLEARNDNC_READ_HEADS env + DEEPLEARNDNC_WRITE_HEADS env) then 3002
      else if c < 3 + nat (bank_size env memory_size) +
                  (DEEPLEARNDNC_READ_HEADS env + DEEPLEARNDNC_WRITE_HEADS env) +
                  DEEPLEARNDNC_READ_HEADS env then 4001
      else if c < 3 + nat (bank_size env memory_size) +
                  (DEEPLEARNDNC_READ_HEADS env + DEEPLEARNDNC_WRITE_HEADS env) +
                  DEEPLEARNDNC_READ_HEADS env + 3 * DEEPLEARNDNC_WRITE_HEADS env
      then 4002 + int ((c - (3 + nat (bank_size env memory_size) +
                  (DEEPLEARNDNC_READ_HEADS env + DEEPLEARNDNC_WRITE_HEADS env) +
                  DEEPLEARNDNC_READ_HEADS env)) mod 3)
      else if to_unsigned status \<noteq> 0
           then to_signed (to_unsigned (5000 + to_unsigned status)) else 0)"

definition made_controller ::
  "('c, 't, 'r) env \<Rightarrow> int \<Rightarrow> int \<Rightarrow> int \<Rightarrow> int \<Rightarrow> int \<Rightarrow> 't \<Rightarrow> 'r \<Rightarrow> nat \<Rightarrow> int \<times> 'c" where
  "made_controller env memory_width no_of_inputs' no_of_hiddens hidden_layers no_of_outputs'
       error_threshold random_seed k =
     deeplearn_init env (controller_inputs env no_of_inputs' memory_width) no_of_hiddens
       hidden_layers (controller_outputs env no_of_outputs' memory_width)
       error_threshold random_seed (fresh_net env k)"

text \<open>
  The array \<open>malloc(memory.size * sizeof(float*))\<close> returns has a slot for every
  address: the byte count did not wrap around. A vector of \<open>memory.width\<close> floats has
  all its bytes likewise.
\<close>

definition bank_fits :: "('c, 't, 'r) env \<Rightarrow> int \<Rightarrow> bool" where
  "bank_fits env memory_size =
     (nat (bank_size env memory_size) \<le>
        byte_count env (bank_size env memory_size) (sizeof_float_ptr env)
          div sizeof_float_ptr env)"

definition width_fits :: "('c, 't, 'r) env \<Rightarrow> int \<Rightarrow> bool" where
  "width_fits env memory_width =
     (to_unsigned memory_width * int sizeof_float < 2 ^ (8 * sizeof_float_ptr env))"

text \<open>A \<open>float\<close> buffer whose first \<open>n\<close> bytes are zero.\<close>

definition zeroed :: "'c state \<Rightarrow> ptr \<Rightarrow> nat \<Rightarrow> bool" where
  "zeroed s p n =
     (case lookup s p of
        Inl e \<Rightarrow> False
      | Inr ab \<Rightarrow>
          (case snd ab of
             Bytes bs \<Rightarrow> n \<le> length bs \<and> take n bs = replicate n 0
           | _ \<Rightarrow> False))"

section \<open>A concrete instance\<close>

text \<open>
  A 32-bit build with one read head, one write head and usage blocks of 16 addresses.
  The allocator never fails and hands out blocks filled with the byte \<open>0xAA\<close> and with
  the dangling pointer \<open>Ptr 999\<close>. The controller object is the list of what it was
  initialised with, followed by one entry per pass. \<open>demo_start\<close> is a struct nobody
  has initialised; \<open>demo_ready\<close> is what \<open>deeplearn_dnc_init\<close> makes of it for
  \<open>memory_size = 20\<close> and \<open>memory_width = 1\<close>.
\<close>

definition demo_env :: "(int list, unit, unit) env" where
  "demo_env = \<lparr>DEEPLEARNDNC_READ_HEADS = 1, DEEPLEARNDNC_WRITE_HEADS = 1,
     DEEPLEARNDNC_USAGE_BLOCK_SIZE = 16, sizeof_float_ptr = 4,
     malloc_fails = (\<lambda>k. False), fresh_bytes = (\<lambda>k j. 170),
     fresh_ptrs = (\<lambda>k j. Ptr 999), fresh_net = (\<lambda>k. []),
     deeplearn_init = (\<lambda>inputs hiddens layers outputs t r c.
        (0, [inputs, hiddens, layers, outputs])),
     deeplearn_feed_forward = (\<lambda>c. c @ [1]), deeplearn_update = (\<lambda>c. c @ [2]),
     deeplearn_free = (\<lambda>c. [])\<rparr>"

definition demo_start :: "int list state" where
  "demo_start = \<lparr>learner = \<lparr>controller = Ptr 70,
       memory = \<lparr>mem_size = 3, mem_width = 9, mem_address = Ptr 71, mem_usage = Ptr 72,
                 mem_usage_temporal = [Ptr 73, Ptr 74]\<rparr>,
       read_head = [\<lparr>rh_key = Ptr 75\<rparr>],
       write_head = [\<lparr>wh_write = Ptr 76, wh_erase = Ptr 77, wh_key = Ptr 78\<rparr>],
       no_of_inputs = 0, no_of_outputs = 0\<rparr>,
     heap = [], mallocs = 0, trace = []\<rparr>"

definition demo_ready :: "int list state" where
  "demo_ready = \<lparr>learner = \<lparr>controller = Ptr 0,
       memory = \<lparr>mem_size = 16, mem_width = 1, mem_address = Ptr 1, mem_usage = Ptr 18,
                 mem_usage_temporal = [Ptr 19, Ptr 20]\<rparr>,
       read_head = [\<lparr>rh_key = Ptr 21\<rparr>],
       write_head = [\<lparr>wh_write = Ptr 22, wh_erase = Ptr 23, wh_key = Ptr 24\<rparr>],
       no_of_inputs = 10, no_of_outputs = 2\<rparr>,
     heap = [Some (Net [11, 20, 1, 7]),
             Some (Ptrs [Ptr 2, Ptr 3, Ptr 4, Ptr 5, Ptr 6, Ptr 7, Ptr 8, Ptr 9, Ptr 10,
                         Ptr 11, Ptr 12, Ptr 13, Ptr 14, Ptr 15, Ptr 16, Ptr 17])]
            @ [Some (Bytes [170, 170, 170, 170]), Some (Bytes [170, 170, 170, 170]), Some (Bytes [170, 170, 170, 170]), Some (Bytes [170, 170, 170, 170]), Some (Bytes [170, 170, 170, 170]), Some (Bytes [170, 170, 170, 170]), Some (Bytes [170, 170, 170, 170]), Some (Bytes [170, 170, 170, 170]), Some (Bytes [170, 170, 170, 170]), Some (Bytes [170, 170, 170, 170]), Some (Bytes [170, 170, 170, 170]), Some (Bytes [170, 170, 170, 170]), Some (Bytes [170, 170, 170, 170]), Some (Bytes [170, 170, 170, 170]), Some (Bytes [170, 170, 170, 170]), Some (Bytes [170, 170, 170, 170]), Some (Bytes [170, 170, 170, 170]), Some (Bytes [170, 170, 170, 170]), Some (Bytes [170, 170, 170, 170]), Some (Bytes [170, 170, 170, 170]), Some (Bytes [170, 170, 170, 170]), Some (Bytes [170, 170, 170, 170]), Some (Bytes [170, 170, 170, 170])],
     mallocs = 25, trace = []\<rparr>"

text \<open>
  Variations: the allocator refuses exactly the call number \<open>k\<close> (calls are counted from
  0: the controller object, the array of addresses, then the vectors); the controller
  library answers \<open>deeplearn_init\<close> with the status \<open>st\<close>; a 64-bit build, on
  which \<open>deeplearn_dnc_init\<close> makes the same \<open>demo_ready\<close>.
\<close>

definition demo_env_refusing :: "nat \<Rightarrow> (int list, unit, unit) env" where
  "demo_env_refusing k = demo_env\<lparr>malloc_fails := (\<lambda>j. j = k)\<rparr>"

definition demo_env_status :: "int \<Rightarrow> (int list, unit, unit) env" where
  "demo_env_status st =
     demo_env\<lparr>deeplearn_init := (\<lambda>inputs hiddens layers outputs t r c. (st, c))\<rparr>"

definition demo_env64 :: "(int list, unit, unit) env" where
  "demo_env64 = demo_env\<lparr>sizeof_float_ptr := 8\<rparr>"

text \<open>
  \<open>demo_partial\<close> is what \<open>deeplearn_dnc_init\<close> leaves of \<open>demo_start\<close> for
  \<open>memory_size = 128\<close> and \<open>memory_width = 4\<close> when the allocation of the fifth address
  vector (call number 6) is refused. \<open>demo_cleared\<close> is what
  \<open>deeplearn_dnc_clear_memory\<close> makes of \<open>demo_ready\<close>.
\<close>

definition demo_partial :: "int list state" where
  "demo_partial = \<lparr>learner = \<lparr>controller = Ptr 0,
       memory = \<lparr>mem_size = 128, mem_width = 4, mem_address = Ptr 1, mem_usage = Ptr 72,
                 mem_usage_temporal = [Ptr 73, Ptr 74]\<rparr>,
       read_head = [\<lparr>rh_key = Ptr 75\<rparr>],
       write_head = [\<lparr>wh_write = Ptr 76, wh_erase = Ptr 77, wh_key = Ptr 78\<rparr>],
       no_of_inputs = 10, no_of_outputs = 2\<rparr>,
     heap = [Some (Net []),
             Some (Ptrs ([Ptr 2, Ptr 3, Ptr 4, Ptr 5, Null] @ replicate 123 (Ptr 999))),
             Some (Bytes (replicate 16 170)), Some (Bytes (replicate 16 170)),
             Some (Bytes (replicate 16 170)), Some (Bytes (replicate 16 170))],
     mallocs = 7, trace = []\<rparr>"

definition demo_cleared :: "int list state" where
  "demo_cleared = \<lparr>learner = \<lparr>controller = Ptr 0,
       memory = \<lparr>mem_size = 16, mem_width = 1, mem_address = Ptr 1, mem_usage = Ptr 18,
                 mem_usage_temporal = [Null, Ptr 20]\<rparr>,
       read_head = [\<lparr>rh_key = Ptr 21\<rparr>],
       write_head = [\<lparr>wh_write = Ptr 22, wh_erase = Ptr 23, wh_key = Ptr 24\<rparr>],
       no_of_inputs = 10, no_of_outputs = 2\<rparr>,
     heap = [Some (Net [11, 20, 1, 7]),
             Some (Ptrs [Ptr 2, Ptr 3, Ptr 4, Ptr 5, Ptr 6, Ptr 7, Ptr 8, Ptr 9, Ptr 10,
                         Ptr 11, Ptr 12, Ptr 13, Ptr 14, Ptr 15, Ptr 16, Ptr 17])]
            @ replicate 17 (Some (Bytes [0, 0, 0, 0]))
            @ replicate 6 (Some (Bytes [170, 170, 170, 170])),
     mallocs = 25, trace = []\<rparr>"


text \<open>
  The equations of the loops are unfolded by hand, one iteration at a time.
\<close>

declare alloc_vectors.simps [simp del] alloc_usage_temporal.simps [simp del]
  alloc_read_heads.simps [simp del] alloc_write_heads.simps [simp del]
  free_vectors.simps [simp del] free_usage_temporal.simps [simp del]
  free_read_heads.simps [simp del] free_write_heads.simps [simp del]
  clear_vectors.simps [simp del]

section \<open>Evaluation\<close>

lemma upt_unfold_0: "[0..<numeral n] = 0 # [Suc 0..<numeral n]"
  by (simp add: upt_rec)

lemma upt_unfold_Suc: "[Suc k..<numeral n] = (if Suc k < numeral n then Suc k # [Suc (Suc k)..<numeral n] else [])"
  by (simp add: upt_rec)

lemmas eval_defs = deeplearn_dnc_init_def deeplearn_dnc_init_memory_def
  deeplearn_dnc_init_memory_usage_def deeplearn_dnc_init_heads_def deeplearn_init_call_def
  controller_inputs_def controller_outputs_def memory_usage_size_def
  alloc_vectors.simps alloc_usage_temporal.simps alloc_read_heads.simps alloc_write_heads.simps
  malloc_def malloc_floats_def malloc_ptrs_def malloc_net_def byte_count_def lookup_def store_ptr_def
  load_ptr_def memset_zero_def memset_slots_def on_controller_def free_def
  to_unsigned_def to_signed_def sizeof_float_def Let_def

lemmas run_defs = deeplearn_dnc_feed_forward_def deeplearn_dnc_update_def
  deeplearn_dnc_update_read_heads_def deeplearn_dnc_update_write_heads_def
  deeplearn_dnc_pass_through_def deeplearn_dnc_clear_memory_def clear_vectors.simps

lemma demo_run3:
  "run demo_env [Feed_forward, Feed_forward, Feed_forward] demo_ready =
     Inr (demo_ready\<lparr>heap := (heap demo_ready)[0 := Some (Net [11, 20, 1, 7, 1, 1, 1])]\<rparr>)"
  by (simp add: demo_env_def demo_ready_def run_defs on_controller_def lookup_def)

lemma demo_init:
  "deeplearn_dnc_init demo_env 20 1 10 20 1 2 () () demo_start = Inr (0, demo_ready)"
  by (simp add: demo_env_def demo_start_def demo_ready_def eval_defs upt_unfold_0 upt_unfold_Suc)



lemma replicate_numeral_unfold: "replicate (numeral n) x = x # replicate (pred_numeral n) x"
  by (simp add: numeral_eq_Suc)

lemmas free_defs = deeplearn_dnc_free_def deeplearn_dnc_free_memory_def
  deeplearn_dnc_free_memory_usage_def deeplearn_dnc_free_heads_def deeplearn_free_call_def
  free_vectors.simps free_usage_temporal.simps free_read_heads.simps free_write_heads.simps
  free_def load_ptr_def lookup_def on_controller_def

lemma demo_init_refused:
  "deeplearn_dnc_init (demo_env_refusing 6) 128 4 10 20 1 2 () () demo_start =
     Inr (2002, demo_partial)"
  by (simp add: demo_env_refusing_def demo_env_def demo_start_def demo_partial_def eval_defs
      upt_unfold_0 upt_unfold_Suc replicate_numeral_unfold)

lemma demo_partial_release:
  "load_ptr demo_partial (mem_address (memory (learner demo_partial))) 5 = Inr (Ptr 999) \<and>
   deeplearn_dnc_free (demo_env_refusing 6) demo_partial = Inl InvalidFree"
  by (simp add: demo_env_refusing_def demo_env_def demo_partial_def free_defs
      replicate_numeral_unfold)

lemma demo_release:
  "map_sum id trace (deeplearn_dnc_free demo_env demo_ready) =
     Inr [Free (Ptr 2), Free (Ptr 3), Free (Ptr 4), Free (Ptr 5), Free (Ptr 6), Free (Ptr 7),
          Free (Ptr 8), Free (Ptr 9), Free (Ptr 10), Free (Ptr 11), Free (Ptr 12),
          Free (Ptr 13), Free (Ptr 14), Free (Ptr 15), Free (Ptr 16), Free (Ptr 17),
          Free (Ptr 1), Free (Ptr 18), Free (Ptr 19), Free (Ptr 20), Free (Ptr 21),
          Free (Ptr 22), Free (Ptr 23), Free (Ptr 24), NetFree (Ptr 0)]"
  by (simp add: demo_env_def demo_ready_def free_defs)

lemma demo_clear:
  "deeplearn_dnc_clear_memory demo_env demo_ready = Inr demo_cleared"
  by (simp add: demo_env_def demo_ready_def demo_cleared_def deeplearn_dnc_clear_memory_def
      clear_vectors.simps eval_defs replicate_numeral_unfold)

lemma demo_clear64:
  "deeplearn_dnc_clear_memory demo_env64 demo_ready = Inl OutOfBounds"
  by (simp add: demo_env64_def demo_env_def demo_ready_def deeplearn_dnc_clear_memory_def
      clear_vectors.simps eval_defs)


lemma demo_floats:
  "load_ptr demo_ready (mem_address (memory (learner demo_ready))) 0 = Inr (Ptr 2)"
  "float_bytes demo_ready (Ptr 2) 0 = Inr [170, 170, 170, 170]"
  "float_bytes demo_cleared (Ptr 19) 0 = Inr [170, 170, 170, 170]"
  "float_bytes demo_cleared (Ptr 20) 0 = Inr [170, 170, 170, 170]"
  by (simp_all add: demo_ready_def demo_cleared_def load_ptr_def lookup_def float_bytes_def
      sizeof_float_def replicate_numeral_unfold)

section \<open>Byte counts\<close>

lemma byte_count_exact:
  assumes "0 \<le> n" "n * int sz < 2 ^ (8 * sizeof_float_ptr env)"
  shows "byte_count env n sz = nat n * sz"
proof -
  from assms have "(n * int sz) mod 2 ^ (8 * sizeof_float_ptr env) = n * int sz" by simp
  then show ?thesis using assms(1) by (simp add: byte_count_def nat_mult_distrib)
qed

lemma byte_count_le:
  assumes "0 \<le> n"
  shows "byte_count env n sz \<le> nat n * sz"
proof -
  from assms have "0 \<le> n * int sz" by simp
  then have "(n * int sz) mod 2 ^ (8 * sizeof_float_ptr env) \<le> n * int sz"
    by (rule zmod_le_nonneg_dividend)
  then have "nat ((n * int sz) mod 2 ^ (8 * sizeof_float_ptr env)) \<le> nat (n * int sz)"
    by simp
  then show ?thesis using assms by (simp add: byte_count_def nat_mult_distrib)
qed

lemma bank_size_nonneg: "0 \<le> bank_size env memory_size"
  by (simp add: bank_size_def to_unsigned_def)

lemma bank_slots_le:
  "byte_count env (bank_size env memory_size) (sizeof_float_ptr env) div sizeof_float_ptr env
     \<le> nat (bank_size env memory_size)"
proof (cases "sizeof_float_ptr env = 0")
  case True
  then show ?thesis by simp
next
  case False
  have "byte_count env (bank_size env memory_size) (sizeof_float_ptr env)
          div sizeof_float_ptr env
        \<le> nat (bank_size env memory_size) * sizeof_float_ptr env div sizeof_float_ptr env"
    by (rule div_le_mono) (rule byte_count_le [OF bank_size_nonneg])
  with False show ?thesis by simp
qed

lemma bank_fits_slots:
  assumes "bank_fits env memory_size"
  shows "byte_count env (bank_size env memory_size) (sizeof_float_ptr env)
           div sizeof_float_ptr env = nat (bank_size env memory_size)"
  using assms bank_slots_le [of env memory_size] by (simp add: bank_fits_def)

lemma bank_fitsI:
  assumes "0 < sizeof_float_ptr env"
    and "bank_size env memory_size * int (sizeof_float_ptr env)
           < 2 ^ (8 * sizeof_float_ptr env)"
  shows "bank_fits env memory_size"
  using byte_count_exact [OF bank_size_nonneg assms(2)] assms(1) by (simp add: bank_fits_def)

lemma width_fits_bytes:
  assumes "width_fits env memory_width"
  shows "byte_count env (to_unsigned memory_width) sizeof_float =
           nat (to_unsigned memory_width) * sizeof_float"
proof -
  have "0 \<le> to_unsigned memory_width" by (simp add: to_unsigned_def)
  then show ?thesis using assms unfolding width_fits_def by (rule byte_count_exact)
qed

section \<open>What each library call leaves alone\<close>


lemma on_controller_frame:
  "on_controller f s = Inr s' \<Longrightarrow>
     learner s' = learner s \<and> trace s' = trace s \<and> mallocs s' = mallocs s"
  by (auto simp: on_controller_def split: sum.splits block.splits)

lemma memset_zero_frame:
  "memset_zero p n s = Inr s' \<Longrightarrow>
     learner s' = learner s \<and> trace s' = trace s \<and> mallocs s' = mallocs s"
  by (auto simp: memset_zero_def split: sum.splits block.splits if_splits)

lemma free_learner: "free p s = Inr s' \<Longrightarrow> learner s' = learner s"
  by (auto simp: free_def split: ptr.splits sum.splits)

lemma clear_vectors_learner: "clear_vectors env n i s = Inr s' \<Longrightarrow> learner s' = learner s"
proof (induction env n i s rule: clear_vectors.induct)
  case (1 env n i s)
  show ?case
  proof (cases "i < n")
    case False
    with "1.prems" show ?thesis by (simp add: clear_vectors.simps)
  next
    case True
    from "1.prems" True obtain p s1 where
      p: "load_ptr s (mem_address (memory (learner s))) i = Inr p" and
      s1: "memset_zero p (byte_count env (mem_width (memory (learner s))) sizeof_float) s = Inr s1" and
      rest: "clear_vectors env n (Suc i) s1 = Inr s'"
      by (subst (asm) clear_vectors.simps) (auto split: sum.splits)
    from "1.IH" [OF True p s1 rest] memset_zero_frame [OF s1] show ?thesis by simp
  qed
qed

lemma free_vectors_learner: "free_vectors n i s = Inr s' \<Longrightarrow> learner s' = learner s"
proof (induction n i s rule: free_vectors.induct)
  case (1 n i s)
  show ?case
  proof (cases "i < n")
    case False
    with "1.prems" show ?thesis by (simp add: free_vectors.simps)
  next
    case True
    from "1.prems" True obtain p s1 where
      p: "load_ptr s (mem_address (memory (learner s))) i = Inr p" and
      s1: "free p s = Inr s1" and
      rest: "free_vectors n (Suc i) s1 = Inr s'"
      by (subst (asm) free_vectors.simps) (auto split: sum.splits)
    from "1.IH" [OF True p s1 rest] free_learner [OF s1] show ?thesis by simp
  qed
qed

lemma free_usage_temporal_learner:
  "free_usage_temporal env i s = Inr s' \<Longrightarrow> learner s' = learner s"
proof (induction env i s rule: free_usage_temporal.induct)
  case (1 env i s)
  show ?case
  proof (cases "i < DEEPLEARNDNC_READ_HEADS env + DEEPLEARNDNC_WRITE_HEADS env")
    case False
    with "1.prems" show ?thesis by (simp add: free_usage_temporal.simps)
  next
    case True
    from "1.prems" True obtain s1 where
      s1: "free (mem_usage_temporal (memory (learner s)) ! i) s = Inr s1" and
      rest: "free_usage_temporal env (Suc i) s1 = Inr s'"
      by (subst (asm) free_usage_temporal.simps) (auto split: sum.splits)
    from "1.IH" [OF True s1 rest] free_learner [OF s1] show ?thesis by simp
  qed
qed

lemma free_read_heads_learner:
  "free_read_heads env i s = Inr s' \<Longrightarrow> learner s' = learner s"
proof (induction env i s rule: free_read_heads.induct)
  case (1 env i s)
  show ?case
  proof (cases "i < DEEPLEARNDNC_READ_HEADS env")
    case False
    with "1.prems" show ?thesis by (simp add: free_read_heads.simps)
  next
    case True
    from "1.prems" True obtain s1 where
      s1: "free (rh_key (read_head (learner s) ! i)) s = Inr s1" and
      rest: "free_read_heads env (Suc i) s1 = Inr s'"
      by (subst (asm) free_read_heads.simps) (auto split: sum.splits)
    from "1.IH" [OF True s1 rest] free_learner [OF s1] show ?thesis by simp
  qed
qed

lemma free_write_heads_learner:
  "free_write_heads env i s = Inr s' \<Longrightarrow> learner s' = learner s"
proof (induction env i s rule: free_write_heads.induct)
  case (1 env i s)
  show ?case
  proof (cases "i < DEEPLEARNDNC_WRITE_HEADS env")
    case False
    with "1.prems" show ?thesis by (simp add: free_write_heads.simps)
  next
    case True
    from "1.prems" True obtain s1 s2 s3 where
      s1: "free (wh_write (write_head (learner s) ! i)) s = Inr s1" and
      s2: "free (wh_erase (write_head (learner s1) ! i)) s1 = Inr s2" and
      s3: "free (wh_key (write_head (learner s2) ! i)) s2 = Inr s3" and
      rest: "free_write_heads env (Suc i) s3 = Inr s'"
      by (subst (asm) free_write_heads.simps) (auto split: sum.splits)
    from "1.IH" [OF True s1 s2 s3 rest] free_learner [OF s1] free_learner [OF s2]
      free_learner [OF s3]
    show ?thesis by simp
  qed
qed

lemma deeplearn_dnc_free_learner:
  "deeplearn_dnc_free env s = Inr s' \<Longrightarrow> learner s' = learner s"
  by (auto simp: deeplearn_dnc_free_def deeplearn_dnc_free_memory_def
      deeplearn_dnc_free_memory_usage_def deeplearn_dnc_free_heads_def
      deeplearn_free_call_def
      split: sum.splits
      dest!: free_vectors_learner free_learner free_usage_temporal_learner
        free_read_heads_learner free_write_heads_learner on_controller_frame)

lemma deeplearn_dnc_clear_memory_size_width:
  "deeplearn_dnc_clear_memory env s = Inr s' \<Longrightarrow>
     mem_size (memory (learner s')) = mem_size (memory (learner s)) \<and>
     mem_width (memory (learner s')) = mem_width (memory (learner s))"
  by (auto simp: deeplearn_dnc_clear_memory_def Let_def
      split: sum.splits dest!: clear_vectors_learner memset_zero_frame)

lemma exec_size_width:
  "exec env c s = Inr s' \<Longrightarrow>
     mem_size (memory (learner s')) = mem_size (memory (learner s)) \<and>
     mem_width (memory (learner s')) = mem_width (memory (learner s))"
proof (cases c)
  case Clear_memory
  then show "exec env c s = Inr s' \<Longrightarrow> ?thesis"
    using deeplearn_dnc_clear_memory_size_width [of env s s'] by simp
next
  case Release
  then show "exec env c s = Inr s' \<Longrightarrow> ?thesis"
    using deeplearn_dnc_free_learner [of env s s'] by simp
qed (auto simp: deeplearn_dnc_feed_forward_def deeplearn_dnc_update_def
      deeplearn_dnc_update_read_heads_def deeplearn_dnc_update_write_heads_def
      deeplearn_dnc_pass_through_def dest!: on_controller_frame)

text \<open>
  A run of public operations in which every call stays inside its buffers leaves
  \<open>memory.size\<close> and \<open>memory.width\<close> as they were.
\<close>

lemma run_size_width:
  "run env cs s = Inr s' \<Longrightarrow>
     mem_size (memory (learner s')) = mem_size (memory (learner s)) \<and>
     mem_width (memory (learner s')) = mem_width (memory (learner s))"
proof (induction cs arbitrary: s)
  case Nil
  then show ?case by simp
next
  case (Cons c cs)
  from Cons.prems obtain s1 where
    step: "exec env c s = Inr s1" and rest: "run env cs s1 = Inr s'"
    by (auto split: sum.splits)
  from Cons.IH [OF rest] exec_size_width [OF step] show ?case by simp
qed

lemma on_controller_iff:
  "on_controller f s = Inr s' \<longleftrightarrow>
     (\<exists>a c. controller (learner s) = Ptr a \<and> a < length (heap s) \<and>
        heap s ! a = Some (Net c) \<and> s' = s\<lparr>heap := (heap s)[a := Some (Net (f c))]\<rparr>)"
  by (auto simp: on_controller_def lookup_def split: ptr.splits option.splits block.splits)

lemma on_controller_blocks:
  assumes "on_controller f s = Inr s'"
  shows "length (heap s') = length (heap s)"
    and "\<forall>c. heap s ! b \<noteq> Some (Net c) \<Longrightarrow> heap s' ! b = heap s ! b"
proof -
  from assms obtain a c where a: "a < length (heap s)" "heap s ! a = Some (Net c)"
    and s': "s' = s\<lparr>heap := (heap s)[a := Some (Net (f c))]\<rparr>"
    by (auto simp: on_controller_iff)
  show "length (heap s') = length (heap s)" by (simp add: s')
  assume "\<forall>c. heap s ! b \<noteq> Some (Net c)"
  with a have "b \<noteq> a" by auto
  then show "heap s' ! b = heap s ! b" by (simp add: s')
qed

lemma feed_forward_run_frame:
  "run env (replicate n Feed_forward) s = Inr s' \<Longrightarrow>
     learner s' = learner s \<and> trace s' = trace s \<and> mallocs s' = mallocs s \<and>
     length (heap s') = length (heap s) \<and>
     (\<forall>b. (\<forall>c. heap s ! b \<noteq> Some (Net c)) \<longrightarrow> heap s' ! b = heap s ! b)"
proof (induction n arbitrary: s)
  case 0
  then show ?case by simp
next
  case (Suc n)
  from Suc.prems obtain s1 where
    step: "on_controller (deeplearn_feed_forward env) s = Inr s1" and
    rest: "run env (replicate n Feed_forward) s1 = Inr s'"
    by (auto simp: deeplearn_dnc_feed_forward_def deeplearn_dnc_update_read_heads_def
        split: sum.splits)
  note f = on_controller_frame [OF step] and b = on_controller_blocks [OF step]
  note ih = Suc.IH [OF rest]
  have "heap s' ! b = heap s ! b" if nn: "\<forall>c. heap s ! b \<noteq> Some (Net c)" for b
  proof -
    from b(2) [OF nn] have eq: "heap s1 ! b = heap s ! b" .
    with nn have "\<forall>c. heap s1 ! b \<noteq> Some (Net c)" by simp
    with ih have "heap s' ! b = heap s1 ! b" by blast
    with eq show ?thesis by simp
  qed
  with f b(1) ih show ?case by simp
qed

section \<open>The allocation loops\<close>

lemma malloc_cases:
  assumes "malloc env f s = (p, s1)"
  obtains (refused) "malloc_fails env (mallocs s)" "p = Null"
      "s1 = s\<lparr>mallocs := Suc (mallocs s)\<rparr>"
    | (granted) "\<not> malloc_fails env (mallocs s)" "p = Ptr (length (heap s))"
      "s1 = s\<lparr>heap := heap s @ [Some (f (mallocs s))], mallocs := Suc (mallocs s)\<rparr>"
  using assms by (auto simp: malloc_def split: if_splits)

lemma store_ptr_at:
  assumes "a < length (heap s)" "heap s ! a = Some (Ptrs ps)" "i < length ps"
  shows "store_ptr (Ptr a) i v s = Inr (s\<lparr>heap := (heap s)[a := Some (Ptrs (ps[i := v]))]\<rparr>)"
  using assms by (simp add: store_ptr_def lookup_def)

lemma alloc_vectors_spec:
  assumes "mem_address (memory (learner s)) = Ptr a" "a < length (heap s)"
    "heap s ! a = Some (Ptrs ps)" "n \<le> length ps" "i \<le> n" "n - i = d"
  shows "\<exists>r s' ps' k. alloc_vectors env n i s = Inr (r, s') \<and>
       learner s' = learner s \<and> trace s' = trace s \<and>
       i \<le> k \<and> k \<le> n \<and>
       (\<forall>j. i \<le> j \<and> j < k \<longrightarrow> \<not> malloc_fails env (mallocs s + (j - i))) \<and>
       (k < n \<longrightarrow> malloc_fails env (mallocs s + (k - i))) \<and>
       r = (if k < n then 2 else 0) \<and>
       mallocs s' = mallocs s + (k - i) + (if k < n then 1 else 0) \<and>
       length (heap s') = length (heap s) + (k - i) \<and>
       (\<forall>b < length (heap s). b \<noteq> a \<longrightarrow> heap s' ! b = heap s ! b) \<and>
       heap s' ! a = Some (Ptrs ps') \<and> length ps' = length ps \<and>
       (\<forall>j < length ps. ps' ! j =
          (if i \<le> j \<and> j < k then Ptr (length (heap s) + (j - i))
           else if j = k \<and> k < n then Null else ps ! j)) \<and>
       (\<forall>j < k - i. heap s' ! (length (heap s) + j) =
          Some (Bytes (map (fresh_bytes env (mallocs s + j))
                  [0..<byte_count env (mem_width (memory (learner s))) sizeof_float])))"
  using assms
proof (induction d arbitrary: i s ps)
  case 0
  then have "i = n" by simp
  then have "alloc_vectors env n i s = Inr (0, s)" by (simp add: alloc_vectors.simps)
  with 0 \<open>i = n\<close> show ?case
    by - (rule exI [of _ 0], rule exI [of _ s], rule exI [of _ ps], rule exI [of _ n], auto)
next
  case (Suc d)
  then have lt: "i < n" by simp
  let ?w = "mem_width (memory (learner s))"
  obtain p s1 where m: "malloc_floats env ?w s = (p, s1)" by (cases "malloc_floats env ?w s")
  then have m': "malloc env (\<lambda>k. Bytes (map (fresh_bytes env k) [0..<byte_count env ?w sizeof_float])) s = (p, s1)"
    by (simp add: malloc_floats_def)
  from m' show ?case
  proof (cases rule: malloc_cases)
    case refused
    let ?s2 = "s1\<lparr>heap := (heap s1)[a := Some (Ptrs (ps[i := Null]))]\<rparr>"
    from refused Suc.prems lt have st: "store_ptr (mem_address (memory (learner s1))) i p s1 = Inr ?s2"
      by (simp add: store_ptr_at)
    with m refused lt have "alloc_vectors env n i s = Inr (2, ?s2)"
      by (subst alloc_vectors.simps) simp
    with refused Suc.prems lt show ?thesis
      by - (rule exI [of _ 2], rule exI [of _ ?s2], rule exI [of _ "ps[i := Null]"],
          rule exI [of _ i], auto simp: nth_list_update)
  next
    case granted
    let ?L = "length (heap s)"
    let ?blk = "Some (Bytes (map (fresh_bytes env (mallocs s)) [0..<byte_count env ?w sizeof_float]))"
    let ?ps2 = "ps[i := Ptr ?L]"
    let ?s2 = "s1\<lparr>heap := (heap s1)[a := Some (Ptrs ?ps2)]\<rparr>"
    from granted Suc.prems lt
    have st: "store_ptr (mem_address (memory (learner s1))) i p s1 = Inr ?s2"
      by (simp add: store_ptr_at nth_append)
    with m granted lt have unfold: "alloc_vectors env n i s = alloc_vectors env n (Suc i) ?s2"
      by (subst alloc_vectors.simps) simp
    have h2: "heap ?s2 = (heap s @ [?blk])[a := Some (Ptrs ?ps2)]" using granted by simp
    have pre: "mem_address (memory (learner ?s2)) = Ptr a" "a < length (heap ?s2)"
      "heap ?s2 ! a = Some (Ptrs ?ps2)" "n \<le> length ?ps2" "Suc i \<le> n" "n - Suc i = d"
      using granted Suc.prems lt by (simp_all)
    from Suc.IH [OF pre] obtain r s' ps' k where
      run: "alloc_vectors env n (Suc i) ?s2 = Inr (r, s')" and
      fr: "learner s' = learner ?s2" "trace s' = trace ?s2" and
      k: "Suc i \<le> k" "k \<le> n" and
      ok: "\<forall>j. Suc i \<le> j \<and> j < k \<longrightarrow> \<not> malloc_fails env (mallocs ?s2 + (j - Suc i))" and
      bad: "k < n \<longrightarrow> malloc_fails env (mallocs ?s2 + (k - Suc i))" and
      r: "r = (if k < n then 2 else 0)" and
      mal: "mallocs s' = mallocs ?s2 + (k - Suc i) + (if k < n then 1 else 0)" and
      len: "length (heap s') = length (heap ?s2) + (k - Suc i)" and
      old: "\<forall>b < length (heap ?s2). b \<noteq> a \<longrightarrow> heap s' ! b = heap ?s2 ! b" and
      arr: "heap s' ! a = Some (Ptrs ps')" "length ps' = length ?ps2" and
      slots: "\<forall>j < length ?ps2. ps' ! j =
          (if Suc i \<le> j \<and> j < k then Ptr (length (heap ?s2) + (j - Suc i))
           else if j = k \<and> k < n then Null else ?ps2 ! j)" and
      new: "\<forall>j < k - Suc i. heap s' ! (length (heap ?s2) + j) =
          Some (Bytes (map (fresh_bytes env (mallocs ?s2 + j))
                  [0..<byte_count env (mem_width (memory (learner ?s2))) sizeof_float]))"
      by blast
    have ms2: "mallocs ?s2 = Suc (mallocs s)" and ls2: "length (heap ?s2) = Suc ?L"
      and lr2: "learner ?s2 = learner s" and tr2: "trace ?s2 = trace s"
      using granted by simp_all
    have c1: "\<forall>j. i \<le> j \<and> j < k \<longrightarrow> \<not> malloc_fails env (mallocs s + (j - i))"
    proof (intro allI impI)
      fix j assume j: "i \<le> j \<and> j < k"
      show "\<not> malloc_fails env (mallocs s + (j - i))"
      proof (cases "j = i")
        case True
        with granted show ?thesis by simp
      next
        case False
        with j have "Suc i \<le> j \<and> j < k" by simp
        with ok have "\<not> malloc_fails env (mallocs ?s2 + (j - Suc i))" by blast
        moreover from False j have "mallocs ?s2 + (j - Suc i) = mallocs s + (j - i)"
          using ms2 by linarith
        ultimately show ?thesis by simp
      qed
    qed
    have c2: "k < n \<longrightarrow> malloc_fails env (mallocs s + (k - i))"
    proof
      assume "k < n"
      with bad have "malloc_fails env (mallocs ?s2 + (k - Suc i))" by blast
      moreover from k have "mallocs ?s2 + (k - Suc i) = mallocs s + (k - i)"
        using ms2 by linarith
      ultimately show "malloc_fails env (mallocs s + (k - i))" by simp
    qed
    have c3: "mallocs s' = mallocs s + (k - i) + (if k < n then 1 else 0)"
      using mal ms2 k by (simp split: if_splits)
    have c4: "length (heap s') = length (heap s) + (k - i)"
      using len ls2 k by linarith
    have c5: "\<forall>b < length (heap s). b \<noteq> a \<longrightarrow> heap s' ! b = heap s ! b"
    proof (intro allI impI)
      fix b assume b: "b < length (heap s)" "b \<noteq> a"
      then have "b < length (heap ?s2)" using ls2 by simp
      with old b have "heap s' ! b = heap ?s2 ! b" by blast
      also from b have "\<dots> = heap s ! b" unfolding h2 by (simp add: nth_append)
      finally show "heap s' ! b = heap s ! b" .
    qed
    have c6: "\<forall>j < length ps. ps' ! j =
          (if i \<le> j \<and> j < k then Ptr (length (heap s) + (j - i))
           else if j = k \<and> k < n then Null else ps ! j)"
    proof (intro allI impI)
      fix j assume j: "j < length ps"
      then have "ps' ! j =
          (if Suc i \<le> j \<and> j < k then Ptr (length (heap ?s2) + (j - Suc i))
           else if j = k \<and> k < n then Null else ?ps2 ! j)"
        using slots by simp
      with j k ls2 show "ps' ! j =
          (if i \<le> j \<and> j < k then Ptr (length (heap s) + (j - i))
           else if j = k \<and> k < n then Null else ps ! j)"
        by (auto simp: nth_list_update)
    qed
    have c7: "\<forall>j < k - i. heap s' ! (length (heap s) + j) =
          Some (Bytes (map (fresh_bytes env (mallocs s + j))
                  [0..<byte_count env (mem_width (memory (learner s))) sizeof_float]))"
    proof (intro allI impI)
      fix j assume j: "j < k - i"
      show "heap s' ! (length (heap s) + j) =
          Some (Bytes (map (fresh_bytes env (mallocs s + j))
                  [0..<byte_count env (mem_width (memory (learner s))) sizeof_float]))"
      proof (cases j)
        case 0
        from Suc.prems have "?L < length (heap ?s2)" "?L \<noteq> a" using ls2 by simp_all
        with old have "heap s' ! ?L = heap ?s2 ! ?L" by blast
        also from \<open>?L \<noteq> a\<close> have "\<dots> = ?blk" unfolding h2 by (simp add: nth_append)
        finally show ?thesis using 0 by simp
      next
        case (Suc j')
        with j have "j' < k - Suc i" by simp
        with new have "heap s' ! (length (heap ?s2) + j') =
          Some (Bytes (map (fresh_bytes env (mallocs ?s2 + j'))
                  [0..<byte_count env (mem_width (memory (learner ?s2))) sizeof_float]))" by blast
        with Suc ls2 ms2 lr2 show ?thesis by simp
      qed
    qed
    from k have k': "i \<le> k" by simp
    show ?thesis
      apply (rule exI [of _ r], rule exI [of _ s'], rule exI [of _ ps'], rule exI [of _ k])
      using unfold run fr lr2 tr2 k' k(2) c1 c2 r c3 c4 c5 arr c6 c7
      apply (intro conjI)
      apply simp_all
      done
  qed
qed

lemma malloc_floats_cases:
  assumes "malloc_floats env w s = (p, s1)"
  obtains (refused) "malloc_fails env (mallocs s)" "p = Null"
      "s1 = s\<lparr>mallocs := Suc (mallocs s)\<rparr>"
    | (granted) "\<not> malloc_fails env (mallocs s)" "p = Ptr (length (heap s))"
      "s1 = s\<lparr>heap := heap s @ [Some (Bytes (map (fresh_bytes env (mallocs s))
                [0..<byte_count env w sizeof_float]))], mallocs := Suc (mallocs s)\<rparr>"
  using assms unfolding malloc_floats_def by (rule malloc_cases)

lemma alloc_usage_temporal_spec:
  assumes "DEEPLEARNDNC_READ_HEADS env + DEEPLEARNDNC_WRITE_HEADS env - i = d"
  shows "\<exists>r s' c new ps'. alloc_usage_temporal env cells i s = (r, s') \<and>
       c \<le> d \<and> (\<forall>j < c. \<not> malloc_fails env (mallocs s + j)) \<and>
       (c < d \<longrightarrow> malloc_fails env (mallocs s + c)) \<and>
       r = (if c < d then 2 else 0) \<and>
       mallocs s' = mallocs s + c + (if c < d then 1 else 0) \<and>
       heap s' = heap s @ new \<and> length new = c \<and> None \<notin> set new \<and>
       trace s' = trace s \<and>
       learner s' = (learner s)\<lparr>memory := (memory (learner s))\<lparr>mem_usage_temporal := ps'\<rparr>\<rparr> \<and>
       length ps' = length (mem_usage_temporal (memory (learner s)))"
  using assms
proof (induction d arbitrary: i s)
  case 0
  then have "alloc_usage_temporal env cells i s = (0, s)"
    by (simp add: alloc_usage_temporal.simps)
  then show ?case
    by - (rule exI [of _ 0], rule exI [of _ s], rule exI [of _ 0], rule exI [of _ "[]"],
        rule exI [of _ "mem_usage_temporal (memory (learner s))"], simp)
next
  case (Suc d)
  then have lt: "i < DEEPLEARNDNC_READ_HEADS env + DEEPLEARNDNC_WRITE_HEADS env" by simp
  let ?ps = "mem_usage_temporal (memory (learner s))"
  obtain p s1 where m: "malloc_floats env cells s = (p, s1)"
    by (cases "malloc_floats env cells s")
  from m show ?case
  proof (cases rule: malloc_floats_cases)
    case refused
    let ?s2 = "learner_update (memory_update (mem_usage_temporal_update (\<lambda>ps. ps[i := p]))) s1"
    from m refused lt have "alloc_usage_temporal env cells i s = (2, ?s2)"
      by (subst alloc_usage_temporal.simps) simp
    with refused show ?thesis
      by - (rule exI [of _ 2], rule exI [of _ ?s2], rule exI [of _ 0], rule exI [of _ "[]"],
          rule exI [of _ "?ps[i := Null]"], simp)
  next
    case granted
    let ?s2 = "learner_update (memory_update (mem_usage_temporal_update (\<lambda>ps. ps[i := p]))) s1"
    from m granted lt
    have unfold: "alloc_usage_temporal env cells i s = alloc_usage_temporal env cells (Suc i) ?s2"
      by (subst alloc_usage_temporal.simps) simp
    from Suc.prems have "DEEPLEARNDNC_READ_HEADS env + DEEPLEARNDNC_WRITE_HEADS env - Suc i = d"
      by simp
    from Suc.IH [OF this, of ?s2] obtain r s' c new ps' where
      run: "alloc_usage_temporal env cells (Suc i) ?s2 = (r, s')" and
      c: "c \<le> d" and
      ok: "\<forall>j < c. \<not> malloc_fails env (mallocs ?s2 + j)" and
      bad: "c < d \<longrightarrow> malloc_fails env (mallocs ?s2 + c)" and
      r: "r = (if c < d then 2 else 0)" and
      mal: "mallocs s' = mallocs ?s2 + c + (if c < d then 1 else 0)" and
      hp: "heap s' = heap ?s2 @ new" "length new = c" "None \<notin> set new" and
      tr: "trace s' = trace ?s2" and
      lr: "learner s' = (learner ?s2)\<lparr>memory := (memory (learner ?s2))\<lparr>mem_usage_temporal := ps'\<rparr>\<rparr>"
        "length ps' = length (mem_usage_temporal (memory (learner ?s2)))"
      by blast
    have ms2: "mallocs ?s2 = Suc (mallocs s)" using granted by simp
    have c1: "\<forall>j < Suc c. \<not> malloc_fails env (mallocs s + j)"
    proof (intro allI impI)
      fix j assume "j < Suc c"
      show "\<not> malloc_fails env (mallocs s + j)"
      proof (cases j)
        case 0
        with granted show ?thesis by simp
      next
        case (Suc j')
        with \<open>j < Suc c\<close> ok have "\<not> malloc_fails env (mallocs ?s2 + j')" by simp
        with Suc ms2 show ?thesis by simp
      qed
    qed
    let ?blk = "Some (Bytes (map (fresh_bytes env (mallocs s)) [0..<byte_count env cells sizeof_float]))"
    show ?thesis
      apply (rule exI [of _ r], rule exI [of _ s'], rule exI [of _ "Suc c"],
          rule exI [of _ "?blk # new"], rule exI [of _ ps'])
      using unfold run c c1 bad r mal hp tr lr ms2 granted
      apply (intro conjI)
      apply simp_all
      done
  qed
qed

lemma alloc_read_heads_spec:
  assumes "DEEPLEARNDNC_READ_HEADS env - i = d"
  shows "\<exists>r s' c new hs'. alloc_read_heads env i s = (r, s') \<and>
       c \<le> d \<and> (\<forall>j < c. \<not> malloc_fails env (mallocs s + j)) \<and>
       (c < d \<longrightarrow> malloc_fails env (mallocs s + c)) \<and>
       r = (if c < d then 1 else 0) \<and>
       mallocs s' = mallocs s + c + (if c < d then 1 else 0) \<and>
       heap s' = heap s @ new \<and> length new = c \<and> None \<notin> set new \<and>
       trace s' = trace s \<and>
       learner s' = (learner s)\<lparr>read_head := hs'\<rparr> \<and>
       length hs' = length (read_head (learner s))"
  using assms
proof (induction d arbitrary: i s)
  case 0
  then have "alloc_read_heads env i s = (0, s)"
    by (simp add: alloc_read_heads.simps)
  then show ?case
    by - (rule exI [of _ 0], rule exI [of _ s], rule exI [of _ 0], rule exI [of _ "[]"],
        rule exI [of _ "read_head (learner s)"], simp)
next
  case (Suc d)
  then have lt: "i < DEEPLEARNDNC_READ_HEADS env" by simp
  let ?hs = "read_head (learner s)"
  let ?w = "mem_width (memory (learner s))"
  obtain p s1 where m: "malloc_floats env ?w s = (p, s1)"
    by (cases "malloc_floats env ?w s")
  let ?s2 = "learner_update (read_head_update (\<lambda>hs. hs[i := (hs ! i)\<lparr>rh_key := p\<rparr>])) s1"
  from m show ?case
  proof (cases rule: malloc_floats_cases)
    case refused
    from m refused lt have "alloc_read_heads env i s = (1, ?s2)"
      by (subst alloc_read_heads.simps) simp
    with refused show ?thesis
      by - (rule exI [of _ 1], rule exI [of _ ?s2], rule exI [of _ 0], rule exI [of _ "[]"],
          rule exI [of _ "?hs[i := (?hs ! i)\<lparr>rh_key := Null\<rparr>]"], simp)
  next
    case granted
    from m granted lt
    have unfold: "alloc_read_heads env i s = alloc_read_heads env (Suc i) ?s2"
      by (subst alloc_read_heads.simps) simp
    from Suc.prems have "DEEPLEARNDNC_READ_HEADS env - Suc i = d" by simp
    from Suc.IH [OF this, of ?s2] obtain r s' c new hs' where
      run: "alloc_read_heads env (Suc i) ?s2 = (r, s')" and
      c: "c \<le> d" and
      ok: "\<forall>j < c. \<not> malloc_fails env (mallocs ?s2 + j)" and
      bad: "c < d \<longrightarrow> malloc_fails env (mallocs ?s2 + c)" and
      r: "r = (if c < d then 1 else 0)" and
      mal: "mallocs s' = mallocs ?s2 + c + (if c < d then 1 else 0)" and
      hp: "heap s' = heap ?s2 @ new" "length new = c" "None \<notin> set new" and
      tr: "trace s' = trace ?s2" and
      lr: "learner s' = (learner ?s2)\<lparr>read_head := hs'\<rparr>"
        "length hs' = length (read_head (learner ?s2))"
      by blast
    have ms2: "mallocs ?s2 = Suc (mallocs s)" using granted by simp
    have c1: "\<forall>j < Suc c. \<not> malloc_fails env (mallocs s + j)"
    proof (intro allI impI)
      fix j assume "j < Suc c"
      show "\<not> malloc_fails env (mallocs s + j)"
      proof (cases j)
        case 0
        with granted show ?thesis by simp
      next
        case (Suc j')
        with \<open>j < Suc c\<close> ok have "\<not> malloc_fails env (mallocs ?s2 + j')" by simp
        with Suc ms2 show ?thesis by simp
      qed
    qed
    let ?blk = "Some (Bytes (map (fresh_bytes env (mallocs s)) [0..<byte_count env ?w sizeof_float]))"
    show ?thesis
      apply (rule exI [of _ r], rule exI [of _ s'], rule exI [of _ "Suc c"],
          rule exI [of _ "?blk # new"], rule exI [of _ hs'])
      using unfold run c c1 bad r mal hp tr lr ms2 granted
      apply (intro conjI)
      apply simp_all
      done
  qed
qed

lemma alloc_write_heads_spec:
  assumes "DEEPLEARNDNC_WRITE_HEADS env - i = d"
  shows "\<exists>r s' c new hs'. alloc_write_heads env i s = (r, s') \<and>
       c \<le> 3 * d \<and> (\<forall>j < c. \<not> malloc_fails env (mallocs s + j)) \<and>
       (c < 3 * d \<longrightarrow> malloc_fails env (mallocs s + c)) \<and>
       r = (if c < 3 * d then 2 + int (c mod 3) else 0) \<and>
       mallocs s' = mallocs s + c + (if c < 3 * d then 1 else 0) \<and>
       heap s' = heap s @ new \<and> length new = c \<and> None \<notin> set new \<and>
       trace s' = trace s \<and>
       learner s' = (learner s)\<lparr>write_head := hs'\<rparr> \<and>
       length hs' = length (write_head (learner s))"
  using assms
proof (induction d arbitrary: i s)
  case 0
  then have "alloc_write_heads env i s = (0, s)"
    by (simp add: alloc_write_heads.simps)
  then show ?case
    by - (rule exI [of _ 0], rule exI [of _ s], rule exI [of _ 0], rule exI [of _ "[]"],
        rule exI [of _ "write_head (learner s)"], simp)
next
  case (Suc d)
  then have lt: "i < DEEPLEARNDNC_WRITE_HEADS env" by simp
  let ?hs = "write_head (learner s)"
  let ?w = "mem_width (memory (learner s))"
  let ?blk = "\<lambda>k. Some (Bytes (map (fresh_bytes env k) [0..<byte_count env ?w sizeof_float]))"
  obtain p s1 where m1: "malloc_floats env ?w s = (p, s1)"
    by (cases "malloc_floats env ?w s")
  let ?s2 = "learner_update (write_head_update (\<lambda>hs. hs[i := (hs ! i)\<lparr>wh_write := p\<rparr>])) s1"
  obtain q s3 where m2: "malloc_floats env (mem_width (memory (learner ?s2))) ?s2 = (q, s3)"
    by (cases "malloc_floats env (mem_width (memory (learner ?s2))) ?s2")
  let ?s4 = "learner_update (write_head_update (\<lambda>hs. hs[i := (hs ! i)\<lparr>wh_erase := q\<rparr>])) s3"
  obtain t s5 where m3: "malloc_floats env (mem_width (memory (learner ?s4))) ?s4 = (t, s5)"
    by (cases "malloc_floats env (mem_width (memory (learner ?s4))) ?s4")
  let ?s6 = "learner_update (write_head_update (\<lambda>hs. hs[i := (hs ! i)\<lparr>wh_key := t\<rparr>])) s5"
  from m1 show ?case
  proof (cases rule: malloc_floats_cases)
    case refused
    from m1 refused lt have "alloc_write_heads env i s = (2, ?s2)"
      by (subst alloc_write_heads.simps) simp
    with refused show ?thesis
      by - (rule exI [of _ 2], rule exI [of _ ?s2], rule exI [of _ 0], rule exI [of _ "[]"],
          rule exI [of _ "?hs[i := (?hs ! i)\<lparr>wh_write := Null\<rparr>]"], simp)
  next
    case g1: granted
    have w2: "mem_width (memory (learner ?s2)) = ?w" using g1 by simp
    have ms2: "mallocs ?s2 = Suc (mallocs s)" using g1 by simp
    from m2 show ?thesis
    proof (cases rule: malloc_floats_cases)
      case refused
      from m1 m2 g1 refused lt have "alloc_write_heads env i s = (3, ?s4)"
        by (subst alloc_write_heads.simps) (simp add: Let_def)
      moreover have "heap ?s4 = heap s @ [?blk (mallocs s)]" using g1 refused by simp
      moreover have "mallocs ?s4 = mallocs s + 2" using g1 refused by simp
      moreover have "\<exists>hs'. learner ?s4 = (learner s)\<lparr>write_head := hs'\<rparr> \<and>
          length hs' = length ?hs"
        using g1 refused by (intro exI [of _ "write_head (learner ?s4)"]) simp
      moreover have "trace ?s4 = trace s" using g1 refused by simp
      moreover have "malloc_fails env (mallocs s + 1)" using refused ms2 by simp
      moreover have "\<not> malloc_fails env (mallocs s)" using g1 by simp
      ultimately show ?thesis
        by - (rule exI [of _ 3], rule exI [of _ ?s4], rule exI [of _ 1],
            rule exI [of _ "[?blk (mallocs s)]"], auto)
    next
      case g2: granted
      have w4: "mem_width (memory (learner ?s4)) = ?w" using g1 g2 by simp
      have ms4: "mallocs ?s4 = mallocs s + 2" using g1 g2 by simp
      have h4: "heap ?s4 = heap s @ [?blk (mallocs s), ?blk (Suc (mallocs s))]"
        using g1 g2 by simp
      from m3 show ?thesis
      proof (cases rule: malloc_floats_cases)
        case refused
        from m1 m2 m3 g1 g2 refused lt have "alloc_write_heads env i s = (4, ?s6)"
          by (subst alloc_write_heads.simps) (simp add: Let_def)
        moreover have "heap ?s6 = heap s @ [?blk (mallocs s), ?blk (Suc (mallocs s))]"
          using h4 refused by simp
        moreover have "mallocs ?s6 = mallocs s + 3" using ms4 refused by simp
        moreover have "\<exists>hs'. learner ?s6 = (learner s)\<lparr>write_head := hs'\<rparr> \<and>
            length hs' = length ?hs"
          using g1 g2 refused by (intro exI [of _ "write_head (learner ?s6)"]) simp
        moreover have "trace ?s6 = trace s" using g1 g2 refused by simp
        moreover have "malloc_fails env (mallocs s + 2)" using refused ms4 by simp
        moreover have "\<forall>j < 2. \<not> malloc_fails env (mallocs s + j)"
        proof (intro allI impI)
          fix j :: nat assume "j < 2"
          then have "j = 0 \<or> j = 1" by auto
          with g1 g2 ms2 show "\<not> malloc_fails env (mallocs s + j)" by auto
        qed
        ultimately show ?thesis
          by - (rule exI [of _ 4], rule exI [of _ ?s6], rule exI [of _ 2],
              rule exI [of _ "[?blk (mallocs s), ?blk (Suc (mallocs s))]"], auto)
      next
        case g3: granted
        from m1 m2 m3 g1 g2 g3 lt
        have unfold: "alloc_write_heads env i s = alloc_write_heads env (Suc i) ?s6"
          by (subst alloc_write_heads.simps) (simp add: Let_def)
        have ms6: "mallocs ?s6 = mallocs s + 3" using ms4 g3 by simp
        have h6: "heap ?s6 = heap s @ [?blk (mallocs s), ?blk (Suc (mallocs s)),
            ?blk (Suc (Suc (mallocs s)))]"
          using h4 g3 ms4 w4 by simp
        have l6: "learner ?s6 = (learner s)\<lparr>write_head := write_head (learner ?s6)\<rparr>"
          "length (write_head (learner ?s6)) = length ?hs"
          using g1 g2 g3 by simp_all
        have t6: "trace ?s6 = trace s" using g1 g2 g3 by simp
        from Suc.prems have "DEEPLEARNDNC_WRITE_HEADS env - Suc i = d" by simp
        from Suc.IH [OF this, of ?s6] obtain r s' c new hs' where
          run: "alloc_write_heads env (Suc i) ?s6 = (r, s')" and
          c: "c \<le> 3 * d" and
          ok: "\<forall>j < c. \<not> malloc_fails env (mallocs ?s6 + j)" and
          bad: "c < 3 * d \<longrightarrow> malloc_fails env (mallocs ?s6 + c)" and
          r: "r = (if c < 3 * d then 2 + int (c mod 3) else 0)" and
          mal: "mallocs s' = mallocs ?s6 + c + (if c < 3 * d then 1 else 0)" and
          hp: "heap s' = heap ?s6 @ new" "length new = c" "None \<notin> set new" and
          tr: "trace s' = trace ?s6" and
          lr: "learner s' = (learner ?s6)\<lparr>write_head := hs'\<rparr>"
            "length hs' = length (write_head (learner ?s6))"
          by blast
        have c1: "\<forall>j < 3 + c. \<not> malloc_fails env (mallocs s + j)"
        proof (intro allI impI)
          fix j assume j: "j < 3 + c"
          show "\<not> malloc_fails env (mallocs s + j)"
          proof (cases "j < 3")
            case True
            then have "j = 0 \<or> j = 1 \<or> j = 2" by auto
            with g1 g2 g3 ms2 ms4 show ?thesis by auto
          next
            case False
            with j have "j - 3 < c" by simp
            with ok have "\<not> malloc_fails env (mallocs ?s6 + (j - 3))" by blast
            moreover from False have "mallocs ?s6 + (j - 3) = mallocs s + j"
              using ms6 by linarith
            ultimately show ?thesis by simp
          qed
        qed
        have c2: "3 + c < 3 * Suc d \<longrightarrow> malloc_fails env (mallocs s + (3 + c))"
        proof
          assume "3 + c < 3 * Suc d"
          then have "c < 3 * d" by simp
          with bad have "malloc_fails env (mallocs ?s6 + c)" by blast
          moreover have "mallocs ?s6 + c = mallocs s + (3 + c)" using ms6 by linarith
          ultimately show "malloc_fails env (mallocs s + (3 + c))" by (simp only:)
        qed
        have c3: "r = (if 3 + c < 3 * Suc d then 2 + int ((3 + c) mod 3) else 0)"
          using r by simp
        have c4: "mallocs s' = mallocs s + (3 + c) + (if 3 + c < 3 * Suc d then 1 else 0)"
          using mal ms6 by (simp split: if_splits)
        have c5: "heap s' = heap s @ ([?blk (mallocs s), ?blk (Suc (mallocs s)),
            ?blk (Suc (Suc (mallocs s)))] @ new)"
          using hp(1) h6 by simp
        have c6: "learner s' = (learner s)\<lparr>write_head := hs'\<rparr>"
          by (subst lr(1), subst l6(1), simp)
        have c7: "length hs' = length ?hs" using lr(2) l6(2) by simp
        have c8: "3 + c \<le> 3 * Suc d" using c by simp
        show ?thesis
          apply (rule exI [of _ r], rule exI [of _ s'], rule exI [of _ "3 + c"],
              rule exI [of _ "[?blk (mallocs s), ?blk (Suc (mallocs s)),
                ?blk (Suc (Suc (mallocs s)))] @ new"], rule exI [of _ hs'])
          using unfold run c8 c1 c2 c3 c4 c5 hp(2,3) tr t6 c6 c7
          apply (intro conjI)
          apply simp_all
          done
      qed
    qed
  qed
qed

section \<open>The stages of an initialisation\<close>

lemma malloc_ptrs_cases:
  assumes "malloc_ptrs env n s = (p, s1)"
  obtains (refused) "malloc_fails env (mallocs s)" "p = Null"
      "s1 = s\<lparr>mallocs := Suc (mallocs s)\<rparr>"
    | (granted) "\<not> malloc_fails env (mallocs s)" "p = Ptr (length (heap s))"
      "s1 = s\<lparr>heap := heap s @ [Some (Ptrs (map (fresh_ptrs env (mallocs s))
                [0..<byte_count env n (sizeof_float_ptr env) div sizeof_float_ptr env]))],
              mallocs := Suc (mallocs s)\<rparr>"
  using assms unfolding malloc_ptrs_def by (rule malloc_cases)

lemma malloc_net_cases:
  assumes "malloc_net env s = (p, s1)"
  obtains (refused) "malloc_fails env (mallocs s)" "p = Null"
      "s1 = s\<lparr>mallocs := Suc (mallocs s)\<rparr>"
    | (granted) "\<not> malloc_fails env (mallocs s)" "p = Ptr (length (heap s))"
      "s1 = s\<lparr>heap := heap s @ [Some (Net (fresh_net env (mallocs s)))],
              mallocs := Suc (mallocs s)\<rparr>"
  using assms unfolding malloc_net_def by (rule malloc_cases)

lemma init_memory_spec:
  fixes s :: "'c state" and env :: "('c, 't, 'r) env" and memory_size :: int
  defines "m \<equiv> mallocs s" and "L \<equiv> length (heap s)"
  defines "n \<equiv> nat (bank_size env memory_size)"
  assumes fits: "bank_fits env memory_size"
  shows "\<exists>r s' c. deeplearn_dnc_init_memory env memory_size memory_width s = Inr (r, s') \<and>
       trace s' = trace s \<and> c \<le> 1 + n \<and>
       (\<forall>j < c. \<not> malloc_fails env (m + j)) \<and>
       (c < 1 + n \<longrightarrow> malloc_fails env (m + c)) \<and>
       mallocs s' = m + c + (if c < 1 + n then 1 else 0) \<and>
       r = (if c = 0 then 1 else if c < 1 + n then 2 else 0) \<and>
       length (heap s') = L + c \<and>
       (\<forall>b < L. heap s' ! b = heap s ! b) \<and>
       learner s' = (learner s)\<lparr>memory := (memory (learner s))
          \<lparr>mem_size := bank_size env memory_size, mem_width := to_unsigned memory_width,
           mem_address := (if c = 0 then Null else Ptr L)\<rparr>\<rparr> \<and>
       (1 \<le> c \<longrightarrow> (\<exists>ps'. heap s' ! L = Some (Ptrs ps') \<and> length ps' = n \<and>
          (\<forall>j < n. ps' ! j = (if j < c - 1 then Ptr (L + 1 + j)
                               else if j = c - 1 then Null else fresh_ptrs env m j)))) \<and>
       (\<forall>j < c - 1. heap s' ! (L + 1 + j) =
          Some (Bytes (map (fresh_bytes env (m + 1 + j))
                  [0..<byte_count env (to_unsigned memory_width) sizeof_float])))"
proof -
  let ?s1 = "learner_update (memory_update (\<lambda>mm. mm
                 \<lparr>mem_size := bank_size env memory_size,
                  mem_width := to_unsigned memory_width\<rparr>)) s"
  let ?N = "bank_size env memory_size"
  have room: "byte_count env ?N (sizeof_float_ptr env) div sizeof_float_ptr env = n"
    unfolding n_def using fits by (rule bank_fits_slots)
  obtain p s2 where mp: "malloc_ptrs env ?N ?s1 = (p, s2)" by (cases "malloc_ptrs env ?N ?s1")
  let ?s3 = "learner_update (memory_update (\<lambda>mm. mm\<lparr>mem_address := p\<rparr>)) s2"
  have "learner s2 = learner ?s1"
    using mp by (cases rule: malloc_ptrs_cases) simp_all
  then have "nat (mem_size (memory (learner s2))) = n"
    by (simp add: n_def)
  then have unfold: "deeplearn_dnc_init_memory env memory_size memory_width s =
      (if p = Null then Inr (1, ?s3) else alloc_vectors env n 0 ?s3)"
    using mp by (simp add: deeplearn_dnc_init_memory_def bank_size_def n_def Let_def)
  from mp show ?thesis
  proof (cases rule: malloc_ptrs_cases)
    case refused
    with unfold have "deeplearn_dnc_init_memory env memory_size memory_width s = Inr (1, ?s3)"
      by simp
    with refused show ?thesis
      by - (rule exI [of _ 1], rule exI [of _ ?s3], rule exI [of _ 0],
          simp add: m_def L_def)
  next
    case granted
    let ?ps = "map (fresh_ptrs env m) [0..<n]"
    have m1: "mallocs ?s1 = m" and l1: "length (heap ?s1) = L" and h1: "heap ?s1 = heap s"
      by (simp_all add: m_def L_def)
    from granted unfold have u: "deeplearn_dnc_init_memory env memory_size memory_width s =
        alloc_vectors env n 0 ?s3" by simp
    have pre: "mem_address (memory (learner ?s3)) = Ptr L" "L < length (heap ?s3)"
      "heap ?s3 ! L = Some (Ptrs ?ps)" "n \<le> length ?ps" "0 \<le> n" "n - 0 = n"
      using granted by (simp_all add: m_def L_def room)
    from alloc_vectors_spec [OF pre, of env] obtain r s' ps' k where
      run: "alloc_vectors env n 0 ?s3 = Inr (r, s')" and
      fr: "learner s' = learner ?s3" "trace s' = trace ?s3" and
      k: "k \<le> n" and
      ok: "\<forall>j. 0 \<le> j \<and> j < k \<longrightarrow> \<not> malloc_fails env (mallocs ?s3 + (j - 0))" and
      bad: "k < n \<longrightarrow> malloc_fails env (mallocs ?s3 + (k - 0))" and
      r: "r = (if k < n then 2 else 0)" and
      mal: "mallocs s' = mallocs ?s3 + (k - 0) + (if k < n then 1 else 0)" and
      len: "length (heap s') = length (heap ?s3) + (k - 0)" and
      old: "\<forall>b < length (heap ?s3). b \<noteq> L \<longrightarrow> heap s' ! b = heap ?s3 ! b" and
      arr: "heap s' ! L = Some (Ptrs ps')" "length ps' = length ?ps" and
      slots: "\<forall>j < length ?ps. ps' ! j =
          (if 0 \<le> j \<and> j < k then Ptr (length (heap ?s3) + (j - 0))
           else if j = k \<and> k < n then Null else ?ps ! j)" and
      new: "\<forall>j < k - 0. heap s' ! (length (heap ?s3) + j) =
          Some (Bytes (map (fresh_bytes env (mallocs ?s3 + j))
                  [0..<byte_count env (mem_width (memory (learner ?s3))) sizeof_float]))"
      by blast
    have ms3: "mallocs ?s3 = Suc m" and ls3: "length (heap ?s3) = Suc L"
      and h3: "heap ?s3 = heap s @ [Some (Ptrs ?ps)]"
      and w3: "mem_width (memory (learner ?s3)) = to_unsigned memory_width"
      and t3: "trace ?s3 = trace s"
      using granted by (simp_all add: m_def L_def room)
    have c1: "\<forall>j < Suc k. \<not> malloc_fails env (m + j)"
    proof (intro allI impI)
      fix j assume j: "j < Suc k"
      show "\<not> malloc_fails env (m + j)"
      proof (cases j)
        case 0
        with granted show ?thesis by (simp add: m_def)
      next
        case (Suc j')
        with j ok have "\<not> malloc_fails env (mallocs ?s3 + (j' - 0))" by simp
        with Suc ms3 show ?thesis by simp
      qed
    qed
    have c2: "Suc k < 1 + n \<longrightarrow> malloc_fails env (m + Suc k)"
      using bad ms3 by simp
    have c3: "mallocs s' = m + Suc k + (if Suc k < 1 + n then 1 else 0)"
      using mal ms3 by simp
    have c4: "r = (if Suc k = 0 then 1 else if Suc k < 1 + n then 2 else 0)"
      using r by simp
    have c5: "length (heap s') = L + Suc k" using len ls3 by simp
    have c6: "\<forall>b < L. heap s' ! b = heap s ! b"
    proof (intro allI impI)
      fix b assume b: "b < L"
      with old ls3 have "heap s' ! b = heap ?s3 ! b" by simp
      also from b have "\<dots> = heap s ! b" unfolding h3 by (simp add: nth_append L_def)
      finally show "heap s' ! b = heap s ! b" .
    qed
    have c7: "learner s' = (learner s)\<lparr>memory := (memory (learner s))
          \<lparr>mem_size := bank_size env memory_size, mem_width := to_unsigned memory_width,
           mem_address := (if Suc k = 0 then Null else Ptr L)\<rparr>\<rparr>"
      using fr(1) granted by (simp add: L_def)
    have c8: "\<forall>j < n. ps' ! j = (if j < Suc k - 1 then Ptr (L + 1 + j)
                               else if j = Suc k - 1 then Null else fresh_ptrs env m j)"
    proof (intro allI impI)
      fix j assume j: "j < n"
      with slots have "ps' ! j =
          (if 0 \<le> j \<and> j < k then Ptr (length (heap ?s3) + (j - 0))
           else if j = k \<and> k < n then Null else ?ps ! j)" by simp
      with j ls3 show "ps' ! j = (if j < Suc k - 1 then Ptr (L + 1 + j)
                               else if j = Suc k - 1 then Null else fresh_ptrs env m j)"
        by auto
    qed
    have c9: "\<forall>j < Suc k - 1. heap s' ! (L + 1 + j) =
          Some (Bytes (map (fresh_bytes env (m + 1 + j))
                  [0..<byte_count env (to_unsigned memory_width) sizeof_float]))"
      using new ls3 ms3 w3 by simp
    have c10: "1 \<le> Suc k \<longrightarrow> (\<exists>ps'. heap s' ! L = Some (Ptrs ps') \<and> length ps' = n \<and>
          (\<forall>j < n. ps' ! j = (if j < Suc k - 1 then Ptr (L + 1 + j)
                               else if j = Suc k - 1 then Null else fresh_ptrs env m j)))"
      using arr c8 by (intro impI exI [of _ ps']) simp
    have c0: "Suc k \<le> 1 + n" using k by simp
    have tr: "trace s' = trace s" using fr(2) t3 by simp
    have res: "deeplearn_dnc_init_memory env memory_size memory_width s = Inr (r, s')"
      using u run by simp
    show ?thesis
      by (rule exI [of _ r], rule exI [of _ s'], rule exI [of _ "Suc k"]) (intro conjI; fact)
  qed
qed

lemma init_memory_usage_spec:
  fixes s :: "'c state" and env :: "('c, 't, 'r) env"
  defines "m \<equiv> mallocs s"
  defines "H \<equiv> DEEPLEARNDNC_READ_HEADS env + DEEPLEARNDNC_WRITE_HEADS env"
  shows "\<exists>r s' c new p' ps'. deeplearn_dnc_init_memory_usage env s = (r, s') \<and>
       trace s' = trace s \<and> c \<le> 1 + H \<and>
       (\<forall>j < c. \<not> malloc_fails env (m + j)) \<and>
       (c < 1 + H \<longrightarrow> malloc_fails env (m + c)) \<and>
       mallocs s' = m + c + (if c < 1 + H then 1 else 0) \<and>
       r = (if c = 0 then 1 else if c < 1 + H then 2 else 0) \<and>
       heap s' = heap s @ new \<and> length new = c \<and> None \<notin> set new \<and>
       learner s' = (learner s)\<lparr>memory := (memory (learner s))
          \<lparr>mem_usage := p', mem_usage_temporal := ps'\<rparr>\<rparr> \<and>
       length ps' = length (mem_usage_temporal (memory (learner s)))"
proof -
  let ?n = "memory_usage_size env s"
  obtain p s1 where mp: "malloc_floats env ?n s = (p, s1)"
    by (cases "malloc_floats env ?n s")
  let ?s2 = "learner_update (memory_update (\<lambda>mm. mm\<lparr>mem_usage := p\<rparr>)) s1"
  let ?cells = "to_signed (?n * ?n)"
  have unfold: "deeplearn_dnc_init_memory_usage env s =
      (if p = Null then (1, ?s2) else alloc_usage_temporal env ?cells 0 ?s2)"
    using mp by (simp add: deeplearn_dnc_init_memory_usage_def Let_def)
  let ?ps = "mem_usage_temporal (memory (learner s))"
  from mp show ?thesis
  proof (cases rule: malloc_floats_cases)
    case refused
    with unfold have "deeplearn_dnc_init_memory_usage env s = (1, ?s2)" by simp
    with refused show ?thesis
      by - (rule exI [of _ 1], rule exI [of _ ?s2], rule exI [of _ 0], rule exI [of _ "[]"],
          rule exI [of _ Null], rule exI [of _ ?ps], simp add: m_def)
  next
    case granted
    let ?blk = "Some (Bytes (map (fresh_bytes env m) [0..<byte_count env ?n sizeof_float]))"
    from granted unfold have u: "deeplearn_dnc_init_memory_usage env s =
        alloc_usage_temporal env ?cells 0 ?s2" by simp
    have "DEEPLEARNDNC_READ_HEADS env + DEEPLEARNDNC_WRITE_HEADS env - 0 = H"
      by (simp add: H_def)
    from alloc_usage_temporal_spec [OF this, of ?cells ?s2] obtain r s' c new ps' where
      run: "alloc_usage_temporal env ?cells 0 ?s2 = (r, s')" and
      c: "c \<le> H" and
      ok: "\<forall>j < c. \<not> malloc_fails env (mallocs ?s2 + j)" and
      bad: "c < H \<longrightarrow> malloc_fails env (mallocs ?s2 + c)" and
      r: "r = (if c < H then 2 else 0)" and
      mal: "mallocs s' = mallocs ?s2 + c + (if c < H then 1 else 0)" and
      hp: "heap s' = heap ?s2 @ new" "length new = c" "None \<notin> set new" and
      tr: "trace s' = trace ?s2" and
      lr: "learner s' = (learner ?s2)\<lparr>memory := (memory (learner ?s2))\<lparr>mem_usage_temporal := ps'\<rparr>\<rparr>"
        "length ps' = length (mem_usage_temporal (memory (learner ?s2)))"
      by blast
    have ms2: "mallocs ?s2 = Suc m" and h2: "heap ?s2 = heap s @ [?blk]"
      and t2: "trace ?s2 = trace s"
      and l2: "learner ?s2 = (learner s)\<lparr>memory := (memory (learner s))
          \<lparr>mem_usage := Ptr (length (heap s))\<rparr>\<rparr>"
      using granted by (simp_all add: m_def)
    have res: "deeplearn_dnc_init_memory_usage env s = (r, s')" using u run by simp
    have c0: "Suc c \<le> 1 + H" using c by simp
    have c1: "\<forall>j < Suc c. \<not> malloc_fails env (m + j)"
    proof (intro allI impI)
      fix j assume j: "j < Suc c"
      show "\<not> malloc_fails env (m + j)"
      proof (cases j)
        case 0
        with granted show ?thesis by (simp add: m_def)
      next
        case (Suc j')
        with j ok have "\<not> malloc_fails env (mallocs ?s2 + j')" by simp
        with Suc ms2 show ?thesis by simp
      qed
    qed
    have c2: "Suc c < 1 + H \<longrightarrow> malloc_fails env (m + Suc c)" using bad ms2 by simp
    have c3: "mallocs s' = m + Suc c + (if Suc c < 1 + H then 1 else 0)" using mal ms2 by simp
    have c4: "r = (if Suc c = 0 then 1 else if Suc c < 1 + H then 2 else 0)" using r by simp
    have c5: "heap s' = heap s @ (?blk # new)" using hp(1) h2 by simp
    have c6: "length (?blk # new) = Suc c" using hp(2) by simp
    have c7: "None \<notin> set (?blk # new)" using hp(3) by simp
    have c8: "learner s' = (learner s)\<lparr>memory := (memory (learner s))
          \<lparr>mem_usage := Ptr (length (heap s)), mem_usage_temporal := ps'\<rparr>\<rparr>"
      using lr(1) granted by simp
    have c9: "length ps' = length ?ps" using lr(2) granted by simp
    have tr': "trace s' = trace s" using tr t2 by simp
    show ?thesis
      by (rule exI [of _ r], rule exI [of _ s'], rule exI [of _ "Suc c"],
          rule exI [of _ "?blk # new"], rule exI [of _ "Ptr (length (heap s))"],
          rule exI [of _ ps']) (intro conjI; fact)
  qed
qed

lemma init_heads_spec:
  fixes s :: "'c state" and env :: "('c, 't, 'r) env"
  defines "m \<equiv> mallocs s"
  defines "R \<equiv> DEEPLEARNDNC_READ_HEADS env" and "W \<equiv> DEEPLEARNDNC_WRITE_HEADS env"
  shows "\<exists>r s' c new hs1 hs2. deeplearn_dnc_init_heads env s = (r, s') \<and>
       trace s' = trace s \<and> c \<le> R + 3 * W \<and>
       (\<forall>j < c. \<not> malloc_fails env (m + j)) \<and>
       (c < R + 3 * W \<longrightarrow> malloc_fails env (m + c)) \<and>
       mallocs s' = m + c + (if c < R + 3 * W then 1 else 0) \<and>
       r = (if c < R then 1 else if c < R + 3 * W then 2 + int ((c - R) mod 3) else 0) \<and>
       heap s' = heap s @ new \<and> length new = c \<and> None \<notin> set new \<and>
       learner s' = (learner s)\<lparr>read_head := hs1, write_head := hs2\<rparr> \<and>
       length hs1 = length (read_head (learner s)) \<and>
       length hs2 = length (write_head (learner s))"
proof -
  have "DEEPLEARNDNC_READ_HEADS env - 0 = R" by (simp add: R_def)
  from alloc_read_heads_spec [OF this, of s] obtain r1 s1 c1 new1 hs1 where
    run1: "alloc_read_heads env 0 s = (r1, s1)" and
    c1: "c1 \<le> R" and
    ok1: "\<forall>j < c1. \<not> malloc_fails env (mallocs s + j)" and
    bad1: "c1 < R \<longrightarrow> malloc_fails env (mallocs s + c1)" and
    r1: "r1 = (if c1 < R then 1 else 0)" and
    mal1: "mallocs s1 = mallocs s + c1 + (if c1 < R then 1 else 0)" and
    hp1: "heap s1 = heap s @ new1" "length new1 = c1" "None \<notin> set new1" and
    tr1: "trace s1 = trace s" and
    lr1: "learner s1 = (learner s)\<lparr>read_head := hs1\<rparr>"
      "length hs1 = length (read_head (learner s))"
    by blast
  show ?thesis
  proof (cases "c1 < R")
    case True
    with r1 run1 have res: "deeplearn_dnc_init_heads env s = (r1, s1)"
      by (simp add: deeplearn_dnc_init_heads_def)
    have a0: "c1 \<le> R + 3 * W" using c1 by simp
    have a1: "\<forall>j < c1. \<not> malloc_fails env (m + j)" using ok1 by (simp add: m_def)
    have a2: "c1 < R + 3 * W \<longrightarrow> malloc_fails env (m + c1)" using bad1 True by (simp add: m_def)
    have a3: "mallocs s1 = m + c1 + (if c1 < R + 3 * W then 1 else 0)"
      using mal1 True by (simp add: m_def)
    have a4: "r1 = (if c1 < R then 1 else if c1 < R + 3 * W then 2 + int ((c1 - R) mod 3) else 0)"
      using r1 True by simp
    have a5: "learner s1 = (learner s)\<lparr>read_head := hs1, write_head := write_head (learner s)\<rparr>"
      using lr1(1) by simp
    have a6: "length (write_head (learner s)) = length (write_head (learner s))" by simp
    show ?thesis
      by (rule exI [of _ r1], rule exI [of _ s1], rule exI [of _ c1], rule exI [of _ new1],
          rule exI [of _ hs1], rule exI [of _ "write_head (learner s)"]) (intro conjI; fact)
  next
    case False
    with c1 have c1R: "c1 = R" by simp
    with r1 have "r1 = 0" by simp
    with run1 have u: "deeplearn_dnc_init_heads env s = alloc_write_heads env 0 s1"
      by (simp add: deeplearn_dnc_init_heads_def)
    have ms1: "mallocs s1 = m + R" using mal1 c1R by (simp add: m_def)
    have "DEEPLEARNDNC_WRITE_HEADS env - 0 = W" by (simp add: W_def)
    from alloc_write_heads_spec [OF this, of s1] obtain r s' c new hs2 where
      run: "alloc_write_heads env 0 s1 = (r, s')" and
      c: "c \<le> 3 * W" and
      ok: "\<forall>j < c. \<not> malloc_fails env (mallocs s1 + j)" and
      bad: "c < 3 * W \<longrightarrow> malloc_fails env (mallocs s1 + c)" and
      r: "r = (if c < 3 * W then 2 + int (c mod 3) else 0)" and
      mal: "mallocs s' = mallocs s1 + c + (if c < 3 * W then 1 else 0)" and
      hp: "heap s' = heap s1 @ new" "length new = c" "None \<notin> set new" and
      tr: "trace s' = trace s1" and
      lr: "learner s' = (learner s1)\<lparr>write_head := hs2\<rparr>"
        "length hs2 = length (write_head (learner s1))"
      by blast
    have res: "deeplearn_dnc_init_heads env s = (r, s')" using u run by simp
    have a0: "R + c \<le> R + 3 * W" using c by simp
    have a1: "\<forall>j < R + c. \<not> malloc_fails env (m + j)"
    proof (intro allI impI)
      fix j assume j: "j < R + c"
      show "\<not> malloc_fails env (m + j)"
      proof (cases "j < R")
        case True
        with ok1 c1R show ?thesis by (simp add: m_def)
      next
        case False
        with j have "j - R < c" by simp
        with ok have "\<not> malloc_fails env (mallocs s1 + (j - R))" by blast
        moreover from False have "mallocs s1 + (j - R) = m + j" using ms1 by linarith
        ultimately show ?thesis by metis
      qed
    qed
    have a2: "R + c < R + 3 * W \<longrightarrow> malloc_fails env (m + (R + c))"
    proof
      assume "R + c < R + 3 * W"
      then have "c < 3 * W" by simp
      with bad have "malloc_fails env (mallocs s1 + c)" by blast
      moreover have "mallocs s1 + c = m + (R + c)" using ms1 by linarith
      ultimately show "malloc_fails env (m + (R + c))" by metis
    qed
    have a3: "mallocs s' = m + (R + c) + (if R + c < R + 3 * W then 1 else 0)"
      using mal ms1 by (simp split: if_splits)
    have a4: "r = (if R + c < R then 1
        else if R + c < R + 3 * W then 2 + int ((R + c - R) mod 3) else 0)"
      using r by simp
    have a5: "heap s' = heap s @ (new1 @ new)" using hp(1) hp1(1) by simp
    have a6: "length (new1 @ new) = R + c" using hp(2) hp1(2) c1R by simp
    have a7: "None \<notin> set (new1 @ new)" using hp(3) hp1(3) by simp
    have a8: "learner s' = (learner s)\<lparr>read_head := hs1, write_head := hs2\<rparr>"
      using lr(1) lr1(1) by simp
    have a9: "length hs2 = length (write_head (learner s))" using lr(2) lr1(1) by simp
    have tr': "trace s' = trace s" using tr tr1 by simp
    note lr1(2)
    show ?thesis
      by (rule exI [of _ r], rule exI [of _ s'], rule exI [of _ "R + c"],
          rule exI [of _ "new1 @ new"], rule exI [of _ hs1], rule exI [of _ hs2])
        (intro conjI; fact)
  qed
qed

lemma deeplearn_init_call_at:
  assumes "controller (learner s) = Ptr a" "a < length (heap s)" "heap s ! a = Some (Net c)"
  shows "deeplearn_init_call env ci nh hl co et rs s =
     Inr (fst (deeplearn_init env ci nh hl co et rs c),
          s\<lparr>heap := (heap s)[a := Some (Net (snd (deeplearn_init env ci nh hl co et rs c)))]\<rparr>)"
  using assms by (simp add: deeplearn_init_call_def lookup_def split: prod.splits)

lemma to_unsigned_id: "0 \<le> x \<Longrightarrow> x < 2 ^ 32 \<Longrightarrow> to_unsigned x = x"
  by (simp add: to_unsigned_def)

lemma to_signed_id: "- (2 ^ 31) \<le> x \<Longrightarrow> x < 2 ^ 31 \<Longrightarrow> to_signed x = x"
  by (simp add: to_signed_def)

lemma error_code: "0 \<le> b \<Longrightarrow> b \<le> 5000 \<Longrightarrow> 0 < r \<Longrightarrow> r < 1000 \<Longrightarrow>
    to_unsigned r \<noteq> 0 \<and> to_signed (to_unsigned (b + to_unsigned r)) = b + r"
  by (simp add: to_unsigned_id to_signed_id)

text \<open>\<open>deeplearn_dnc_init\<close>, stage by stage.\<close>

lemma init_stage_controller:
  assumes "malloc_net env (learner_update (\<lambda>l. l\<lparr>no_of_inputs := ni, no_of_outputs := no\<rparr>) s)
             = (Null, s1)"
  shows "deeplearn_dnc_init env ms mw ni nh hl no et rs s =
           Inr (1000, learner_update (\<lambda>l. l\<lparr>controller := Null\<rparr>) s1)"
  using assms by (simp add: deeplearn_dnc_init_def Let_def)

lemma init_stage_bank:
  assumes "malloc_net env (learner_update (\<lambda>l. l\<lparr>no_of_inputs := ni, no_of_outputs := no\<rparr>) s)
             = (Ptr a, s1)"
    and "deeplearn_dnc_init_memory env ms mw
           (learner_update (\<lambda>l. l\<lparr>controller := Ptr a\<rparr>) s1) = Inr (r1, s3)"
    and "to_unsigned r1 \<noteq> 0"
  shows "deeplearn_dnc_init env ms mw ni nh hl no et rs s =
           Inr (to_signed (to_unsigned (2000 + to_unsigned r1)), s3)"
  using assms by (simp add: deeplearn_dnc_init_def Let_def)

lemma init_stage_usage:
  assumes "malloc_net env (learner_update (\<lambda>l. l\<lparr>no_of_inputs := ni, no_of_outputs := no\<rparr>) s)
             = (Ptr a, s1)"
    and "deeplearn_dnc_init_memory env ms mw
           (learner_update (\<lambda>l. l\<lparr>controller := Ptr a\<rparr>) s1) = Inr (0, s3)"
    and "deeplearn_dnc_init_memory_usage env s3 = (r2, s4)"
    and "to_unsigned r2 \<noteq> 0"
  shows "deeplearn_dnc_init env ms mw ni nh hl no et rs s =
           Inr (to_signed (to_unsigned (3000 + to_unsigned r2)), s4)"
  using assms by (simp add: deeplearn_dnc_init_def Let_def to_unsigned_def)

lemma init_stage_heads:
  assumes "malloc_net env (learner_update (\<lambda>l. l\<lparr>no_of_inputs := ni, no_of_outputs := no\<rparr>) s)
             = (Ptr a, s1)"
    and "deeplearn_dnc_init_memory env ms mw
           (learner_update (\<lambda>l. l\<lparr>controller := Ptr a\<rparr>) s1) = Inr (0, s3)"
    and "deeplearn_dnc_init_memory_usage env s3 = (0, s4)"
    and "deeplearn_dnc_init_heads env s4 = (r3, s5)"
    and "to_unsigned r3 \<noteq> 0"
  shows "deeplearn_dnc_init env ms mw ni nh hl no et rs s =
           Inr (to_signed (to_unsigned (4000 + to_unsigned r3)), s5)"
  using assms by (simp add: deeplearn_dnc_init_def Let_def to_unsigned_def)

lemma init_stage_network:
  assumes "malloc_net env (learner_update (\<lambda>l. l\<lparr>no_of_inputs := ni, no_of_outputs := no\<rparr>) s)
             = (Ptr a, s1)"
    and "deeplearn_dnc_init_memory env ms mw
           (learner_update (\<lambda>l. l\<lparr>controller := Ptr a\<rparr>) s1) = Inr (0, s3)"
    and "deeplearn_dnc_init_memory_usage env s3 = (0, s4)"
    and "deeplearn_dnc_init_heads env s4 = (0, s5)"
    and "deeplearn_init_call env (controller_inputs env ni mw) nh hl
           (controller_outputs env no mw) et rs s5 = Inr (r4, s6)"
  shows "deeplearn_dnc_init env ms mw ni nh hl no et rs s =
           Inr (if to_unsigned r4 \<noteq> 0
                then to_signed (to_unsigned (5000 + to_unsigned r4)) else 0, s6)"
  using assms by (simp add: deeplearn_dnc_init_def Let_def to_unsigned_def)

section \<open>A bank stage that returns zero had room for its array\<close>

lemma store_ptr_short:
  assumes "a < length (heap s)" "heap s ! a = Some (Ptrs ps)" "length ps \<le> i"
  shows "store_ptr (Ptr a) i v s = Inl OutOfBounds"
  using assms by (simp add: store_ptr_def lookup_def)

lemma alloc_vectors_code:
  assumes "alloc_vectors env n i s = Inr (r, s')" "n - i = d"
  shows "r = 0 \<or> r = 2"
  using assms
proof (induction d arbitrary: i s)
  case 0
  then show ?case by (simp add: alloc_vectors.simps)
next
  case (Suc d)
  then have lt: "i < n" and d: "n - Suc i = d" by simp_all
  let ?w = "mem_width (memory (learner s))"
  obtain p s1 where m: "malloc_floats env ?w s = (p, s1)" by (cases "malloc_floats env ?w s")
  show ?case
  proof (cases "store_ptr (mem_address (memory (learner s1))) i p s1")
    case (Inl e)
    with m lt have "alloc_vectors env n i s = Inl e" by (subst alloc_vectors.simps) simp
    with Suc.prems(1) show ?thesis by simp
  next
    case (Inr s2)
    show ?thesis
    proof (cases "p = Null")
      case True
      with m lt Inr have "alloc_vectors env n i s = Inr (2, s2)"
        by (subst alloc_vectors.simps) simp
      with Suc.prems(1) show ?thesis by simp
    next
      case False
      with m lt Inr have "alloc_vectors env n i s = alloc_vectors env n (Suc i) s2"
        by (subst alloc_vectors.simps) simp
      with Suc.prems(1) have "alloc_vectors env n (Suc i) s2 = Inr (r, s')" by simp
      from Suc.IH [OF this d] show ?thesis .
    qed
  qed
qed

lemma alloc_vectors_zero:
  assumes "alloc_vectors env n i s = Inr (0, s')"
    and "mem_address (memory (learner s)) = Ptr a" "a < length (heap s)"
      "heap s ! a = Some (Ptrs ps)" "i \<le> length ps" "n - i = d"
  shows "n \<le> length ps"
  using assms
proof (induction d arbitrary: i s ps)
  case 0
  then show ?case by simp
next
  case (Suc d)
  then have lt: "i < n" and d: "n - Suc i = d" by simp_all
  let ?w = "mem_width (memory (learner s))"
  obtain p s1 where m: "malloc_floats env ?w s = (p, s1)" by (cases "malloc_floats env ?w s")
  have s1: "learner s1 = learner s" "a < length (heap s1)" "heap s1 ! a = Some (Ptrs ps)"
    using m Suc.prems(3,4) by (cases rule: malloc_floats_cases; simp add: nth_append)+
  show ?case
  proof (cases "i < length ps")
    case False
    then have "length ps \<le> i" by simp
    from store_ptr_short [OF s1(2,3) this]
    have "store_ptr (Ptr a) i p s1 = Inl OutOfBounds" .
    with m lt s1(1) Suc.prems(2) have "alloc_vectors env n i s = Inl OutOfBounds"
      by (subst alloc_vectors.simps) simp
    with Suc.prems(1) show ?thesis by simp
  next
    case True
    let ?s2 = "s1\<lparr>heap := (heap s1)[a := Some (Ptrs (ps[i := p]))]\<rparr>"
    from True s1 have st: "store_ptr (Ptr a) i p s1 = Inr ?s2" by (simp add: store_ptr_at)
    show ?thesis
    proof (cases "p = Null")
      case pn: True
      with m lt s1(1) Suc.prems(2) st have "alloc_vectors env n i s = Inr (2, ?s2)"
        by (subst alloc_vectors.simps) simp
      with Suc.prems(1) show ?thesis by simp
    next
      case pn: False
      with m lt s1(1) Suc.prems(2) st
      have "alloc_vectors env n i s = alloc_vectors env n (Suc i) ?s2"
        by (subst alloc_vectors.simps) simp
      with Suc.prems(1) have run: "alloc_vectors env n (Suc i) ?s2 = Inr (0, s')" by simp
      have "n \<le> length (ps[i := p])"
      proof (rule Suc.IH [OF run _ _ _ _ d])
        show "mem_address (memory (learner ?s2)) = Ptr a" using s1(1) Suc.prems(2) by simp
        show "a < length (heap ?s2)" using s1(2) by simp
        show "heap ?s2 ! a = Some (Ptrs (ps[i := p]))" using s1(2) by simp
        show "Suc i \<le> length (ps[i := p])" using True by simp
      qed
      then show ?thesis by simp
    qed
  qed
qed

lemma init_memory_zero:
  fixes s :: "'c state" and env :: "('c, 't, 'r) env"
  assumes run: "deeplearn_dnc_init_memory env ms mw s = Inr (r, s')"
  shows "(r = 0 \<or> r = 1 \<or> r = 2) \<and> (r = 0 \<longrightarrow> bank_fits env ms)"
proof -
  let ?N = "bank_size env ms"
  let ?k = "byte_count env ?N (sizeof_float_ptr env) div sizeof_float_ptr env"
  let ?s1 = "learner_update (memory_update (\<lambda>mm. mm
                 \<lparr>mem_size := ?N, mem_width := to_unsigned mw\<rparr>)) s"
  obtain p s2 where mp: "malloc_ptrs env ?N ?s1 = (p, s2)" by (cases "malloc_ptrs env ?N ?s1")
  let ?s3 = "learner_update (memory_update (\<lambda>mm. mm\<lparr>mem_address := p\<rparr>)) s2"
  have "learner s2 = learner ?s1"
    using mp by (cases rule: malloc_ptrs_cases) simp_all
  then have "nat (mem_size (memory (learner s2))) = nat ?N" by simp
  then have unfold: "deeplearn_dnc_init_memory env ms mw s =
      (if p = Null then Inr (1, ?s3) else alloc_vectors env (nat ?N) 0 ?s3)"
    using mp by (simp add: deeplearn_dnc_init_memory_def bank_size_def Let_def)
  from mp show ?thesis
  proof (cases rule: malloc_ptrs_cases)
    case refused
    with unfold run show ?thesis by simp
  next
    case granted
    let ?ps = "map (fresh_ptrs env (mallocs s)) [0..<?k]"
    from granted unfold run have av: "alloc_vectors env (nat ?N) 0 ?s3 = Inr (r, s')" by simp
    from alloc_vectors_code [OF av refl] have code: "r = 0 \<or> r = 2" .
    have "bank_fits env ms" if "r = 0"
    proof -
      from av that have av0: "alloc_vectors env (nat ?N) 0 ?s3 = Inr (0, s')" by simp
      have "nat ?N \<le> length ?ps"
      proof (rule alloc_vectors_zero [OF av0 _ _ _ _ refl])
        show "mem_address (memory (learner ?s3)) = Ptr (length (heap s))"
          using granted by simp
        show "length (heap s) < length (heap ?s3)" using granted by simp
        show "heap ?s3 ! length (heap s) = Some (Ptrs ?ps)" using granted by simp
        show "0 \<le> length ?ps" by simp
      qed
      then show ?thesis by (simp add: bank_fits_def)
    qed
    with code show ?thesis by blast
  qed
qed

lemma init_success_fits:
  fixes s :: "'c state" and env :: "('c, 't, 'r) env"
  assumes ok: "deeplearn_dnc_init env ms mw ni nh hl no et rs s = Inr (0, s')"
  shows "bank_fits env ms"
proof -
  let ?s0 = "learner_update (\<lambda>l. l\<lparr>no_of_inputs := ni, no_of_outputs := no\<rparr>) s"
  obtain p s1 where mn: "malloc_net env ?s0 = (p, s1)" by (cases "malloc_net env ?s0")
  show ?thesis
  proof (cases p)
    case Null
    with mn have "deeplearn_dnc_init env ms mw ni nh hl no et rs s =
        Inr (1000, learner_update (\<lambda>l. l\<lparr>controller := Null\<rparr>) s1)"
      by (simp add: init_stage_controller)
    with ok show ?thesis by simp
  next
    case (Ptr a)
    let ?s2 = "learner_update (\<lambda>l. l\<lparr>controller := Ptr a\<rparr>) s1"
    from mn Ptr have mn': "malloc_net env ?s0 = (Ptr a, s1)" by simp
    show ?thesis
    proof (cases "deeplearn_dnc_init_memory env ms mw ?s2")
      case (Inl e)
      with mn' have "deeplearn_dnc_init env ms mw ni nh hl no et rs s = Inl e"
        by (simp add: deeplearn_dnc_init_def Let_def)
      with ok show ?thesis by simp
    next
      case (Inr rs3)
      obtain r1 s3 where rs3: "rs3 = (r1, s3)" by (cases rs3)
      with Inr have B: "deeplearn_dnc_init_memory env ms mw ?s2 = Inr (r1, s3)" by simp
      from init_memory_zero [OF B] have code: "r1 = 0 \<or> r1 = 1 \<or> r1 = 2"
        and fits: "r1 = 0 \<longrightarrow> bank_fits env ms" by simp_all
      show ?thesis
      proof (cases "r1 = 0")
        case True
        with fits show ?thesis by simp
      next
        case False
        with code have r: "0 < r1" "r1 < 1000" by auto
        from error_code [of 2000, OF _ _ r] have e: "to_unsigned r1 \<noteq> 0"
          "to_signed (to_unsigned (2000 + to_unsigned r1)) = 2000 + r1" by simp_all
        from init_stage_bank [OF mn' B e(1)] e(2) ok r show ?thesis by simp
      qed
    qed
  qed
qed

section \<open>The outcome of an initialisation\<close>

lemma init_outcome:
  fixes s :: "'c state" and env :: "('c, 't, 'r) env"
    and ms mw ni nh hl no :: int and et :: 't and rs :: 'r
  defines "m \<equiv> mallocs s" and "L \<equiv> length (heap s)"
  defines "n \<equiv> nat (bank_size env ms)"
  defines "R \<equiv> DEEPLEARNDNC_READ_HEADS env" and "W \<equiv> DEEPLEARNDNC_WRITE_HEADS env"
  defines "T \<equiv> 3 + n + (R + W) + R + 3 * W"
  defines "made \<equiv> deeplearn_init env (controller_inputs env ni mw) nh hl
                     (controller_outputs env no mw) et rs (fresh_net env m)"
  assumes fits: "bank_fits env ms"
  shows "\<exists>rc s' c. deeplearn_dnc_init env ms mw ni nh hl no et rs s = Inr (rc, s') \<and>
     trace s' = trace s \<and>
     c \<le> T \<and> (\<forall>j < c. \<not> malloc_fails env (m + j)) \<and>
     (c < T \<longrightarrow> malloc_fails env (m + c)) \<and>
     mallocs s' = m + c + (if c < T then 1 else 0) \<and>
     length (heap s') = L + c \<and> (\<forall>b < L. heap s' ! b = heap s ! b) \<and>
     (\<forall>b. L \<le> b \<and> b < L + c \<longrightarrow> heap s' ! b \<noteq> None) \<and>
     rc = (if c = 0 then 1000 else if c = 1 then 2001 else if c < 2 + n then 2002
           else if c = 2 + n then 3001 else if c < 3 + n + (R + W) then 3002
           else if c < 3 + n + (R + W) + R then 4001
           else if c < T then 4002 + int ((c - (3 + n + (R + W) + R)) mod 3)
           else if to_unsigned (fst made) \<noteq> 0
                then to_signed (to_unsigned (5000 + to_unsigned (fst made))) else 0) \<and>
     no_of_inputs (learner s') = ni \<and> no_of_outputs (learner s') = no \<and>
     controller (learner s') = (if c = 0 then Null else Ptr L) \<and>
     (1 \<le> c \<longrightarrow> mem_size (memory (learner s')) = bank_size env ms \<and>
        mem_width (memory (learner s')) = to_unsigned mw \<and>
        mem_address (memory (learner s')) = (if c = 1 then Null else Ptr (L + 1)) \<and>
        heap s' ! L = Some (Net (if c = T then snd made else fresh_net env m))) \<and>
     (2 \<le> c \<longrightarrow> (\<exists>ps'. heap s' ! (L + 1) = Some (Ptrs ps') \<and> length ps' = n \<and>
        (\<forall>j < n. ps' ! j = (if j < c - 2 then Ptr (L + 2 + j)
                             else if j = c - 2 then Null else fresh_ptrs env (m + 1) j)))) \<and>
     (\<forall>j. j < n \<and> j < c - 2 \<longrightarrow> heap s' ! (L + 2 + j) =
        Some (Bytes (map (fresh_bytes env (m + 2 + j))
                [0..<byte_count env (to_unsigned mw) sizeof_float]))) \<and>
     (c < 2 + n \<longrightarrow>
        mem_usage (memory (learner s')) = mem_usage (memory (learner s)) \<and>
        mem_usage_temporal (memory (learner s')) = mem_usage_temporal (memory (learner s)) \<and>
        read_head (learner s') = read_head (learner s) \<and>
        write_head (learner s') = write_head (learner s)) \<and>
     length (mem_usage_temporal (memory (learner s'))) =
       length (mem_usage_temporal (memory (learner s))) \<and>
     length (read_head (learner s')) = length (read_head (learner s)) \<and>
     length (write_head (learner s')) = length (write_head (learner s))"
  (is "\<exists>rc s' c. ?I rc s' \<and> ?Tr s' \<and> ?Cle c \<and> ?Ok c \<and> ?Bad c \<and> ?Mal s' c \<and> ?Len s' c \<and>
      ?Old s' \<and> ?Live s' c \<and> ?Rc rc c \<and> ?Ni s' \<and> ?No s' \<and> ?Ctl s' c \<and> ?Mem s' c \<and>
      ?Arr s' c \<and> ?Vec s' c \<and> ?Unt s' c \<and> ?Sh1 s' \<and> ?Sh2 s' \<and> ?Sh3 s'")
proof -
  let ?s0 = "learner_update (\<lambda>l. l\<lparr>no_of_inputs := ni, no_of_outputs := no\<rparr>) s"
  obtain p s1 where mn: "malloc_net env ?s0 = (p, s1)" by (cases "malloc_net env ?s0")
  from mn show ?thesis
  proof (cases rule: malloc_net_cases)
    case refused
    let ?s' = "learner_update (\<lambda>l. l\<lparr>controller := Null\<rparr>) s1"
    define c :: nat where "c = 0"
    define rc :: int where "rc = 1000"
    from mn refused have "?I rc ?s'" unfolding rc_def by (simp add: init_stage_controller)
    moreover have "?Tr ?s'" using refused by simp
    moreover have "?Cle c" by (simp add: c_def)
    moreover have "?Ok c" by (simp add: c_def)
    moreover have "?Bad c" using refused by (simp add: c_def m_def)
    moreover have "?Mal ?s' c" using refused by (simp add: c_def m_def T_def)
    moreover have "?Len ?s' c" using refused by (simp add: c_def L_def)
    moreover have "?Old ?s'" using refused by simp
    moreover have "?Live ?s' c" by (auto simp: c_def)
    moreover have "?Rc rc c" by (simp add: c_def rc_def)
    moreover have "?Ni ?s'" "?No ?s'" using refused by simp_all
    moreover have "?Ctl ?s' c" by (simp add: c_def)
    moreover have "?Mem ?s' c" by (simp add: c_def)
    moreover have "?Arr ?s' c" by (simp add: c_def)
    moreover have "?Vec ?s' c" by (simp add: c_def)
    moreover have "?Unt ?s' c" using refused by simp
    moreover have "?Sh1 ?s'" "?Sh2 ?s'" "?Sh3 ?s'" using refused by simp_all
    ultimately show ?thesis by blast
  next
    case granted
    let ?s2 = "learner_update (\<lambda>l. l\<lparr>controller := Ptr L\<rparr>) s1"
    have pL: "p = Ptr L" using granted by (simp add: L_def)
    have mn': "malloc_net env ?s0 = (Ptr L, s1)" using mn pL by simp
    have m0: "\<not> malloc_fails env m" using granted by (simp add: m_def)
    have s2: "mallocs ?s2 = Suc m" "heap ?s2 = heap s @ [Some (Net (fresh_net env m))]"
      "trace ?s2 = trace s" "length (heap ?s2) = Suc L"
      "learner ?s2 = (learner s)\<lparr>no_of_inputs := ni, no_of_outputs := no, controller := Ptr L\<rparr>"
      using granted by (simp_all add: m_def L_def)
    from init_memory_spec [OF fits, where memory_width = mw and s = ?s2, unfolded s2(1) s2(4)] obtain r1 s3 cB where
      B: "deeplearn_dnc_init_memory env ms mw ?s2 = Inr (r1, s3)" and
      trB: "trace s3 = trace ?s2" and
      cB: "cB \<le> 1 + n" and
      okB: "\<forall>j < cB. \<not> malloc_fails env (Suc m + j)" and
      badB: "cB < 1 + n \<longrightarrow> malloc_fails env (Suc m + cB)" and
      malB: "mallocs s3 = Suc m + cB + (if cB < 1 + n then 1 else 0)" and
      r1: "r1 = (if cB = 0 then 1 else if cB < 1 + n then 2 else 0)" and
      lenB: "length (heap s3) = Suc L + cB" and
      oldB: "\<forall>b < Suc L. heap s3 ! b = heap ?s2 ! b" and
      lrB: "learner s3 = (learner ?s2)\<lparr>memory := (memory (learner ?s2))
          \<lparr>mem_size := bank_size env ms, mem_width := to_unsigned mw,
           mem_address := (if cB = 0 then Null else Ptr (Suc L))\<rparr>\<rparr>" and
      arrB: "1 \<le> cB \<longrightarrow> (\<exists>ps'. heap s3 ! Suc L = Some (Ptrs ps') \<and>
          length ps' = n \<and>
          (\<forall>j < n. ps' ! j = (if j < cB - 1 then Ptr (Suc L + 1 + j)
                               else if j = cB - 1 then Null
                               else fresh_ptrs env (Suc m) j)))" and
      vecB: "\<forall>j < cB - 1. heap s3 ! (Suc L + 1 + j) =
          Some (Bytes (map (fresh_bytes env (Suc m + 1 + j))
                  [0..<byte_count env (to_unsigned mw) sizeof_float]))"
      unfolding n_def by blast
    text \<open>The state after the bank stage, in terms of the state before the call.\<close>
    have tr3: "trace s3 = trace s" using trB s2 by simp
    have ok3: "\<forall>j < 1 + cB. \<not> malloc_fails env (m + j)"
    proof (intro allI impI)
      fix j assume j: "j < 1 + cB"
      show "\<not> malloc_fails env (m + j)"
      proof (cases j)
        case 0
        with m0 show ?thesis by simp
      next
        case (Suc j')
        with j okB have "\<not> malloc_fails env (Suc m + j')" by simp
        with Suc show ?thesis by simp
      qed
    qed
    have len3: "length (heap s3) = L + (1 + cB)" using lenB by simp
    have old3: "\<forall>b < L. heap s3 ! b = heap s ! b"
    proof (intro allI impI)
      fix b assume b: "b < L"
      then have "heap s3 ! b = heap ?s2 ! b" using oldB by simp
      also have "\<dots> = heap s ! b" using b unfolding s2(2) by (simp add: nth_append L_def)
      finally show "heap s3 ! b = heap s ! b" .
    qed
    have net3: "heap s3 ! L = Some (Net (fresh_net env m))"
    proof -
      have "heap s3 ! L = heap ?s2 ! L" using oldB by simp
      also have "\<dots> = Some (Net (fresh_net env m))" unfolding s2(2) by (simp add: L_def)
      finally show ?thesis .
    qed
    have arr3: "?Arr s3 (1 + cB)"
    proof
      assume "2 \<le> 1 + cB"
      then have "1 \<le> cB" by simp
      with arrB obtain ps' where a: "heap s3 ! Suc L = Some (Ptrs ps')" "length ps' = n"
        and sl: "\<forall>j < n. ps' ! j = (if j < cB - 1 then Ptr (Suc L + 1 + j)
                               else if j = cB - 1 then Null
                               else fresh_ptrs env (Suc m) j)" by blast
      have "ps' ! j = (if j < 1 + cB - 2 then Ptr (L + 2 + j)
                               else if j = 1 + cB - 2 then Null
                               else fresh_ptrs env (m + 1) j)" if "j < n" for j
        using sl [rule_format, OF that] by auto
      with a show "\<exists>ps'. heap s3 ! (L + 1) = Some (Ptrs ps') \<and> length ps' = n \<and>
          (\<forall>j < n. ps' ! j = (if j < 1 + cB - 2 then Ptr (L + 2 + j)
                               else if j = 1 + cB - 2 then Null
                               else fresh_ptrs env (m + 1) j))"
        by (intro exI [of _ ps']) simp
    qed
    have vec3: "?Vec s3 (1 + cB)"
    proof (intro allI impI)
      fix j assume "j < n \<and> j < 1 + cB - 2"
      then have "j < cB - 1" by simp
      with vecB have "heap s3 ! (Suc L + 1 + j) =
          Some (Bytes (map (fresh_bytes env (Suc m + 1 + j))
                  [0..<byte_count env (to_unsigned mw) sizeof_float]))" by blast
      then show "heap s3 ! (L + 2 + j) =
          Some (Bytes (map (fresh_bytes env (m + 2 + j))
                  [0..<byte_count env (to_unsigned mw) sizeof_float]))" by simp
    qed
    have live3: "?Live s3 (1 + cB)"
    proof (intro allI impI)
      fix b assume b: "L \<le> b \<and> b < L + (1 + cB)"
      consider "b = L" | "b = L + 1" | "L + 2 \<le> b" using b by linarith
      then show "heap s3 ! b \<noteq> None"
      proof cases
        case 1
        with net3 show ?thesis by simp
      next
        case 2
        with b have "1 \<le> cB" by simp
        with arrB 2 show ?thesis by auto
      next
        case 3
        with b have "b - (L + 2) < cB - 1" by linarith
        with vecB have "heap s3 ! (Suc L + 1 + (b - (L + 2))) \<noteq> None" by simp
        moreover from 3 have "Suc L + 1 + (b - (L + 2)) = b" by linarith
        ultimately show ?thesis by metis
      qed
    qed
    have lr3: "no_of_inputs (learner s3) = ni" "no_of_outputs (learner s3) = no"
      "controller (learner s3) = Ptr L"
      "mem_size (memory (learner s3)) = bank_size env ms"
      "mem_width (memory (learner s3)) = to_unsigned mw"
      "mem_address (memory (learner s3)) = (if cB = 0 then Null else Ptr (L + 1))"
      "mem_usage (memory (learner s3)) = mem_usage (memory (learner s))"
      "mem_usage_temporal (memory (learner s3)) = mem_usage_temporal (memory (learner s))"
      "read_head (learner s3) = read_head (learner s)"
      "write_head (learner s3) = write_head (learner s)"
      using lrB s2(5) by simp_all
    show ?thesis
    proof (cases "cB < 1 + n")
      case True
      have r1v: "r1 = 1 \<or> r1 = 2" using r1 True by auto
      then have code: "to_unsigned r1 \<noteq> 0"
        "to_signed (to_unsigned (2000 + to_unsigned r1)) = 2000 + r1"
        by (auto simp: to_unsigned_def to_signed_def)
      have cT: "1 + cB < T" using True by (simp add: T_def)
      from init_stage_bank [OF mn' B code(1)] code(2)
      have "?I (2000 + r1) s3" by simp
      moreover have "?Tr s3" by (rule tr3)
      moreover have "?Cle (1 + cB)" using cT by simp
      moreover have "?Ok (1 + cB)" by (rule ok3)
      moreover have "?Bad (1 + cB)" using badB True by simp
      moreover have "?Mal s3 (1 + cB)" using malB True cT by simp
      moreover have "?Len s3 (1 + cB)" by (rule len3)
      moreover have "?Old s3" by (rule old3)
      moreover have "?Live s3 (1 + cB)" by (rule live3)
      moreover have "?Rc (2000 + r1) (1 + cB)" using r1 True by auto
      moreover have "?Ni s3" "?No s3" using lr3 by simp_all
      moreover have "?Ctl s3 (1 + cB)" using lr3 by simp
      moreover have "?Mem s3 (1 + cB)" using lr3 net3 cT by simp
      moreover have "?Arr s3 (1 + cB)" by (rule arr3)
      moreover have "?Vec s3 (1 + cB)" by (rule vec3)
      moreover have "?Unt s3 (1 + cB)" using lr3 by simp
      moreover have "?Sh1 s3" "?Sh2 s3" "?Sh3 s3" using lr3 by simp_all
      ultimately show ?thesis by blast
    next
      case False
      with cB have cBn: "cB = 1 + n" by simp
      with r1 have r10: "r1 = 0" by simp
      note B0 = B [unfolded r10]
      have mal3: "mallocs s3 = m + (2 + n)" using malB cBn by simp
      have len3': "length (heap s3) = L + (2 + n)" using len3 cBn by simp
      have ok3': "\<forall>j < 2 + n. \<not> malloc_fails env (m + j)" using ok3 cBn by simp
      have live3': "\<forall>b. L \<le> b \<and> b < L + (2 + n) \<longrightarrow> heap s3 ! b \<noteq> None"
        using live3 cBn by simp
      text \<open>What a later state with the same first blocks inherits from the bank stage.\<close>
      have later: "heap s' ! L = Some (Net (fresh_net env m)) \<and> ?Arr s' c \<and> ?Vec s' c \<and>
          (\<forall>b < L. heap s' ! b = heap s ! b) \<and>
          (\<forall>b. L \<le> b \<and> b < L + (2 + n) \<longrightarrow> heap s' ! b \<noteq> None)"
        if same: "\<forall>b < L + (2 + n). heap s' ! b = heap s3 ! b" and c: "2 + n \<le> c"
        for s' :: "'c state" and c
      proof (intro conjI)
        show "heap s' ! L = Some (Net (fresh_net env m))" using same net3 by simp
        show "?Arr s' c"
        proof
          from arr3 cBn obtain ps' where a: "heap s3 ! (L + 1) = Some (Ptrs ps')"
            "length ps' = n"
            and sl: "\<forall>j < n. ps' ! j = (if j < 1 + cB - 2 then Ptr (L + 2 + j)
                               else if j = 1 + cB - 2 then Null
                               else fresh_ptrs env (m + 1) j)" by auto
          have "ps' ! j = (if j < c - 2 then Ptr (L + 2 + j)
                               else if j = c - 2 then Null
                               else fresh_ptrs env (m + 1) j)" if "j < n" for j
            using sl [rule_format, OF that] that c cBn by auto
          moreover have "heap s' ! (L + 1) = Some (Ptrs ps')" using same a by simp
          ultimately show "\<exists>ps'. heap s' ! (L + 1) = Some (Ptrs ps') \<and> length ps' = n \<and>
            (\<forall>j < n. ps' ! j = (if j < c - 2 then Ptr (L + 2 + j)
                               else if j = c - 2 then Null
                               else fresh_ptrs env (m + 1) j))"
            using a(2) by (intro exI [of _ ps']) simp
        qed
        show "?Vec s' c"
        proof (intro allI impI)
          fix j assume j: "j < n \<and> j < c - 2"
          then have "j < n \<and> j < 1 + cB - 2" using cBn by simp
          with vec3 have "heap s3 ! (L + 2 + j) =
            Some (Bytes (map (fresh_bytes env (m + 2 + j))
                  [0..<byte_count env (to_unsigned mw) sizeof_float]))" by blast
          moreover from j have "heap s' ! (L + 2 + j) = heap s3 ! (L + 2 + j)"
            using same by simp
          ultimately show "heap s' ! (L + 2 + j) =
            Some (Bytes (map (fresh_bytes env (m + 2 + j))
                  [0..<byte_count env (to_unsigned mw) sizeof_float]))" by simp
        qed
        show "\<forall>b < L. heap s' ! b = heap s ! b" using same old3 by simp
        show "\<forall>b. L \<le> b \<and> b < L + (2 + n) \<longrightarrow> heap s' ! b \<noteq> None"
          using same live3' by simp
      qed
      let ?H = "R + W"
      from init_memory_usage_spec [of env s3, unfolded mal3] obtain r2 s4 cU newU pU psU where
        U: "deeplearn_dnc_init_memory_usage env s3 = (r2, s4)" and
        trU: "trace s4 = trace s3" and
        cU: "cU \<le> 1 + ?H" and
        okU: "\<forall>j < cU. \<not> malloc_fails env (m + (2 + n) + j)" and
        badU: "cU < 1 + ?H \<longrightarrow> malloc_fails env (m + (2 + n) + cU)" and
        malU: "mallocs s4 = m + (2 + n) + cU + (if cU < 1 + ?H then 1 else 0)" and
        r2: "r2 = (if cU = 0 then 1 else if cU < 1 + ?H then 2 else 0)" and
        hpU: "heap s4 = heap s3 @ newU" "length newU = cU" "None \<notin> set newU" and
        lrU: "learner s4 = (learner s3)\<lparr>memory := (memory (learner s3))
            \<lparr>mem_usage := pU, mem_usage_temporal := psU\<rparr>\<rparr>"
          "length psU = length (mem_usage_temporal (memory (learner s3)))"
        unfolding R_def W_def by blast
      have tr4: "trace s4 = trace s" using trU tr3 by simp
      have same4: "\<forall>b < L + (2 + n). heap s4 ! b = heap s3 ! b"
        using hpU(1) len3' by (simp add: nth_append)
      have ok4: "\<forall>j < 2 + n + cU. \<not> malloc_fails env (m + j)"
      proof (intro allI impI)
        fix j assume j: "j < 2 + n + cU"
        show "\<not> malloc_fails env (m + j)"
        proof (cases "j < 2 + n")
          case True
          with ok3' show ?thesis by simp
        next
          case False
          with j have "j - (2 + n) < cU" by simp
          with okU have "\<not> malloc_fails env (m + (2 + n) + (j - (2 + n)))" by blast
          moreover from False have "m + (2 + n) + (j - (2 + n)) = m + j" by linarith
          ultimately show ?thesis by metis
        qed
      qed
      have len4: "length (heap s4) = L + (2 + n + cU)" using hpU len3' by simp
      have live4: "?Live s4 (2 + n + cU)"
      proof (intro allI impI)
        fix b assume b: "L \<le> b \<and> b < L + (2 + n + cU)"
        show "heap s4 ! b \<noteq> None"
        proof (cases "b < L + (2 + n)")
          case True
          with b same4 live3' show ?thesis by simp
        next
          case False
          with b have "b - length (heap s3) < length newU" using len3' hpU(2) by simp
          moreover from False have "heap s4 ! b = newU ! (b - length (heap s3))"
            using hpU(1) len3' by (simp add: nth_append)
          ultimately show ?thesis using hpU(3) by (metis nth_mem)
        qed
      qed
      have lr4: "no_of_inputs (learner s4) = ni" "no_of_outputs (learner s4) = no"
        "controller (learner s4) = Ptr L"
        "mem_size (memory (learner s4)) = bank_size env ms"
        "mem_width (memory (learner s4)) = to_unsigned mw"
        "mem_address (memory (learner s4)) = Ptr (L + 1)"
        "length (mem_usage_temporal (memory (learner s4))) =
           length (mem_usage_temporal (memory (learner s)))"
        "read_head (learner s4) = read_head (learner s)"
        "write_head (learner s4) = write_head (learner s)"
        using lrU lr3 cBn by simp_all
      show ?thesis
      proof (cases "cU < 1 + ?H")
        case True
        have r2v: "r2 = 1 \<or> r2 = 2" using r2 True by auto
        then have code: "to_unsigned r2 \<noteq> 0"
          "to_signed (to_unsigned (3000 + to_unsigned r2)) = 3000 + r2"
          by (auto simp: to_unsigned_def to_signed_def)
        have cT: "2 + n + cU < T" using True by (simp add: T_def)
        note lt = later [OF same4, of "2 + n + cU"]
        from init_stage_usage [OF mn' B0 U code(1)] code(2)
        have "?I (3000 + r2) s4" by simp
        moreover have "?Tr s4" by (rule tr4)
        moreover have "?Cle (2 + n + cU)" using cT by simp
        moreover have "?Ok (2 + n + cU)" by (rule ok4)
        moreover have "?Bad (2 + n + cU)" using badU True by (simp add: add.assoc)
        moreover have "?Mal s4 (2 + n + cU)" using malU True cT by simp
        moreover have "?Len s4 (2 + n + cU)" by (rule len4)
        moreover have "?Old s4" using lt by simp
        moreover have "?Live s4 (2 + n + cU)" by (rule live4)
        moreover have "?Rc (3000 + r2) (2 + n + cU)" using r2 True by auto
        moreover have "?Ni s4" "?No s4" using lr4 by simp_all
        moreover have "?Ctl s4 (2 + n + cU)" using lr4 by simp
        moreover have "?Mem s4 (2 + n + cU)" using lr4 lt cT by simp
        moreover have "?Arr s4 (2 + n + cU)" using lt by simp
        moreover have "?Vec s4 (2 + n + cU)" using lt by simp
        moreover have "?Unt s4 (2 + n + cU)" by simp
        moreover have "?Sh1 s4" "?Sh2 s4" "?Sh3 s4" using lr4 by simp_all
        ultimately show ?thesis by blast
      next
        case False
        with cU have cUH: "cU = 1 + ?H" by simp
        with r2 have r20: "r2 = 0" by simp
        note U0 = U [unfolded r20]
        have mal4: "mallocs s4 = m + (3 + n + ?H)" using malU cUH by simp
        have len4': "length (heap s4) = L + (3 + n + ?H)" using len4 cUH by simp
        have ok4': "\<forall>j < 3 + n + ?H. \<not> malloc_fails env (m + j)" using ok4 cUH by simp
        have live4': "\<forall>b. L \<le> b \<and> b < L + (3 + n + ?H) \<longrightarrow> heap s4 ! b \<noteq> None"
          using live4 cUH by simp
        from init_heads_spec [of env s4, unfolded mal4] obtain r3 s5 cH newH hs1 hs2 where
          Hd: "deeplearn_dnc_init_heads env s4 = (r3, s5)" and
          trH: "trace s5 = trace s4" and
          cH: "cH \<le> R + 3 * W" and
          okH: "\<forall>j < cH. \<not> malloc_fails env (m + (3 + n + ?H) + j)" and
          badH: "cH < R + 3 * W \<longrightarrow> malloc_fails env (m + (3 + n + ?H) + cH)" and
          malH: "mallocs s5 = m + (3 + n + ?H) + cH + (if cH < R + 3 * W then 1 else 0)" and
          r3: "r3 = (if cH < R then 1
                     else if cH < R + 3 * W then 2 + int ((cH - R) mod 3) else 0)" and
          hpH: "heap s5 = heap s4 @ newH" "length newH = cH" "None \<notin> set newH" and
          lrH: "learner s5 = (learner s4)\<lparr>read_head := hs1, write_head := hs2\<rparr>"
            "length hs1 = length (read_head (learner s4))"
            "length hs2 = length (write_head (learner s4))"
          unfolding R_def W_def by blast
        have tr5: "trace s5 = trace s" using trH tr4 by simp
        have same5: "\<forall>b < L + (2 + n). heap s5 ! b = heap s3 ! b"
          using hpH(1) len4' same4 by (simp add: nth_append)
        have ok5: "\<forall>j < 3 + n + ?H + cH. \<not> malloc_fails env (m + j)"
        proof (intro allI impI)
          fix j assume j: "j < 3 + n + ?H + cH"
          show "\<not> malloc_fails env (m + j)"
          proof (cases "j < 3 + n + ?H")
            case True
            with ok4' show ?thesis by simp
          next
            case False
            with j have "j - (3 + n + ?H) < cH" by simp
            with okH have "\<not> malloc_fails env (m + (3 + n + ?H) + (j - (3 + n + ?H)))"
              by blast
            moreover from False have "m + (3 + n + ?H) + (j - (3 + n + ?H)) = m + j"
              by linarith
            ultimately show ?thesis by metis
          qed
        qed
        have len5: "length (heap s5) = L + (3 + n + ?H + cH)" using hpH len4' by simp
        have live5: "?Live s5 (3 + n + ?H + cH)"
        proof (intro allI impI)
          fix b assume b: "L \<le> b \<and> b < L + (3 + n + ?H + cH)"
          show "heap s5 ! b \<noteq> None"
          proof (cases "b < L + (3 + n + ?H)")
            case True
            with b live4' have "heap s4 ! b \<noteq> None" by simp
            moreover from True have "heap s5 ! b = heap s4 ! b"
              using hpH(1) len4' by (simp add: nth_append)
            ultimately show ?thesis by simp
          next
            case False
            with b have "b - length (heap s4) < length newH" using len4' hpH(2) by simp
            moreover from False have "heap s5 ! b = newH ! (b - length (heap s4))"
              using hpH(1) len4' by (simp add: nth_append)
            ultimately show ?thesis using hpH(3) by (metis nth_mem)
          qed
        qed
        have lr5: "no_of_inputs (learner s5) = ni" "no_of_outputs (learner s5) = no"
          "controller (learner s5) = Ptr L"
          "mem_size (memory (learner s5)) = bank_size env ms"
          "mem_width (memory (learner s5)) = to_unsigned mw"
          "mem_address (memory (learner s5)) = Ptr (L + 1)"
          "length (mem_usage_temporal (memory (learner s5))) =
             length (mem_usage_temporal (memory (learner s)))"
          "length (read_head (learner s5)) = length (read_head (learner s))"
          "length (write_head (learner s5)) = length (write_head (learner s))"
          using lrH lr4 by simp_all
        show ?thesis
        proof (cases "cH < R + 3 * W")
          case True
          have "(cH - R) mod 3 < 3" by simp
          then have r3v: "0 < r3" "r3 < 1000" using r3 True by (auto split: if_splits)
          from error_code [of 4000, OF _ _ r3v] have code: "to_unsigned r3 \<noteq> 0"
            "to_signed (to_unsigned (4000 + to_unsigned r3)) = 4000 + r3" by simp_all
          have cT: "3 + n + ?H + cH < T" using True by (simp add: T_def)
          note lt = later [OF same5, of "3 + n + ?H + cH"]
          from init_stage_heads [OF mn' B0 U0 Hd code(1)] code(2)
          have "?I (4000 + r3) s5" by simp
          moreover have "?Tr s5" by (rule tr5)
          moreover have "?Cle (3 + n + ?H + cH)" using cT by simp
          moreover have "?Ok (3 + n + ?H + cH)" by (rule ok5)
          moreover have "?Bad (3 + n + ?H + cH)" using badH True by (simp add: add.assoc)
          moreover have "?Mal s5 (3 + n + ?H + cH)" using malH True cT by simp
          moreover have "?Len s5 (3 + n + ?H + cH)" by (rule len5)
          moreover have "?Old s5" using lt by simp
          moreover have "?Live s5 (3 + n + ?H + cH)" by (rule live5)
          moreover have "?Rc (4000 + r3) (3 + n + ?H + cH)"
            using r3 True cT by (auto simp: T_def)
          moreover have "?Ni s5" "?No s5" using lr5 by simp_all
          moreover have "?Ctl s5 (3 + n + ?H + cH)" using lr5 by simp
          moreover have "?Mem s5 (3 + n + ?H + cH)" using lr5 lt cT by simp
          moreover have "?Arr s5 (3 + n + ?H + cH)" using lt by simp
          moreover have "?Vec s5 (3 + n + ?H + cH)" using lt by simp
          moreover have "?Unt s5 (3 + n + ?H + cH)" by simp
          moreover have "?Sh1 s5" "?Sh2 s5" "?Sh3 s5" using lr5 by simp_all
          ultimately show ?thesis by blast
        next
          case False
          with cH have cHT: "cH = R + 3 * W" by simp
          with r3 have r30: "r3 = 0" by simp
          note H0 = Hd [unfolded r30]
          have cT: "3 + n + ?H + cH = T" using cHT by (simp add: T_def)
          have net5: "heap s5 ! L = Some (Net (fresh_net env m))"
            using later [OF same5, of T] by (simp add: T_def)
          have Llt: "L < length (heap s5)" using len5 by simp
          let ?s6 = "s5\<lparr>heap := (heap s5)[L := Some (Net (snd made))]\<rparr>"
          from deeplearn_init_call_at [OF lr5(3) Llt net5]
          have C: "deeplearn_init_call env (controller_inputs env ni mw) nh hl
              (controller_outputs env no mw) et rs s5 = Inr (fst made, ?s6)"
            by (simp add: made_def)
          have net6: "heap ?s6 ! L = Some (Net (snd made))" using Llt by simp
          have oth6: "b \<noteq> L \<Longrightarrow> heap ?s6 ! b = heap s5 ! b" for b by simp
          note lt = later [OF same5, of T]
          have Tn: "2 + n \<le> T" by (simp add: T_def)
          from init_stage_network [OF mn' B0 U0 H0 C]
          have "?I (if to_unsigned (fst made) \<noteq> 0
                then to_signed (to_unsigned (5000 + to_unsigned (fst made))) else 0) ?s6" .
          moreover have "?Tr ?s6" using tr5 by simp
          moreover have "?Cle T" by simp
          moreover have "?Ok T" using ok5 cT by simp
          moreover have "?Bad T" by simp
          moreover have "?Mal ?s6 T" using malH cHT cT by simp
          moreover have "?Len ?s6 T" using len5 cT by simp
          moreover have "?Old ?s6" using lt [OF Tn] by (simp add: nth_list_update)
          moreover have "?Live ?s6 T"
          proof (intro allI impI)
            fix b assume b: "L \<le> b \<and> b < L + T"
            show "heap ?s6 ! b \<noteq> None"
            proof (cases "b = L")
              case True
              with net6 show ?thesis by simp
            next
              case False
              with live5 b cT show ?thesis by simp
            qed
          qed
          moreover have "?Rc (if to_unsigned (fst made) \<noteq> 0
                then to_signed (to_unsigned (5000 + to_unsigned (fst made))) else 0) T"
            by (simp add: T_def)
          moreover have "?Ni ?s6" "?No ?s6" using lr5 by simp_all
          moreover have "?Ctl ?s6 T" using lr5 by (simp add: T_def)
          moreover have "?Mem ?s6 T" using lr5 net6 by (simp add: T_def)
          moreover have "?Arr ?s6 T"
          proof
            from lt [OF Tn] obtain ps' where "heap s5 ! (L + 1) = Some (Ptrs ps') \<and>
              length ps' = n \<and>
              (\<forall>j < n. ps' ! j = (if j < T - 2 then Ptr (L + 2 + j)
                               else if j = T - 2 then Null
                               else fresh_ptrs env (m + 1) j))"
              using Tn by auto
            then show "\<exists>ps'. heap ?s6 ! (L + 1) = Some (Ptrs ps') \<and> length ps' = n \<and>
              (\<forall>j < n. ps' ! j = (if j < T - 2 then Ptr (L + 2 + j)
                               else if j = T - 2 then Null
                               else fresh_ptrs env (m + 1) j))"
              by (intro exI [of _ ps']) simp
          qed
          moreover have "?Vec ?s6 T"
          proof (intro allI impI)
            fix j assume j: "j < n \<and> j < T - 2"
            with lt [OF Tn] have "heap s5 ! (L + 2 + j) =
              Some (Bytes (map (fresh_bytes env (m + 2 + j))
                  [0..<byte_count env (to_unsigned mw) sizeof_float]))" by blast
            then show "heap ?s6 ! (L + 2 + j) =
              Some (Bytes (map (fresh_bytes env (m + 2 + j))
                  [0..<byte_count env (to_unsigned mw) sizeof_float]))" by simp
          qed
          moreover have "?Unt ?s6 T" by (simp add: T_def)
          moreover have "?Sh1 ?s6" "?Sh2 ?s6" "?Sh3 ?s6" using lr5 by simp_all
          ultimately show ?thesis by blast
        qed
      qed
    qed
  qed
qed

lemma init_cases [consumes 1, case_names outcome]:
  fixes s :: "'c state" and env :: "('c, 't, 'r) env"
  assumes fits: "bank_fits env ms"
  obtains rc s' c where
    "deeplearn_dnc_init env ms mw ni nh hl no et rs s = Inr (rc, s')"
    "trace s' = trace s"
    "c \<le> init_mallocs env ms"
    "\<forall>j < c. \<not> malloc_fails env (mallocs s + j)"
    "c < init_mallocs env ms \<longrightarrow> malloc_fails env (mallocs s + c)"
    "mallocs s' = mallocs s + c + (if c < init_mallocs env ms then 1 else 0)"
    "length (heap s') = length (heap s) + c"
    "\<forall>b < length (heap s). heap s' ! b = heap s ! b"
    "\<forall>b. length (heap s) \<le> b \<and> b < length (heap s) + c \<longrightarrow> heap s' ! b \<noteq> None"
    "rc = init_code env ms (fst (made_controller env mw ni nh hl no et rs (mallocs s))) c"
    "no_of_inputs (learner s') = ni"
    "no_of_outputs (learner s') = no"
    "controller (learner s') = (if c = 0 then Null else Ptr (length (heap s)))"
    "1 \<le> c \<longrightarrow> mem_size (memory (learner s')) = bank_size env ms \<and>
        mem_width (memory (learner s')) = to_unsigned mw \<and>
        mem_address (memory (learner s')) =
          (if c = 1 then Null else Ptr (length (heap s) + 1)) \<and>
        heap s' ! length (heap s) =
          Some (Net (if c = init_mallocs env ms
                     then snd (made_controller env mw ni nh hl no et rs (mallocs s))
                     else fresh_net env (mallocs s)))"
    "2 \<le> c \<longrightarrow> (\<exists>ps'. heap s' ! (length (heap s) + 1) = Some (Ptrs ps') \<and>
        length ps' = nat (bank_size env ms) \<and>
        (\<forall>j < nat (bank_size env ms). ps' ! j =
           (if j < c - 2 then Ptr (length (heap s) + 2 + j)
            else if j = c - 2 then Null else fresh_ptrs env (mallocs s + 1) j)))"
    "\<forall>j. j < nat (bank_size env ms) \<and> j < c - 2 \<longrightarrow> heap s' ! (length (heap s) + 2 + j) =
        Some (Bytes (map (fresh_bytes env (mallocs s + 2 + j))
                [0..<byte_count env (to_unsigned mw) sizeof_float]))"
    "c < 2 + nat (bank_size env ms) \<longrightarrow>
        mem_usage (memory (learner s')) = mem_usage (memory (learner s)) \<and>
        mem_usage_temporal (memory (learner s')) = mem_usage_temporal (memory (learner s)) \<and>
        read_head (learner s') = read_head (learner s) \<and>
        write_head (learner s') = write_head (learner s)"
    "length (mem_usage_temporal (memory (learner s'))) =
       length (mem_usage_temporal (memory (learner s)))"
    "length (read_head (learner s')) = length (read_head (learner s))"
    "length (write_head (learner s')) = length (write_head (learner s))"
  using init_outcome [OF fits, of mw ni nh hl no et rs s, folded init_code_def,
      folded init_mallocs_def, folded made_controller_def]
  by (elim exE conjE) (rule that; assumption)

lemma bank_size_largest_multiple:
  assumes "0 < DEEPLEARNDNC_USAGE_BLOCK_SIZE env" "0 \<le> ms" "ms < 2 ^ 31"
  shows "bank_size env ms =
           (ms div DEEPLEARNDNC_USAGE_BLOCK_SIZE env) * DEEPLEARNDNC_USAGE_BLOCK_SIZE env"
proof -
  let ?B = "DEEPLEARNDNC_USAGE_BLOCK_SIZE env"
  from assms have sd: "ms sdiv ?B = ms div ?B"
    by (simp add: signed_divide_int_def sgn_if)
  have nonneg: "0 \<le> (ms div ?B) * ?B" using assms by (simp add: pos_imp_zdiv_nonneg_iff)
  have "ms = (ms div ?B) * ?B + ms mod ?B" by simp
  moreover have "0 \<le> ms mod ?B" using assms by simp
  ultimately have "(ms div ?B) * ?B \<le> ms" by linarith
  with nonneg have "to_unsigned ((ms div ?B) * ?B) = (ms div ?B) * ?B"
    using assms by (intro to_unsigned_id) simp_all
  with sd show ?thesis by (simp add: bank_size_def)
qed

lemma init_code_zero:
  "init_code env ms status c = 0 \<Longrightarrow> c \<le> init_mallocs env ms \<Longrightarrow> c = init_mallocs env ms"
  by (auto simp: init_code_def init_mallocs_def split: if_splits)

section \<open>A successful initialisation\<close>

lemma init_success_granted:
  fixes s :: "'c state" and env :: "('c, 't, 'r) env"
  assumes "deeplearn_dnc_init env ms mw ni nh hl no et rs s = Inr (0, s')"
  obtains
    "controller (learner s') = Ptr (length (heap s))"
    "mem_size (memory (learner s')) = bank_size env ms"
    "mem_width (memory (learner s')) = to_unsigned mw"
    "mem_address (memory (learner s')) = Ptr (length (heap s) + 1)"
    "heap s' ! length (heap s) =
       Some (Net (snd (made_controller env mw ni nh hl no et rs (mallocs s))))"
    "length (heap s') = length (heap s) + init_mallocs env ms"
    "\<exists>ps'. heap s' ! (length (heap s) + 1) = Some (Ptrs ps') \<and>
        length ps' = nat (bank_size env ms) \<and>
        (\<forall>j < nat (bank_size env ms). ps' ! j = Ptr (length (heap s) + 2 + j))"
    "\<forall>j < nat (bank_size env ms). heap s' ! (length (heap s) + 2 + j) =
        Some (Bytes (map (fresh_bytes env (mallocs s + 2 + j))
                [0..<byte_count env (to_unsigned mw) sizeof_float]))"
  using init_success_fits [OF assms]
proof (cases rule: init_cases [of env ms mw ni nh hl no et rs s])
  case (outcome rc s'' c)
  from outcome(1) assms have eq: "rc = 0" "s'' = s'" by simp_all
  from outcome(10) eq(1) outcome(3) have c: "c = init_mallocs env ms"
    by (intro init_code_zero) simp_all
  then have c2: "1 \<le> c" "2 \<le> c" "c \<noteq> 0" "c \<noteq> 1" "nat (bank_size env ms) \<le> c - 2"
    by (simp_all add: init_mallocs_def)
  from outcome(15) c2 obtain ps' where ps: "heap s'' ! (length (heap s) + 1) = Some (Ptrs ps')"
    "length ps' = nat (bank_size env ms)"
    "\<forall>j < nat (bank_size env ms). ps' ! j =
           (if j < c - 2 then Ptr (length (heap s) + 2 + j)
            else if j = c - 2 then Null else fresh_ptrs env (mallocs s + 1) j)" by blast
  from ps(3) c2(5) have "\<forall>j < nat (bank_size env ms). ps' ! j = Ptr (length (heap s) + 2 + j)"
    by auto
  with ps(1,2) have arr: "\<exists>ps'. heap s' ! (length (heap s) + 1) = Some (Ptrs ps') \<and>
        length ps' = nat (bank_size env ms) \<and>
        (\<forall>j < nat (bank_size env ms). ps' ! j = Ptr (length (heap s) + 2 + j))"
    unfolding eq(2) by blast
  from outcome(16) c2(5) have vec: "\<forall>j < nat (bank_size env ms).
      heap s' ! (length (heap s) + 2 + j) =
        Some (Bytes (map (fresh_bytes env (mallocs s + 2 + j))
                [0..<byte_count env (to_unsigned mw) sizeof_float]))"
    unfolding eq(2) by auto
  show thesis
  proof (rule that)
    show "controller (learner s') = Ptr (length (heap s))"
      using outcome(13) c2 eq(2) by simp
    show "mem_size (memory (learner s')) = bank_size env ms"
      "mem_width (memory (learner s')) = to_unsigned mw"
      "mem_address (memory (learner s')) = Ptr (length (heap s) + 1)"
      "heap s' ! length (heap s) =
         Some (Net (snd (made_controller env mw ni nh hl no et rs (mallocs s))))"
      using outcome(14) c2 c eq(2) by simp_all
    show "length (heap s') = length (heap s) + init_mallocs env ms"
      using outcome(7) c eq(2) by simp
  qed (fact arr, fact vec)
qed

lemma controller_widths:
  assumes "0 \<le> ni" "0 \<le> no" "0 \<le> mw"
    and "ni + mw * int (DEEPLEARNDNC_READ_HEADS env) < 2 ^ 31"
    and "no + mw * int (DEEPLEARNDNC_WRITE_HEADS env) +
           (mw + 3) * int (DEEPLEARNDNC_READ_HEADS env) < 2 ^ 31"
  shows "controller_inputs env ni mw = ni + mw * int (DEEPLEARNDNC_READ_HEADS env)"
    and "controller_outputs env no mw =
           no + mw * int (DEEPLEARNDNC_WRITE_HEADS env) +
           (mw + 3) * int (DEEPLEARNDNC_READ_HEADS env)"
proof -
  let ?R = "int (DEEPLEARNDNC_READ_HEADS env)" and ?W = "int (DEEPLEARNDNC_WRITE_HEADS env)"
  have p: "0 \<le> mw * ?R" "0 \<le> mw * ?W" "0 \<le> (mw + 3) * ?R" using assms(3) by simp_all
  have s: "\<And>x. 0 \<le> x \<Longrightarrow> x < 2 ^ 31 \<Longrightarrow> to_signed x = x" by (simp add: to_signed_id)
  have a: "to_signed (mw * ?R) = mw * ?R" using p assms by (intro s) linarith+
  show "controller_inputs env ni mw = ni + mw * ?R"
    unfolding controller_inputs_def a using p assms by (intro s) linarith+
  have b: "to_signed (mw * ?W) = mw * ?W" using p assms by (intro s) linarith+
  have c: "to_signed (no + mw * ?W) = no + mw * ?W" using p assms by (intro s) linarith+
  have d: "to_signed (to_signed (mw + 3) * ?R) = (mw + 3) * ?R"
  proof (cases "DEEPLEARNDNC_READ_HEADS env = 0")
    case True
    then show ?thesis by (simp add: to_signed_def)
  next
    case False
    then have "1 \<le> ?R" by simp
    then have "mw + 3 \<le> (mw + 3) * ?R" using assms(3)
      by (metis add_nonneg_nonneg mult.right_neutral mult_left_mono zero_le_numeral)
    then have "to_signed (mw + 3) = mw + 3" using p assms by (intro s) linarith+
    moreover have "to_signed ((mw + 3) * ?R) = (mw + 3) * ?R"
      using p assms by (intro s) linarith+
    ultimately show ?thesis by simp
  qed
  show "controller_outputs env no mw = no + mw * ?W + (mw + 3) * ?R"
    unfolding controller_outputs_def b c d using p assms by (intro s) linarith+
qed

lemma float_bytes_of_block:
  assumes "a < length (heap s)" "heap s ! a = Some (Bytes (map f [0..<b]))"
    "(j + 1) * sizeof_float \<le> b"
  shows "float_bytes s (Ptr a) j = Inr (map f [j * sizeof_float..<(j + 1) * sizeof_float])"
proof -
  from assms(3) have "take sizeof_float (drop (j * sizeof_float) (map f [0..<b])) =
      map f [j * sizeof_float..<(j + 1) * sizeof_float]"
    by (simp add: drop_map take_map take_upt add.commute)
  with assms show ?thesis by (simp add: float_bytes_def lookup_def)
qed

text \<open>The first refused call decides what \<open>deeplearn_dnc_init\<close> returns.\<close>

lemma init_first_refusal:
  fixes s :: "'c state" and env :: "('c, 't, 'r) env"
  assumes fits: "bank_fits env ms"
    and k: "k \<le> init_mallocs env ms"
    and granted: "\<forall>j < k. \<not> malloc_fails env (mallocs s + j)"
    and refused: "k < init_mallocs env ms \<longrightarrow> malloc_fails env (mallocs s + k)"
  shows "map_sum id fst (deeplearn_dnc_init env ms mw ni nh hl no et rs s) =
           Inr (init_code env ms (fst (made_controller env mw ni nh hl no et rs (mallocs s))) k)"
  using fits
proof (cases rule: init_cases [of env ms mw ni nh hl no et rs s])
  case (outcome rc s' c)
  have "c = k"
  proof (rule ccontr)
    assume "c \<noteq> k"
    then consider "c < k" | "k < c" by linarith
    then show False
    proof cases
      case 1
      with k outcome(5) have "malloc_fails env (mallocs s + c)" by simp
      with granted 1 show False by simp
    next
      case 2
      with outcome(3) refused have "malloc_fails env (mallocs s + k)" by simp
      with outcome(4) 2 show False by simp
    qed
  qed
  with outcome(1,10) show ?thesis by simp
qed

section \<open>Clearing inside the buffers\<close>

lemma memset_zero_cases:
  assumes "memset_zero p n s = Inr s'"
  obtains a bs where "p = Ptr a" "a < length (heap s)" "heap s ! a = Some (Bytes bs)"
    "n \<le> length bs" "s' = s\<lparr>heap := (heap s)[a := Some (Bytes (replicate n 0 @ drop n bs))]\<rparr>"
  using assms
  by (auto simp: memset_zero_def lookup_def
      split: ptr.splits option.splits block.splits if_splits)

lemma zeroed_iff:
  "zeroed s p n \<longleftrightarrow> (\<exists>a bs. p = Ptr a \<and> a < length (heap s) \<and> heap s ! a = Some (Bytes bs) \<and>
      n \<le> length bs \<and> take n bs = replicate n 0)"
  by (auto simp: zeroed_def lookup_def split: ptr.splits option.splits block.splits)

lemma memset_zero_zeroed:
  assumes "memset_zero p n s = Inr s'"
  shows "zeroed s' p n"
  using assms by (rule memset_zero_cases) (auto simp: zeroed_iff)

lemma take_zero_prefix:
  assumes "take n bs = replicate n (0 :: 8 word)" "n \<le> length bs" "k \<le> length bs"
  shows "take n (replicate k 0 @ drop k bs) = replicate n 0"
proof (cases "n \<le> k")
  case True
  then show ?thesis by simp
next
  case False
  then have kn: "k \<le> n" by simp
  have "take (n - k) (drop k bs) = drop k (take n bs)" using kn by (simp add: drop_take)
  also have "\<dots> = replicate (n - k) 0" using assms(1) by simp
  finally have "take (n - k) (drop k bs) = replicate (n - k) 0" .
  then have "take n (replicate k 0 @ drop k bs) = replicate k 0 @ replicate (n - k) 0"
    using kn by simp
  also have "\<dots> = replicate n 0" using kn by (simp add: replicate_add [symmetric])
  finally show ?thesis .
qed

lemma memset_zero_keeps_zeroed:
  assumes "memset_zero q k s = Inr s'" "zeroed s p n"
  shows "zeroed s' p n"
proof -
  from assms(1) obtain b cs where q: "q = Ptr b" "b < length (heap s)"
    "heap s ! b = Some (Bytes cs)" "k \<le> length cs"
    "s' = s\<lparr>heap := (heap s)[b := Some (Bytes (replicate k 0 @ drop k cs))]\<rparr>"
    by (rule memset_zero_cases)
  from assms(2) obtain a bs where p: "p = Ptr a" "a < length (heap s)"
    "heap s ! a = Some (Bytes bs)" "n \<le> length bs" "take n bs = replicate n 0"
    by (auto simp: zeroed_iff)
  show ?thesis
  proof (cases "a = b")
    case True
    with p q have "cs = bs" by simp
    with p q True take_zero_prefix [OF p(5) p(4), of k] show ?thesis
      by (auto simp: zeroed_iff)
  next
    case False
    with p q show ?thesis by (auto simp: zeroed_iff)
  qed
qed

lemma memset_zero_again:
  assumes "zeroed s p n"
  shows "memset_zero p n s = Inr s"
proof -
  from assms obtain a bs where p: "p = Ptr a" "a < length (heap s)"
    "heap s ! a = Some (Bytes bs)" "n \<le> length bs" "take n bs = replicate n 0"
    by (auto simp: zeroed_iff)
  have "replicate n 0 @ drop n bs = bs" using p(5) by (metis append_take_drop_id)
  then have "(heap s)[a := Some (Bytes (replicate n 0 @ drop n bs))] = heap s"
    using p(3) by (simp add: list_update_same_conv p(2))
  with p show ?thesis by (simp add: memset_zero_def lookup_def)
qed

lemma memset_zero_keeps_load:
  assumes "memset_zero q k s = Inr s'" "load_ptr s p i = Inr v"
  shows "load_ptr s' p i = Inr v"
proof -
  from assms(1) obtain b cs where q: "q = Ptr b" "b < length (heap s)"
    "heap s ! b = Some (Bytes cs)"
    "s' = s\<lparr>heap := (heap s)[b := Some (Bytes (replicate k 0 @ drop k cs))]\<rparr>"
    by (rule memset_zero_cases)
  from assms(2) obtain a ps where p: "p = Ptr a" "a < length (heap s)"
    "heap s ! a = Some (Ptrs ps)" "i < length ps" "v = ps ! i"
    by (auto simp: load_ptr_def lookup_def
        split: ptr.splits option.splits block.splits if_splits)
  from p q have "a \<noteq> b" by auto
  with p q show ?thesis by (simp add: load_ptr_def lookup_def)
qed

lemma clear_vectors_spec:
  assumes "clear_vectors env n i s = Inr s'"
  shows "learner s' = learner s \<and> trace s' = trace s \<and> mallocs s' = mallocs s \<and>
    (\<forall>p k. zeroed s p k \<longrightarrow> zeroed s' p k) \<and>
    (\<forall>p j v. load_ptr s p j = Inr v \<longrightarrow> load_ptr s' p j = Inr v) \<and>
    (\<forall>j. i \<le> j \<and> j < n \<longrightarrow>
       (\<exists>q. load_ptr s' (mem_address (memory (learner s))) j = Inr q \<and>
            zeroed s' q (byte_count env (mem_width (memory (learner s))) sizeof_float)))"
  using assms
proof (induction env n i s rule: clear_vectors.induct)
  case (1 env n i s)
  show ?case
  proof (cases "i < n")
    case False
    with "1.prems" show ?thesis by (auto simp: clear_vectors.simps)
  next
    case True
    let ?A = "mem_address (memory (learner s))"
    let ?W = "byte_count env (mem_width (memory (learner s))) sizeof_float"
    from "1.prems" True obtain p s1 where
      p: "load_ptr s ?A i = Inr p" and
      s1: "memset_zero p ?W s = Inr s1" and
      rest: "clear_vectors env n (Suc i) s1 = Inr s'"
      by (subst (asm) clear_vectors.simps) (auto split: sum.splits)
    note f1 = memset_zero_frame [OF s1]
    note ih = "1.IH" [OF True p s1 rest, unfolded f1 [THEN conjunct1]]
    have z: "zeroed s' p k" if "zeroed s p k" for p k
      using ih memset_zero_keeps_zeroed [OF s1 that] by blast
    have l: "load_ptr s' p j = Inr v" if "load_ptr s p j = Inr v" for p j v
      using ih memset_zero_keeps_load [OF s1 that] by blast
    have v: "\<exists>q. load_ptr s' ?A j = Inr q \<and> zeroed s' q ?W" if j: "i \<le> j \<and> j < n" for j
    proof (cases "j = i")
      case True
      have "zeroed s1 p ?W" using s1 by (rule memset_zero_zeroed)
      with ih have "zeroed s' p ?W" by blast
      moreover have "load_ptr s' ?A i = Inr p" using l [OF p] .
      ultimately show ?thesis using True by blast
    next
      case False
      with j have "Suc i \<le> j \<and> j < n" by simp
      with ih show ?thesis by blast
    qed
    from ih f1 z l v show ?thesis by simp
  qed
qed

lemma clear_vectors_again:
  assumes "\<forall>j. i \<le> j \<and> j < n \<longrightarrow>
       (\<exists>q. load_ptr s (mem_address (memory (learner s))) j = Inr q \<and>
            zeroed s q (byte_count env (mem_width (memory (learner s))) sizeof_float))"
  shows "clear_vectors env n i s = Inr s"
  using assms
proof (induction env n i s rule: clear_vectors.induct)
  case (1 env n i s)
  show ?case
  proof (cases "i < n")
    case False
    then show ?thesis by (simp add: clear_vectors.simps)
  next
    case True
    let ?A = "mem_address (memory (learner s))"
    let ?W = "byte_count env (mem_width (memory (learner s))) sizeof_float"
    from "1.prems" True obtain q where q: "load_ptr s ?A i = Inr q" "zeroed s q ?W" by auto
    have m: "memset_zero q ?W s = Inr s" using q(2) by (rule memset_zero_again)
    have "clear_vectors env n (Suc i) s = Inr s"
      using "1.prems" by (intro "1.IH" [OF True q(1) m]) auto
    with True q(1) m show ?thesis by (subst clear_vectors.simps) simp
  qed
qed

lemma zeroed_heap_cong: "heap s = heap s' \<Longrightarrow> zeroed s p n = zeroed s' p n"
  by (cases p) (simp_all add: zeroed_def lookup_def)

lemma load_ptr_heap_cong: "heap s = heap s' \<Longrightarrow> load_ptr s p i = load_ptr s' p i"
  by (cases p) (simp_all add: load_ptr_def lookup_def)

lemma memset_slots_again:
  assumes "memset_slots k ps = Inr ps'"
  shows "memset_slots k ps' = Inr ps'"
  using assms by (auto simp: memset_slots_def split: if_splits)

text \<open>
  A second \<open>deeplearn_dnc_clear_memory\<close> right after one that stayed inside its
  buffers stays inside them too and leaves the state exactly as the first one left it.
\<close>

lemma clear_memory_twice:
  assumes "deeplearn_dnc_clear_memory env s = Inr s'"
  shows "deeplearn_dnc_clear_memory env s' = Inr s'"
proof -
  let ?n = "memory_usage_size env s"
  let ?N = "nat (mem_size (memory (learner s)))"
  let ?A = "mem_address (memory (learner s))"
  let ?W = "byte_count env (mem_width (memory (learner s))) sizeof_float"
  let ?K = "byte_count env (to_signed (?n * ?n)) (sizeof_float_ptr env) div sizeof_float_ptr env"
  from assms obtain s1 s2 ps where
    s1: "clear_vectors env ?N 0 s = Inr s1" and
    s2: "memset_zero (mem_usage (memory (learner s1))) (byte_count env ?n (sizeof_float_ptr env)) s1 = Inr s2" and
    ps: "memset_slots ?K (mem_usage_temporal (memory (learner s2))) = Inr ps" and
    s': "s' = learner_update (memory_update (\<lambda>m. m\<lparr>mem_usage_temporal := ps\<rparr>)) s2"
    by (auto simp: deeplearn_dnc_clear_memory_def Let_def split: sum.splits)
  note c1 = clear_vectors_spec [OF s1]
  note f2 = memset_zero_frame [OF s2]
  have l1: "learner s1 = learner s" using c1 by simp
  have l2: "learner s2 = learner s" using f2 l1 by simp
  have h': "heap s' = heap s2" by (simp add: s')
  have fields: "mem_size (memory (learner s')) = mem_size (memory (learner s))"
    "mem_width (memory (learner s')) = mem_width (memory (learner s))"
    "mem_address (memory (learner s')) = ?A"
    "mem_usage (memory (learner s')) = mem_usage (memory (learner s))"
    "mem_usage_temporal (memory (learner s')) = ps"
    "memory_usage_size env s' = ?n"
    using l2 by (simp_all add: s' memory_usage_size_def)
  have vec: "\<exists>q. load_ptr s' ?A j = Inr q \<and> zeroed s' q ?W" if "0 \<le> j \<and> j < ?N" for j
  proof -
    from c1 that obtain q where q: "load_ptr s1 ?A j = Inr q" "zeroed s1 q ?W" by blast
    have "load_ptr s2 ?A j = Inr q" using memset_zero_keeps_load [OF s2 q(1)] .
    moreover have "zeroed s2 q ?W" using memset_zero_keeps_zeroed [OF s2 q(2)] .
    ultimately show ?thesis
      using load_ptr_heap_cong [OF h'] zeroed_heap_cong [OF h'] by auto
  qed
  have a: "clear_vectors env ?N 0 s' = Inr s'"
    using vec fields by (intro clear_vectors_again) simp
  have "zeroed s2 (mem_usage (memory (learner s))) (byte_count env ?n (sizeof_float_ptr env))"
    using memset_zero_zeroed [OF s2] l1 by simp
  then have "zeroed s' (mem_usage (memory (learner s))) (byte_count env ?n (sizeof_float_ptr env))"
    using zeroed_heap_cong [OF h'] by simp
  then have b: "memset_zero (mem_usage (memory (learner s))) (byte_count env ?n (sizeof_float_ptr env)) s'
      = Inr s'" by (rule memset_zero_again)
  have c: "memset_slots ?K ps = Inr ps"
    using ps by (rule memset_slots_again)
  have d: "learner_update (memory_update (\<lambda>m. m\<lparr>mem_usage_temporal := ps\<rparr>)) s' = s'"
    by (simp add: s')
  show ?thesis
    using a b c d fields by (simp add: deeplearn_dnc_clear_memory_def Let_def)
qed

text \<open>
  A clearing that stays inside its buffers found a slot in the array
  \<open>usage_temporal\<close> for every pointer size its third \<open>memset\<close> covers.
\<close>

lemma clear_memory_needs:
  assumes "deeplearn_dnc_clear_memory env s = Inr s'"
  shows "byte_count env (to_signed (memory_usage_size env s * memory_usage_size env s))
           (sizeof_float_ptr env) div sizeof_float_ptr env
         \<le> length (mem_usage_temporal (memory (learner s)))"
proof -
  let ?n = "memory_usage_size env s"
  let ?K = "byte_count env (to_signed (?n * ?n)) (sizeof_float_ptr env) div sizeof_float_ptr env"
  from assms obtain s1 s2 ps where
    s1: "clear_vectors env (nat (mem_size (memory (learner s)))) 0 s = Inr s1" and
    s2: "memset_zero (mem_usage (memory (learner s1)))
           (byte_count env ?n (sizeof_float_ptr env)) s1 = Inr s2" and
    ps: "memset_slots ?K (mem_usage_temporal (memory (learner s2))) = Inr ps"
    by (auto simp: deeplearn_dnc_clear_memory_def Let_def split: sum.splits)
  from clear_vectors_learner [OF s1] memset_zero_frame [OF s2]
  have "learner s2 = learner s" by simp
  with ps show ?thesis by (simp add: memset_slots_def split: if_splits)
qed

section \<open>The calls of a release\<close>

lemma free_cases:
  assumes "free p s = Inr s'"
  shows "trace s' = trace s @ [Free p] \<and> learner s' = learner s \<and>
         length (heap s') = length (heap s) \<and>
         (\<forall>a. heap s' ! a \<noteq> None \<longrightarrow> heap s' ! a = heap s ! a)"
  using assms
  by (auto simp: free_def lookup_def nth_list_update
      split: ptr.splits sum.splits option.splits if_splits)

lemma load_ptr_cases:
  assumes "load_ptr s p i = Inr v"
  obtains a ps where "p = Ptr a" "a < length (heap s)" "heap s ! a = Some (Ptrs ps)"
    "i < length ps" "v = ps ! i"
  using assms
  by (auto simp: load_ptr_def lookup_def split: ptr.splits option.splits block.splits if_splits)

lemma free_vectors_trace:
  assumes "free_vectors n i s = Inr s'" "mem_address (memory (learner s)) = Ptr a"
    "a < length (heap s)" "heap s ! a = Some (Ptrs ps)"
  shows "trace s' = trace s @ map Free (take (n - i) (drop i ps))"
  using assms
proof (induction n i s rule: free_vectors.induct)
  case (1 n i s)
  show ?case
  proof (cases "i < n")
    case False
    with "1.prems" show ?thesis by (simp add: free_vectors.simps)
  next
    case True
    from "1.prems"(1) True obtain p s1 where
      p: "load_ptr s (mem_address (memory (learner s))) i = Inr p" and
      s1: "free p s = Inr s1" and
      rest: "free_vectors n (Suc i) s1 = Inr s'"
      by (subst (asm) free_vectors.simps) (auto split: sum.splits)
    from p "1.prems"(2,4) have i: "i < length ps" and pv: "p = ps ! i"
      by (auto elim!: load_ptr_cases)
    note f = free_cases [OF s1]
    have step: "take (n - i) (drop i ps) = ps ! i # take (n - Suc i) (drop (Suc i) ps)"
      using True i by (simp add: Cons_nth_drop_Suc [symmetric] take_Suc_Cons [symmetric]
          Suc_diff_Suc del: take_Suc_Cons)
    show ?thesis
    proof (cases "Suc i < n")
      case False
      with True have "Suc i = n" by simp
      with rest have "s' = s1" by (simp add: free_vectors.simps)
      with f pv step \<open>Suc i = n\<close> show ?thesis by simp
    next
      case Suc: True
      from rest Suc obtain q where
        "load_ptr s1 (mem_address (memory (learner s1))) (Suc i) = Inr q"
        by (subst (asm) free_vectors.simps) (auto split: sum.splits)
      with f "1.prems"(2) obtain ps1 where "heap s1 ! a = Some (Ptrs ps1)"
        by (auto elim!: load_ptr_cases)
      with f "1.prems"(4) have h1: "heap s1 ! a = Some (Ptrs ps)" by auto
      have "trace s' = trace s1 @ map Free (take (n - Suc i) (drop (Suc i) ps))"
        using f "1.prems"(2,3) h1 by (intro "1.IH" [OF True p s1 rest]) simp_all
      with f pv step show ?thesis by simp
    qed
  qed
qed

lemma free_usage_temporal_trace:
  assumes "free_usage_temporal env i s = Inr s'"
  shows "trace s' = trace s @ map (\<lambda>j. Free (mem_usage_temporal (memory (learner s)) ! j))
           [i..<DEEPLEARNDNC_READ_HEADS env + DEEPLEARNDNC_WRITE_HEADS env]"
  using assms
proof (induction env i s rule: free_usage_temporal.induct)
  case (1 env i s)
  show ?case
  proof (cases "i < DEEPLEARNDNC_READ_HEADS env + DEEPLEARNDNC_WRITE_HEADS env")
    case False
    with "1.prems" show ?thesis by (simp add: free_usage_temporal.simps)
  next
    case True
    from "1.prems" True obtain s1 where
      s1: "free (mem_usage_temporal (memory (learner s)) ! i) s = Inr s1" and
      rest: "free_usage_temporal env (Suc i) s1 = Inr s'"
      by (subst (asm) free_usage_temporal.simps) (auto split: sum.splits)
    from "1.IH" [OF True s1 rest] free_cases [OF s1] True show ?thesis
      by (simp add: upt_conv_Cons)
  qed
qed

lemma free_read_heads_trace:
  assumes "free_read_heads env i s = Inr s'"
  shows "trace s' = trace s @ map (\<lambda>j. Free (rh_key (read_head (learner s) ! j)))
           [i..<DEEPLEARNDNC_READ_HEADS env]"
  using assms
proof (induction env i s rule: free_read_heads.induct)
  case (1 env i s)
  show ?case
  proof (cases "i < DEEPLEARNDNC_READ_HEADS env")
    case False
    with "1.prems" show ?thesis by (simp add: free_read_heads.simps)
  next
    case True
    from "1.prems" True obtain s1 where
      s1: "free (rh_key (read_head (learner s) ! i)) s = Inr s1" and
      rest: "free_read_heads env (Suc i) s1 = Inr s'"
      by (subst (asm) free_read_heads.simps) (auto split: sum.splits)
    from "1.IH" [OF True s1 rest] free_cases [OF s1] True show ?thesis
      by (simp add: upt_conv_Cons)
  qed
qed

lemma free_write_heads_trace:
  assumes "free_write_heads env i s = Inr s'"
  shows "trace s' = trace s @ concat (map (\<lambda>j.
           [Free (wh_write (write_head (learner s) ! j)),
            Free (wh_erase (write_head (learner s) ! j)),
            Free (wh_key (write_head (learner s) ! j))])
           [i..<DEEPLEARNDNC_WRITE_HEADS env])"
  using assms
proof (induction env i s rule: free_write_heads.induct)
  case (1 env i s)
  show ?case
  proof (cases "i < DEEPLEARNDNC_WRITE_HEADS env")
    case False
    with "1.prems" show ?thesis by (simp add: free_write_heads.simps)
  next
    case True
    from "1.prems" True obtain s1 s2 s3 where
      s1: "free (wh_write (write_head (learner s) ! i)) s = Inr s1" and
      s2: "free (wh_erase (write_head (learner s1) ! i)) s1 = Inr s2" and
      s3: "free (wh_key (write_head (learner s2) ! i)) s2 = Inr s3" and
      rest: "free_write_heads env (Suc i) s3 = Inr s'"
      by (subst (asm) free_write_heads.simps) (auto split: sum.splits)
    from "1.IH" [OF True s1 s2 s3 rest] free_cases [OF s1] free_cases [OF s2]
      free_cases [OF s3] True
    show ?thesis by (simp add: upt_conv_Cons)
  qed
qed

section \<open>The bank is rounded down to whole usage blocks\<close>

text \<open>
  C1: when \<open>deeplearn_dnc_init\<close> succeeds for a \<open>memory_size\<close> of at least one usage
  block, \<open>memory.size\<close> is the largest multiple of \<open>DEEPLEARNDNC_USAGE_BLOCK_SIZE\<close>
  that does not exceed \<open>memory_size\<close>, and \<open>memory.width\<close> is \<open>memory_width\<close>.
  For \<open>memory_size = 20\<close> and blocks of 16 that is 16.
\<close>

theorem init_bank_dimensions:
  fixes s :: "'c state" and env :: "('c, 't, 'r) env"
  assumes ok: "deeplearn_dnc_init env memory_size memory_width ni nh hl no et rs s = Inr (0, s')"
    and B: "0 < DEEPLEARNDNC_USAGE_BLOCK_SIZE env"
      "DEEPLEARNDNC_USAGE_BLOCK_SIZE env \<le> memory_size"
    and range: "memory_size < 2 ^ 31" "0 \<le> memory_width" "memory_width < 2 ^ 31"
  shows "DEEPLEARNDNC_USAGE_BLOCK_SIZE env dvd mem_size (memory (learner s')) \<and>
         mem_size (memory (learner s')) \<le> memory_size \<and>
         (\<forall>k. DEEPLEARNDNC_USAGE_BLOCK_SIZE env dvd k \<and> k \<le> memory_size \<longrightarrow>
              k \<le> mem_size (memory (learner s'))) \<and>
         mem_size (memory (learner s')) =
           (memory_size div DEEPLEARNDNC_USAGE_BLOCK_SIZE env) *
             DEEPLEARNDNC_USAGE_BLOCK_SIZE env \<and>
         mem_width (memory (learner s')) = memory_width"
proof (rule init_success_granted [OF ok])
  let ?B = "DEEPLEARNDNC_USAGE_BLOCK_SIZE env"
  assume sz: "mem_size (memory (learner s')) = bank_size env memory_size"
    and wd: "mem_width (memory (learner s')) = to_unsigned memory_width"
  from B range have size: "mem_size (memory (learner s')) = (memory_size div ?B) * ?B"
    unfolding sz by (intro bank_size_largest_multiple) simp_all
  have "memory_size = (memory_size div ?B) * ?B + memory_size mod ?B" by simp
  moreover have "0 \<le> memory_size mod ?B" using B by simp
  ultimately have le: "(memory_size div ?B) * ?B \<le> memory_size" by linarith
  have largest: "k \<le> (memory_size div ?B) * ?B" if k: "?B dvd k" "k \<le> memory_size" for k
  proof -
    from k(1) obtain q where q: "k = ?B * q" by (auto simp: dvd_def)
    with k(2) B(1) have "q \<le> memory_size div ?B"
      by (metis mult.commute zdiv_mono1 nonzero_mult_div_cancel_right less_irrefl)
    with B(1) q show ?thesis by (simp add: mult.commute)
  qed
  from range have "mem_width (memory (learner s')) = memory_width"
    unfolding wd by (intro to_unsigned_id) simp_all
  with size le largest show ?thesis by simp
qed

theorem init_bank_dimensions_witness:
  "deeplearn_dnc_init demo_env 20 1 10 20 1 2 () () demo_start = Inr (0, demo_ready) \<and>
   mem_size (memory (learner demo_ready)) = 16 \<and>
   mem_size (memory (learner demo_ready)) \<noteq> 20 \<and>
   mem_size (memory (learner demo_ready)) \<noteq> 32 \<and>
   mem_width (memory (learner demo_ready)) = 1"
proof -
  have "mem_size (memory (learner demo_ready)) =
          (20 div DEEPLEARNDNC_USAGE_BLOCK_SIZE demo_env) *
            DEEPLEARNDNC_USAGE_BLOCK_SIZE demo_env \<and>
        mem_width (memory (learner demo_ready)) = 1"
    using init_bank_dimensions [OF demo_init] by (simp add: demo_env_def)
  then have "mem_size (memory (learner demo_ready)) = 16 \<and>
        mem_width (memory (learner demo_ready)) = 1"
    by (simp add: demo_env_def)
  with demo_init show ?thesis by simp
qed

section \<open>The widths of the controller\<close>

text \<open>
  C4: for a valid configuration (non-negative sizes whose sums fit an \<open>int\<close>, a bank
  whose array of addresses fits \<open>size_t\<close>) and an allocator that grants every call,
  \<open>deeplearn_dnc_init\<close> returns, and whatever status the library reported,
  \<open>learner->controller\<close> points to what the library's \<open>deeplearn_init\<close> made of the
  fresh controller object with \<open>no_of_inputs + memory_width * READ_HEADS\<close> inputs and
  \<open>no_of_outputs + memory_width * WRITE_HEADS + (memory_width + 3) * READ_HEADS\<close>
  outputs.
\<close>

theorem init_controller_widths:
  fixes s :: "'c state" and env :: "('c, 't, 'r) env"
  assumes granted: "\<forall>j < init_mallocs env memory_size. \<not> malloc_fails env (mallocs s + j)"
    and valid: "0 \<le> ni" "0 \<le> no" "0 \<le> memory_width"
      "ni + memory_width * int (DEEPLEARNDNC_READ_HEADS env) < 2 ^ 31"
      "no + memory_width * int (DEEPLEARNDNC_WRITE_HEADS env) +
         (memory_width + 3) * int (DEEPLEARNDNC_READ_HEADS env) < 2 ^ 31"
    and room: "0 < sizeof_float_ptr env"
      "bank_size env memory_size * int (sizeof_float_ptr env) < 2 ^ (8 * sizeof_float_ptr env)"
  shows "\<exists>rc s'. deeplearn_dnc_init env memory_size memory_width ni nh hl no et rs s =
           Inr (rc, s') \<and>
         controller_inputs env ni memory_width =
           ni + memory_width * int (DEEPLEARNDNC_READ_HEADS env) \<and>
         controller_outputs env no memory_width =
           no + memory_width * int (DEEPLEARNDNC_WRITE_HEADS env) +
           (memory_width + 3) * int (DEEPLEARNDNC_READ_HEADS env) \<and>
         controller (learner s') = Ptr (length (heap s)) \<and>
         length (heap s) < length (heap s') \<and>
         heap s' ! length (heap s) =
           Some (Net (snd (deeplearn_init env
             (ni + memory_width * int (DEEPLEARNDNC_READ_HEADS env)) nh hl
             (no + memory_width * int (DEEPLEARNDNC_WRITE_HEADS env) +
                (memory_width + 3) * int (DEEPLEARNDNC_READ_HEADS env))
             et rs (fresh_net env (mallocs s)))))"
  using bank_fitsI [OF room]
proof (cases rule: init_cases [of env memory_size memory_width ni nh hl no et rs s])
  case (outcome rc s' c)
  note w = controller_widths [OF valid]
  have c: "c = init_mallocs env memory_size"
  proof (rule ccontr)
    assume "c \<noteq> init_mallocs env memory_size"
    with outcome(3) have lt: "c < init_mallocs env memory_size" by simp
    with outcome(5) have "malloc_fails env (mallocs s + c)" by simp
    with granted lt show False by simp
  qed
  then have c3: "c \<noteq> 0" "1 \<le> c" by (simp_all add: init_mallocs_def)
  from outcome(13) c3 have ctl: "controller (learner s') = Ptr (length (heap s))" by simp
  from outcome(7) c3 have len: "length (heap s) < length (heap s')" by simp
  from outcome(14) c3 c have net: "heap s' ! length (heap s) =
      Some (Net (snd (made_controller env memory_width ni nh hl no et rs (mallocs s))))"
    by simp
  show ?thesis
    apply (rule exI [of _ rc], rule exI [of _ s'])
    using outcome(1) w ctl len net
    apply (simp add: made_controller_def)
    done
qed

theorem init_controller_widths_witness:
  "\<exists>rc s'. deeplearn_dnc_init demo_env 20 1 10 20 1 2 () () demo_start = Inr (rc, s') \<and>
     controller_inputs demo_env 10 1 = 11 \<and> controller_outputs demo_env 2 1 = 7 \<and>
     controller (learner s') = Ptr 0 \<and>
     heap s' ! 0 = Some (Net [11, 20, 1, 7])"
proof -
  have "\<exists>rc s'. deeplearn_dnc_init demo_env 20 1 10 20 1 2 () () demo_start = Inr (rc, s') \<and>
        controller_inputs demo_env 10 1 = 10 + 1 * int (DEEPLEARNDNC_READ_HEADS demo_env) \<and>
        controller_outputs demo_env 2 1 =
           2 + 1 * int (DEEPLEARNDNC_WRITE_HEADS demo_env) +
           (1 + 3) * int (DEEPLEARNDNC_READ_HEADS demo_env) \<and>
        controller (learner s') = Ptr (length (heap demo_start)) \<and>
        length (heap demo_start) < length (heap s') \<and>
        heap s' ! length (heap demo_start) =
          Some (Net (snd (deeplearn_init demo_env
            (10 + 1 * int (DEEPLEARNDNC_READ_HEADS demo_env)) 20 1
            (2 + 1 * int (DEEPLEARNDNC_WRITE_HEADS demo_env) +
               (1 + 3) * int (DEEPLEARNDNC_READ_HEADS demo_env))
            () () (fresh_net demo_env (mallocs demo_start)))))"
    by (rule init_controller_widths)
      (simp_all add: demo_env_def bank_size_def to_unsigned_def signed_divide_int_def)
  then obtain rc s' where
    r: "deeplearn_dnc_init demo_env 20 1 10 20 1 2 () () demo_start = Inr (rc, s')" and
    ci: "controller_inputs demo_env 10 1 = 10 + 1 * int (DEEPLEARNDNC_READ_HEADS demo_env)" and
    co: "controller_outputs demo_env 2 1 =
           2 + 1 * int (DEEPLEARNDNC_WRITE_HEADS demo_env) +
           (1 + 3) * int (DEEPLEARNDNC_READ_HEADS demo_env)" and
    ct: "controller (learner s') = Ptr (length (heap demo_start))" and
    nt: "heap s' ! length (heap demo_start) =
          Some (Net (snd (deeplearn_init demo_env
            (10 + 1 * int (DEEPLEARNDNC_READ_HEADS demo_env)) 20 1
            (2 + 1 * int (DEEPLEARNDNC_WRITE_HEADS demo_env) +
               (1 + 3) * int (DEEPLEARNDNC_READ_HEADS demo_env))
            () () (fresh_net demo_env (mallocs demo_start)))))"
    by blast
  from ci have ci': "controller_inputs demo_env 10 1 = 11" by (simp add: demo_env_def)
  from co have co': "controller_outputs demo_env 2 1 = 7" by (simp add: demo_env_def)
  from ct have ct': "controller (learner s') = Ptr 0" by (simp add: demo_start_def)
  from nt have nt': "heap s' ! 0 = Some (Net [11, 20, 1, 7])"
    by (simp add: demo_env_def demo_start_def)
  from r ci' co' ct' nt' show ?thesis by blast
qed

section \<open>What the bank holds after initialisation\<close>

text \<open>
  C5 claims that after a successful \<open>deeplearn_dnc_init\<close> every element of every
  address vector is zero. The vectors come from \<open>malloc\<close> and nothing is written to
  them: with an allocator that hands out blocks filled with \<open>0xAA\<close>, the first
  \<open>float\<close> of the first vector is not zero.
\<close>

theorem init_zeroes_bank_counterexample:
  "deeplearn_dnc_init demo_env 20 1 10 20 1 2 () () demo_start = Inr (0, demo_ready) \<and>
   load_ptr demo_ready (mem_address (memory (learner demo_ready))) 0 = Inr (Ptr 2) \<and>
   float_bytes demo_ready (Ptr 2) 0 = Inr [170, 170, 170, 170] \<and>
   \<not> float_is_zero demo_ready (Ptr 2) 0"
  using demo_init demo_floats(1,2)
  by (simp add: float_is_zero_def sizeof_float_def replicate_numeral_unfold)

text \<open>
  C5, as amended: after a successful \<open>deeplearn_dnc_init\<close>, for a width whose byte
  count \<open>memory.width * sizeof(float)\<close> fits \<open>size_t\<close>, every slot \<open>i\<close> below
  \<open>memory.size\<close> of the array of addresses points to a buffer of its own, all
  \<open>memory.width\<close> floats of it can be read, and float \<open>j\<close> consists of the bytes the
  allocator handed out for that buffer (call number \<open>2 + i\<close> of the initialisation):
  \<open>deeplearn_dnc_init\<close> does not initialise them.
\<close>

theorem init_bank_contents:
  fixes s :: "'c state" and env :: "('c, 't, 'r) env"
  assumes ok: "deeplearn_dnc_init env memory_size memory_width ni nh hl no et rs s = Inr (0, s')"
    and room: "to_unsigned memory_width * int sizeof_float < 2 ^ (8 * sizeof_float_ptr env)"
    and i: "i < nat (mem_size (memory (learner s')))"
    and j: "j < nat (mem_width (memory (learner s')))"
  shows "load_ptr s' (mem_address (memory (learner s'))) i = Inr (Ptr (length (heap s) + 2 + i)) \<and>
         float_bytes s' (Ptr (length (heap s) + 2 + i)) j =
           Inr (map (fresh_bytes env (mallocs s + 2 + i))
                  [j * sizeof_float..<(j + 1) * sizeof_float])"
proof (rule init_success_granted [OF ok])
  assume sz: "mem_size (memory (learner s')) = bank_size env memory_size"
    and wd: "mem_width (memory (learner s')) = to_unsigned memory_width"
    and ad: "mem_address (memory (learner s')) = Ptr (length (heap s) + 1)"
    and len: "length (heap s') = length (heap s) + init_mallocs env memory_size"
    and arr: "\<exists>ps'. heap s' ! (length (heap s) + 1) = Some (Ptrs ps') \<and>
        length ps' = nat (bank_size env memory_size) \<and>
        (\<forall>j < nat (bank_size env memory_size). ps' ! j = Ptr (length (heap s) + 2 + j))"
    and vec: "\<forall>j < nat (bank_size env memory_size). heap s' ! (length (heap s) + 2 + j) =
        Some (Bytes (map (fresh_bytes env (mallocs s + 2 + j))
                [0..<byte_count env (to_unsigned memory_width) sizeof_float]))"
  from i sz have i': "i < nat (bank_size env memory_size)" by simp
  from arr obtain ps' where ps: "heap s' ! (length (heap s) + 1) = Some (Ptrs ps')"
    "length ps' = nat (bank_size env memory_size)"
    "\<forall>j < nat (bank_size env memory_size). ps' ! j = Ptr (length (heap s) + 2 + j)" by blast
  have l1: "length (heap s) + 1 < length (heap s')" using len by (simp add: init_mallocs_def)
  have "load_ptr s' (mem_address (memory (learner s'))) i = Inr (ps' ! i)"
    using ps(1,2) l1 i' ad by (simp add: load_ptr_def lookup_def)
  with ps(3) i' have ld: "load_ptr s' (mem_address (memory (learner s'))) i =
      Inr (Ptr (length (heap s) + 2 + i))" by simp
  have l2: "length (heap s) + 2 + i < length (heap s')" using len i'
    by (simp add: init_mallocs_def)
  from vec i' have blk: "heap s' ! (length (heap s) + 2 + i) =
        Some (Bytes (map (fresh_bytes env (mallocs s + 2 + i))
                [0..<byte_count env (to_unsigned memory_width) sizeof_float]))" by blast
  from room have "width_fits env memory_width" by (simp add: width_fits_def)
  then have bytes: "byte_count env (to_unsigned memory_width) sizeof_float =
      nat (to_unsigned memory_width) * sizeof_float" by (rule width_fits_bytes)
  from j wd have "j + 1 \<le> nat (to_unsigned memory_width)" by simp
  then have "(j + 1) * sizeof_float \<le> nat (to_unsigned memory_width) * sizeof_float"
    by (rule mult_le_mono1)
  with bytes have j': "(j + 1) * sizeof_float \<le>
      byte_count env (to_unsigned memory_width) sizeof_float" by simp
  from float_bytes_of_block [OF l2 blk j'] ld show ?thesis by simp
qed

theorem init_bank_contents_witness:
  "load_ptr demo_ready (mem_address (memory (learner demo_ready))) 3 = Inr (Ptr 5) \<and>
   float_bytes demo_ready (Ptr 5) 0 = Inr (map (fresh_bytes demo_env 5) [0..<4])"
proof -
  have "load_ptr demo_ready (mem_address (memory (learner demo_ready))) 3 =
          Inr (Ptr (length (heap demo_start) + 2 + 3)) \<and>
        float_bytes demo_ready (Ptr (length (heap demo_start) + 2 + 3)) 0 =
          Inr (map (fresh_bytes demo_env (mallocs demo_start + 2 + 3))
                 [0 * sizeof_float..<(0 + 1) * sizeof_float])"
    by (rule init_bank_contents [OF demo_init])
      (simp_all add: demo_ready_def demo_env_def to_unsigned_def sizeof_float_def)
  then show ?thesis by (simp add: demo_start_def sizeof_float_def)
qed

section \<open>A refused address vector\<close>

text \<open>
  C6 claims that when the allocation of an address vector fails partway,
  \<open>deeplearn_dnc_init\<close> returns a bank-tagged code and leaves every pointer that was
  not allocated as a null marker, so that \<open>deeplearn_dnc_free\<close> is safe. With the fifth
  of 128 vectors refused the code is 2002, but slot 5 of the array still holds the
  dangling pointer \<open>malloc\<close> left there, the usage pointer is the one the struct held
  before the call, and \<open>deeplearn_dnc_free\<close> hands a pointer that was never allocated
  to \<open>free\<close>.
\<close>

theorem init_partial_release_counterexample:
  "deeplearn_dnc_init (demo_env_refusing 6) 128 4 10 20 1 2 () () demo_start =
     Inr (2002, demo_partial) \<and>
   load_ptr demo_partial (mem_address (memory (learner demo_partial))) 5 = Inr (Ptr 999) \<and>
   mem_usage (memory (learner demo_partial)) = mem_usage (memory (learner demo_start)) \<and>
   mem_usage (memory (learner demo_partial)) = Ptr 72 \<and>
   deeplearn_dnc_free (demo_env_refusing 6) demo_partial = Inl InvalidFree"
  using demo_init_refused demo_partial_release
  by (simp add: demo_partial_def demo_start_def)

text \<open>
  C6, as amended: for a bank whose array of addresses fits \<open>size_t\<close>, when the
  allocation of address vector \<open>k\<close> is the first call that is refused,
  \<open>deeplearn_dnc_init\<close> returns 2002. The slots below \<open>k\<close> point to the
  vectors allocated and slot \<open>k\<close> is null; the slots above \<open>k\<close> hold what
  \<open>malloc\<close> left in the array, and the usage, linkage and head pointers of the struct
  are the ones it held before the call: \<open>deeplearn_dnc_init\<close> writes no null markers.
  Nothing has been released.
\<close>

theorem init_bank_vector_refused:
  fixes s :: "'c state" and env :: "('c, 't, 'r) env"
  assumes granted: "\<forall>j < 2 + k. \<not> malloc_fails env (mallocs s + j)"
    and refused: "malloc_fails env (mallocs s + (2 + k))"
    and k: "k < nat (bank_size env memory_size)"
    and room: "0 < sizeof_float_ptr env"
      "bank_size env memory_size * int (sizeof_float_ptr env) < 2 ^ (8 * sizeof_float_ptr env)"
  shows "\<exists>s' ps'. deeplearn_dnc_init env memory_size memory_width ni nh hl no et rs s =
             Inr (2002, s') \<and>
           mem_address (memory (learner s')) = Ptr (length (heap s) + 1) \<and>
           heap s' ! (length (heap s) + 1) = Some (Ptrs ps') \<and>
           length ps' = nat (bank_size env memory_size) \<and>
           (\<forall>j < nat (bank_size env memory_size). ps' ! j =
              (if j < k then Ptr (length (heap s) + 2 + j)
               else if j = k then Null else fresh_ptrs env (mallocs s + 1) j)) \<and>
           mem_usage (memory (learner s')) = mem_usage (memory (learner s)) \<and>
           mem_usage_temporal (memory (learner s')) = mem_usage_temporal (memory (learner s)) \<and>
           read_head (learner s') = read_head (learner s) \<and>
           write_head (learner s') = write_head (learner s) \<and>
           trace s' = trace s"
  using bank_fitsI [OF room]
proof (cases rule: init_cases [of env memory_size memory_width ni nh hl no et rs s])
  case (outcome rc s' c)
  have kT: "2 + k < init_mallocs env memory_size" using k by (simp add: init_mallocs_def)
  have c: "c = 2 + k"
  proof (rule ccontr)
    assume "c \<noteq> 2 + k"
    then consider "c < 2 + k" | "2 + k < c" by linarith
    then show False
    proof cases
      case 1
      with kT outcome(5) have "malloc_fails env (mallocs s + c)" by simp
      with granted 1 show False by simp
    next
      case 2
      with outcome(4) have "\<not> malloc_fails env (mallocs s + (2 + k))" by blast
      with refused show False by simp
    qed
  qed
  have rc: "rc = 2002" using outcome(10) c k by (simp add: init_code_def)
  from outcome(15) c obtain ps' where ps: "heap s' ! (length (heap s) + 1) = Some (Ptrs ps')"
    "length ps' = nat (bank_size env memory_size)"
    "\<forall>j < nat (bank_size env memory_size). ps' ! j =
           (if j < c - 2 then Ptr (length (heap s) + 2 + j)
            else if j = c - 2 then Null else fresh_ptrs env (mallocs s + 1) j)" by auto
  have ad: "mem_address (memory (learner s')) = Ptr (length (heap s) + 1)"
    using outcome(14) c by simp
  have unt: "mem_usage (memory (learner s')) = mem_usage (memory (learner s))"
    "mem_usage_temporal (memory (learner s')) = mem_usage_temporal (memory (learner s))"
    "read_head (learner s') = read_head (learner s)"
    "write_head (learner s') = write_head (learner s)"
    using outcome(17) c k by simp_all
  show ?thesis
    apply (rule exI [of _ s'], rule exI [of _ ps'])
    using outcome(1) rc ad ps unt outcome(2) c
    apply simp
    done
qed

theorem init_bank_vector_refused_witness:
  "\<exists>s' ps'. deeplearn_dnc_init (demo_env_refusing 6) 128 4 10 20 1 2 () () demo_start =
       Inr (2002, s') \<and>
     heap s' ! 1 = Some (Ptrs ps') \<and> length ps' = 128 \<and>
     ps' ! 3 = Ptr 5 \<and> ps' ! 4 = Null \<and> ps' ! 5 = Ptr 999 \<and>
     mem_usage (memory (learner s')) = Ptr 72 \<and>
     read_head (learner s') = [\<lparr>rh_key = Ptr 75\<rparr>]"
proof -
  have bsz: "bank_size (demo_env_refusing 6) 128 = 128"
    by (simp add: bank_size_def demo_env_refusing_def demo_env_def to_unsigned_def
        signed_divide_int_def)
  then have bs: "nat (bank_size (demo_env_refusing 6) 128) = 128" by simp
  have "\<exists>s' ps'. deeplearn_dnc_init (demo_env_refusing 6) 128 4 10 20 1 2 () () demo_start =
             Inr (2002, s') \<and>
           mem_address (memory (learner s')) = Ptr (length (heap demo_start) + 1) \<and>
           heap s' ! (length (heap demo_start) + 1) = Some (Ptrs ps') \<and>
           length ps' = nat (bank_size (demo_env_refusing 6) 128) \<and>
           (\<forall>j < nat (bank_size (demo_env_refusing 6) 128). ps' ! j =
              (if j < 4 then Ptr (length (heap demo_start) + 2 + j)
               else if j = 4 then Null
               else fresh_ptrs (demo_env_refusing 6) (mallocs demo_start + 1) j)) \<and>
           mem_usage (memory (learner s')) = mem_usage (memory (learner demo_start)) \<and>
           mem_usage_temporal (memory (learner s')) =
             mem_usage_temporal (memory (learner demo_start)) \<and>
           read_head (learner s') = read_head (learner demo_start) \<and>
           write_head (learner s') = write_head (learner demo_start) \<and>
           trace s' = trace demo_start"
    by (rule init_bank_vector_refused)
      (simp_all add: bs bsz, simp_all add: demo_env_refusing_def demo_env_def demo_start_def)
  then obtain s' ps' where
    r: "deeplearn_dnc_init (demo_env_refusing 6) 128 4 10 20 1 2 () () demo_start =
          Inr (2002, s')" and
    a: "heap s' ! (length (heap demo_start) + 1) = Some (Ptrs ps')" "length ps' = 128" and
    sl: "\<forall>j < 128. ps' ! j =
              (if j < 4 then Ptr (length (heap demo_start) + 2 + j)
               else if j = 4 then Null
               else fresh_ptrs (demo_env_refusing 6) (mallocs demo_start + 1) j)" and
    u: "mem_usage (memory (learner s')) = mem_usage (memory (learner demo_start))"
       "read_head (learner s') = read_head (learner demo_start)"
    unfolding bs by blast
  from sl have "ps' ! 3 = Ptr 5 \<and> ps' ! 4 = Null \<and> ps' ! 5 = Ptr 999"
    by (simp add: demo_start_def demo_env_refusing_def demo_env_def)
  with r a u show ?thesis
    by (intro exI [of _ s'] exI [of _ ps']) (simp add: demo_start_def)
qed

section \<open>The codes of a failed initialisation\<close>

text \<open>
  C3: the code \<open>deeplearn_dnc_init\<close> returns is to tell which subsystem failed, each
  in a range of its own and none of them 0, and the source tags a failed controller
  with \<open>5000 + retval\<close> as it tags the stages before it. But \<open>retval\<close> is an
  \<open>unsigned int\<close> and the status of the controller library is an \<open>int\<close>: a
  controller that fails with status \<open>-5000\<close> makes \<open>deeplearn_dnc_init\<close> return 0,
  the value of success; with \<open>-1\<close> it returns 4999, in the range of the heads; and with
  \<open>-999\<close> it returns 4001, the very code of a refused read-head key (call number 21
  here).
\<close>

theorem init_controller_status_wraps:
  "fst (deeplearn_init (demo_env_status (- 5000)) 11 20 1 7 () () []) = - 5000 \<and>
   map_sum id fst (deeplearn_dnc_init (demo_env_status (- 5000)) 20 1 10 20 1 2 () ()
     demo_start) = Inr 0 \<and>
   map_sum id fst (deeplearn_dnc_init (demo_env_status (- 1)) 20 1 10 20 1 2 () ()
     demo_start) = Inr 4999 \<and>
   map_sum id fst (deeplearn_dnc_init (demo_env_status (- 999)) 20 1 10 20 1 2 () ()
     demo_start) = Inr 4001 \<and>
   map_sum id fst (deeplearn_dnc_init (demo_env_refusing 21) 20 1 10 20 1 2 () ()
     demo_start) = Inr 4001"
proof -
  have T: "init_mallocs (demo_env_status st) 20 = 25" "init_mallocs (demo_env_refusing 21) 20 = 25"
    for st
    by (simp_all add: init_mallocs_def bank_size_def demo_env_status_def demo_env_refusing_def
        demo_env_def to_unsigned_def signed_divide_int_def)
  have fits: "bank_fits (demo_env_status st) 20" "bank_fits (demo_env_refusing 21) 20" for st
    by (simp_all add: bank_fits_def byte_count_def bank_size_def demo_env_status_def
        demo_env_refusing_def demo_env_def to_unsigned_def signed_divide_int_def)
  have st: "map_sum id fst (deeplearn_dnc_init (demo_env_status st) 20 1 10 20 1 2 () ()
       demo_start) = Inr (init_code (demo_env_status st) 20 st 25)" for st
  proof -
    have "map_sum id fst (deeplearn_dnc_init (demo_env_status st) 20 1 10 20 1 2 () ()
        demo_start) =
      Inr (init_code (demo_env_status st) 20
        (fst (made_controller (demo_env_status st) 1 10 20 1 2 () () (mallocs demo_start)))
        (init_mallocs (demo_env_status st) 20))"
      by (rule init_first_refusal [OF fits(1)])
        (simp_all add: demo_env_status_def demo_env_def)
    then show ?thesis
      unfolding T by (simp add: made_controller_def demo_env_status_def)
  qed
  have code: "init_code (demo_env_status st) 20 st 25 =
      (if to_unsigned st \<noteq> 0 then to_signed (to_unsigned (5000 + to_unsigned st)) else 0)"
    for st
    by (simp add: init_code_def bank_size_def demo_env_status_def demo_env_def to_unsigned_def
        signed_divide_int_def)
  have rf: "map_sum id fst (deeplearn_dnc_init (demo_env_refusing 21) 20 1 10 20 1 2 () ()
       demo_start) = Inr 4001"
  proof -
    have "map_sum id fst (deeplearn_dnc_init (demo_env_refusing 21) 20 1 10 20 1 2 () ()
        demo_start) =
      Inr (init_code (demo_env_refusing 21) 20
        (fst (made_controller (demo_env_refusing 21) 1 10 20 1 2 () () (mallocs demo_start)))
        21)"
      by (rule init_first_refusal [OF fits(2)])
        (simp_all add: T, simp_all add: demo_env_refusing_def demo_start_def)
    then show ?thesis
      by (simp add: init_code_def bank_size_def demo_env_refusing_def demo_env_def
          to_unsigned_def signed_divide_int_def)
  qed
  show ?thesis
    unfolding st code using rf
    by (simp add: demo_env_status_def to_unsigned_def to_signed_def)
qed

section \<open>The order of a release\<close>

text \<open>
  C8 claims that \<open>deeplearn_dnc_free\<close> releases the heads first, then the usage
  tracker, then the bank and last the controller. On the initialised instance
  \<open>demo_ready\<close> the calls are: the 16 address vectors and the array of addresses (the
  bank), the usage vector and the two linkage matrices, the read-head key, the three
  vectors of the write head, and last the controller.
\<close>

theorem release_order_counterexample:
  "map_sum id trace (deeplearn_dnc_free demo_env demo_ready) =
     Inr [Free (Ptr 2), Free (Ptr 3), Free (Ptr 4), Free (Ptr 5), Free (Ptr 6), Free (Ptr 7),
          Free (Ptr 8), Free (Ptr 9), Free (Ptr 10), Free (Ptr 11), Free (Ptr 12),
          Free (Ptr 13), Free (Ptr 14), Free (Ptr 15), Free (Ptr 16), Free (Ptr 17),
          Free (Ptr 1), Free (Ptr 18), Free (Ptr 19), Free (Ptr 20), Free (Ptr 21),
          Free (Ptr 22), Free (Ptr 23), Free (Ptr 24), NetFree (Ptr 0)] \<and>
   map_sum id trace (deeplearn_dnc_free demo_env demo_ready) \<noteq>
     Inr [Free (Ptr 21), Free (Ptr 22), Free (Ptr 23), Free (Ptr 24),
          Free (Ptr 18), Free (Ptr 19), Free (Ptr 20),
          Free (Ptr 2), Free (Ptr 3), Free (Ptr 4), Free (Ptr 5), Free (Ptr 6), Free (Ptr 7),
          Free (Ptr 8), Free (Ptr 9), Free (Ptr 10), Free (Ptr 11), Free (Ptr 12),
          Free (Ptr 13), Free (Ptr 14), Free (Ptr 15), Free (Ptr 16), Free (Ptr 17),
          Free (Ptr 1), NetFree (Ptr 0)] \<and>
   rh_key (read_head (learner demo_ready) ! 0) = Ptr 21 \<and>
   mem_usage (memory (learner demo_ready)) = Ptr 18 \<and>
   mem_address (memory (learner demo_ready)) = Ptr 1"
  unfolding demo_release by (simp add: demo_ready_def)

text \<open>
  C8, as amended: \<open>deeplearn_dnc_free\<close> releases the subsystems in the order they
  were allocated in: first the memory bank (every address vector, then the array of
  addresses), then the usage tracker (the usage vector, then every linkage matrix), then
  the heads (the read-head keys, then write, erase and key of every write head), and
  last the controller network.
\<close>

theorem release_order:
  assumes rel: "deeplearn_dnc_free env s = Inr s'"
    and shape: "dnc_shape env (learner s)"
    and bank: "lookup s (mem_address (memory (learner s))) = Inr (a, Ptrs ps)"
  shows "trace s' = trace s @
           map Free (take (nat (mem_size (memory (learner s)))) ps) @
           [Free (mem_address (memory (learner s)))] @
           [Free (mem_usage (memory (learner s)))] @
           map Free (mem_usage_temporal (memory (learner s))) @
           map (\<lambda>h. Free (rh_key h)) (read_head (learner s)) @
           concat (map (\<lambda>h. [Free (wh_write h), Free (wh_erase h), Free (wh_key h)])
                     (write_head (learner s))) @
           [NetFree (controller (learner s))]"
proof -
  from rel obtain s1 s2 s3 s4 s5 s6 s7 where
    s1: "free_vectors (nat (mem_size (memory (learner s)))) 0 s = Inr s1" and
    s2: "free (mem_address (memory (learner s1))) s1 = Inr s2" and
    s3: "free (mem_usage (memory (learner s2))) s2 = Inr s3" and
    s4: "free_usage_temporal env 0 s3 = Inr s4" and
    s5: "free_read_heads env 0 s4 = Inr s5" and
    s6: "free_write_heads env 0 s5 = Inr s6" and
    s7: "on_controller (deeplearn_free env) s6 = Inr s7" and
    s': "s' = s7\<lparr>trace := trace s7 @ [NetFree (controller (learner s7))]\<rparr>"
    by (auto simp: deeplearn_dnc_free_def deeplearn_dnc_free_memory_def
        deeplearn_dnc_free_memory_usage_def deeplearn_dnc_free_heads_def
        deeplearn_free_call_def split: sum.splits)
  from bank have b: "mem_address (memory (learner s)) = Ptr a" "a < length (heap s)"
    "heap s ! a = Some (Ptrs ps)"
    by (auto simp: lookup_def split: ptr.splits option.splits if_splits)
  have l1: "learner s1 = learner s" using s1 by (rule free_vectors_learner)
  have l2: "learner s2 = learner s" using free_cases [OF s2] l1 by simp
  have l3: "learner s3 = learner s" using free_cases [OF s3] l2 by simp
  have l4: "learner s4 = learner s" using free_usage_temporal_learner [OF s4] l3 by simp
  have l5: "learner s5 = learner s" using free_read_heads_learner [OF s5] l4 by simp
  have l6: "learner s6 = learner s" using free_write_heads_learner [OF s6] l5 by simp
  note f7 = on_controller_frame [OF s7]
  have t1: "trace s1 = trace s @ map Free (take (nat (mem_size (memory (learner s)))) ps)"
    using free_vectors_trace [OF s1 b] by simp
  have t2: "trace s2 = trace s1 @ [Free (mem_address (memory (learner s)))]"
    using free_cases [OF s2] l1 by simp
  have t3: "trace s3 = trace s2 @ [Free (mem_usage (memory (learner s)))]"
    using free_cases [OF s3] l2 by simp
  from shape have len: "length (mem_usage_temporal (memory (learner s))) =
      DEEPLEARNDNC_READ_HEADS env + DEEPLEARNDNC_WRITE_HEADS env"
    "length (read_head (learner s)) = DEEPLEARNDNC_READ_HEADS env"
    "length (write_head (learner s)) = DEEPLEARNDNC_WRITE_HEADS env"
    by (simp_all add: dnc_shape_def)
  have t4: "trace s4 = trace s3 @ map Free (mem_usage_temporal (memory (learner s)))"
  proof -
    have "map (\<lambda>j. Free (mem_usage_temporal (memory (learner s)) ! j))
        [0..<length (mem_usage_temporal (memory (learner s)))] =
        map Free (map ((!) (mem_usage_temporal (memory (learner s))))
          [0..<length (mem_usage_temporal (memory (learner s)))])" by simp
    also have "\<dots> = map Free (mem_usage_temporal (memory (learner s)))"
      by (simp only: map_nth)
    finally show ?thesis using free_usage_temporal_trace [OF s4] l3 len(1) by simp
  qed
  have t5: "trace s5 = trace s4 @ map (\<lambda>h. Free (rh_key h)) (read_head (learner s))"
  proof -
    have "map (\<lambda>j. Free (rh_key (read_head (learner s) ! j)))
        [0..<length (read_head (learner s))] =
        map (\<lambda>h. Free (rh_key h)) (map ((!) (read_head (learner s)))
          [0..<length (read_head (learner s))])" by simp
    also have "\<dots> = map (\<lambda>h. Free (rh_key h)) (read_head (learner s))"
      by (simp only: map_nth)
    finally show ?thesis using free_read_heads_trace [OF s5] l4 len(2) by simp
  qed
  have t6: "trace s6 = trace s5 @
      concat (map (\<lambda>h. [Free (wh_write h), Free (wh_erase h), Free (wh_key h)])
                (write_head (learner s)))"
  proof -
    have "map (\<lambda>j. [Free (wh_write (write_head (learner s) ! j)),
            Free (wh_erase (write_head (learner s) ! j)),
            Free (wh_key (write_head (learner s) ! j))])
        [0..<length (write_head (learner s))] =
        map (\<lambda>h. [Free (wh_write h), Free (wh_erase h), Free (wh_key h)])
          (map ((!) (write_head (learner s))) [0..<length (write_head (learner s))])" by simp
    also have "\<dots> = map (\<lambda>h. [Free (wh_write h), Free (wh_erase h), Free (wh_key h)])
        (write_head (learner s))"
      by (simp only: map_nth)
    finally show ?thesis using free_write_heads_trace [OF s6] l5 len(3) by simp
  qed
  have t7: "trace s' = trace s6 @ [NetFree (controller (learner s))]"
    using f7 l6 by (simp add: s')
  show ?thesis unfolding t7 t6 t5 t4 t3 t2 t1 by simp
qed

theorem release_order_witness:
  "\<exists>s'. deeplearn_dnc_free demo_env demo_ready = Inr s' \<and>
     trace s' =
       [Free (Ptr 2), Free (Ptr 3), Free (Ptr 4), Free (Ptr 5), Free (Ptr 6), Free (Ptr 7),
        Free (Ptr 8), Free (Ptr 9), Free (Ptr 10), Free (Ptr 11), Free (Ptr 12),
        Free (Ptr 13), Free (Ptr 14), Free (Ptr 15), Free (Ptr 16), Free (Ptr 17),
        Free (Ptr 1), Free (Ptr 18), Free (Ptr 19), Free (Ptr 20), Free (Ptr 21),
        Free (Ptr 22), Free (Ptr 23), Free (Ptr 24), NetFree (Ptr 0)]"
proof -
  from demo_release obtain s' where r: "deeplearn_dnc_free demo_env demo_ready = Inr s'"
    by (cases "deeplearn_dnc_free demo_env demo_ready") simp_all
  have shape: "dnc_shape demo_env (learner demo_ready)"
    by (simp add: dnc_shape_def demo_env_def demo_ready_def)
  have bank: "lookup demo_ready (mem_address (memory (learner demo_ready))) =
      Inr (1, Ptrs [Ptr 2, Ptr 3, Ptr 4, Ptr 5, Ptr 6, Ptr 7, Ptr 8, Ptr 9, Ptr 10,
                    Ptr 11, Ptr 12, Ptr 13, Ptr 14, Ptr 15, Ptr 16, Ptr 17])"
    by (simp add: lookup_def demo_ready_def)
  from release_order [OF r shape bank] have "trace s' =
       [Free (Ptr 2), Free (Ptr 3), Free (Ptr 4), Free (Ptr 5), Free (Ptr 6), Free (Ptr 7),
        Free (Ptr 8), Free (Ptr 9), Free (Ptr 10), Free (Ptr 11), Free (Ptr 12),
        Free (Ptr 13), Free (Ptr 14), Free (Ptr 15), Free (Ptr 16), Free (Ptr 17),
        Free (Ptr 1), Free (Ptr 18), Free (Ptr 19), Free (Ptr 20), Free (Ptr 21),
        Free (Ptr 22), Free (Ptr 23), Free (Ptr 24), NetFree (Ptr 0)]"
    by (simp add: demo_ready_def)
  with r show ?thesis by blast
qed

section \<open>Clearing an initialised instance\<close>


section \<open>What clearing leaves of the linkage matrices\<close>

text \<open>
  C2 says that after \<open>deeplearn_dnc_clear_memory\<close> every element of every address
  vector, of the usage vector and of every linkage matrix reads as zero. The code hands
  \<open>learner->memory.usage_temporal\<close>, the array of pointers, to \<open>memset\<close>: on the
  32-bit instance \<open>demo_ready\<close> the first pointer of the array becomes null and both
  linkage matrices keep the bytes they held. On a 64-bit build the second \<open>memset\<close>
  runs over \<open>sizeof(float*)\<close> bytes per usage element and leaves the usage buffer.
\<close>

theorem clear_memory_linkage_untouched:
  "deeplearn_dnc_clear_memory demo_env demo_ready = Inr demo_cleared \<and>
   mem_usage_temporal (memory (learner demo_ready)) = [Ptr 19, Ptr 20] \<and>
   mem_usage_temporal (memory (learner demo_cleared)) = [Null, Ptr 20] \<and>
   float_bytes demo_cleared (Ptr 19) 0 = Inr [170, 170, 170, 170] \<and>
   float_bytes demo_cleared (Ptr 20) 0 = Inr [170, 170, 170, 170] \<and>
   \<not> float_is_zero demo_cleared (Ptr 19) 0 \<and>
   \<not> float_is_zero demo_cleared (Ptr 20) 0 \<and>
   deeplearn_dnc_clear_memory demo_env64 demo_ready = Inl OutOfBounds"
  using demo_clear demo_clear64 demo_floats(3,4)
  by (simp add: float_is_zero_def sizeof_float_def replicate_numeral_unfold)
    (simp add: demo_ready_def demo_cleared_def)

section \<open>The bank's dimensions and the overrun of clearing\<close>


section \<open>Feed-forward only runs the controller\<close>

text \<open>
  C7: \<open>deeplearn_dnc_update_read_heads\<close> and \<open>deeplearn_dnc_update_write_heads\<close>
  return the state they are given. One \<open>deeplearn_dnc_feed_forward\<close> completes exactly
  when \<open>learner->controller\<close> points to a controller object, and then the state differs
  from the one before in that object alone, which has taken one library feed-forward
  pass. After any number of calls the struct, the trace and every block that is not a
  controller object (the bank, the usage tracker, the head vectors) are unchanged,
  whatever the head vectors hold.
\<close>

theorem feed_forward_is_controller_only:
  "deeplearn_dnc_update_read_heads s = s \<and> deeplearn_dnc_update_write_heads s = s \<and>
   (\<forall>s'. deeplearn_dnc_feed_forward env s = Inr s' \<longleftrightarrow>
      (\<exists>a c. controller (learner s) = Ptr a \<and> a < length (heap s) \<and>
         heap s ! a = Some (Net c) \<and>
         s' = s\<lparr>heap := (heap s)[a := Some (Net (deeplearn_feed_forward env c))]\<rparr>)) \<and>
   (\<forall>n s'. run env (replicate n Feed_forward) s = Inr s' \<longrightarrow>
      learner s' = learner s \<and> trace s' = trace s \<and> mallocs s' = mallocs s \<and>
      length (heap s') = length (heap s) \<and>
      (\<forall>b. (\<forall>c. heap s ! b \<noteq> Some (Net c)) \<longrightarrow> heap s' ! b = heap s ! b))"
proof (intro conjI allI impI)
  show "deeplearn_dnc_update_read_heads s = s"
    by (simp add: deeplearn_dnc_update_read_heads_def)
  show "deeplearn_dnc_update_write_heads s = s"
    by (simp add: deeplearn_dnc_update_write_heads_def)
  show "deeplearn_dnc_feed_forward env s = Inr s' \<longleftrightarrow>
      (\<exists>a c. controller (learner s) = Ptr a \<and> a < length (heap s) \<and>
         heap s ! a = Some (Net c) \<and>
         s' = s\<lparr>heap := (heap s)[a := Some (Net (deeplearn_feed_forward env c))]\<rparr>)" for s'
    by (simp add: deeplearn_dnc_feed_forward_def deeplearn_dnc_update_read_heads_def
        on_controller_iff)
next
  fix n s' b
  assume r: "run env (replicate n Feed_forward) s = Inr s'"
  from feed_forward_run_frame [OF r]
  show "learner s' = learner s" "trace s' = trace s" "mallocs s' = mallocs s"
    "length (heap s') = length (heap s)" by simp_all
  assume "\<forall>c. heap s ! b \<noteq> Some (Net c)"
  with feed_forward_run_frame [OF r] show "heap s' ! b = heap s ! b" by blast
qed

theorem feed_forward_is_controller_only_witness:
  "run demo_env (replicate 3 Feed_forward) demo_ready =
     Inr (demo_ready\<lparr>heap := (heap demo_ready)[0 := Some (Net [11, 20, 1, 7, 1, 1, 1])]\<rparr>) \<and>
   learner (demo_ready\<lparr>heap := (heap demo_ready)[0 := Some (Net [11, 20, 1, 7, 1, 1, 1])]\<rparr>) =
     learner demo_ready \<and>
   heap (demo_ready\<lparr>heap := (heap demo_ready)[0 := Some (Net [11, 20, 1, 7, 1, 1, 1])]\<rparr>) ! 21 =
     heap demo_ready ! 21"
proof -
  have l: "replicate 3 Feed_forward = [Feed_forward, Feed_forward, Feed_forward]"
    by (simp add: numeral_3_eq_3)
  have r: "run demo_env (replicate 3 Feed_forward) demo_ready =
     Inr (demo_ready\<lparr>heap := (heap demo_ready)[0 := Some (Net [11, 20, 1, 7, 1, 1, 1])]\<rparr>)"
    unfolding l by (rule demo_run3)
  have nn: "\<forall>c. heap demo_ready ! 21 \<noteq> Some (Net c)"
    by (simp add: demo_ready_def)
  from feed_forward_is_controller_only [of demo_ready demo_env] r nn
  have "learner (demo_ready\<lparr>heap := (heap demo_ready)[0 := Some (Net [11, 20, 1, 7, 1, 1, 1])]\<rparr>) =
     learner demo_ready \<and>
   heap (demo_ready\<lparr>heap := (heap demo_ready)[0 := Some (Net [11, 20, 1, 7, 1, 1, 1])]\<rparr>) ! 21 =
     heap demo_ready ! 21"
    by blast
  with r show ?thesis by simp
qed

end
